theory Spec2Isabelle
  imports Complex_Main "HOL-Library.Log_Nat"
begin

section \<open>JavaScript numbers\<close>

subsection \<open>Rounding to binary64\<close>

text \<open>
  The service computes with JavaScript numbers, which are IEEE 754 binary64 values. The
  result of an arithmetic operation is the exact result rounded to the nearest binary64
  value, ties going to the value whose significand is even.

  \<open>exponent x\<close> is the integer \<open>e\<close> with \<open>2^e \<le> \<bar>x\<bar> < 2^(e+1)\<close> for \<open>x \<noteq> 0\<close>; \<open>binade x\<close>
  is that exponent, but not below -1022 (the subnormal range). The binary64 values near \<open>x\<close>
  are the integer multiples of \<open>2^(binade x - 52)\<close>, and \<open>binary64 x\<close> is the nearest of
  them.
\<close>

definition exponent :: "real \<Rightarrow> int" where
  "exponent x = (if 1 \<le> \<bar>x\<bar> then bitlen \<lfloor>\<bar>x\<bar>\<rfloor> - 1 else - bitlen (\<lceil>1 / \<bar>x\<bar>\<rceil> - 1))"

definition binade :: "real \<Rightarrow> int" where
  "binade x = max (exponent x) (- 1022)"

definition roundEven :: "real \<Rightarrow> int" where
  "roundEven m =
     (if m - of_int \<lfloor>m\<rfloor> < 1 / 2 then \<lfloor>m\<rfloor>
      else if 1 / 2 < m - of_int \<lfloor>m\<rfloor> then \<lfloor>m\<rfloor> + 1
      else if even \<lfloor>m\<rfloor> then \<lfloor>m\<rfloor> else \<lfloor>m\<rfloor> + 1)"

definition binary64 :: "real \<Rightarrow> real" where
  "binary64 x =
     (if x = 0 then 0
      else of_int (roundEven (x * 2 powi (52 - binade x))) * 2 powi (binade x - 52))"

subsection \<open>Numbers and their arithmetic\<close>

text \<open>
  A number is a finite binary64 value (\<open>Num x\<close>, with \<open>x\<close> the real it denotes), one of the
  two infinities, or NaN. \<open>number x\<close> is the number that an exact result \<open>x\<close> rounds to: the
  infinity of its sign when the rounded magnitude reaches \<open>2^1024\<close>. The special values
  follow IEEE 754 as JavaScript exposes it: \<open>0/0\<close> is NaN, \<open>x/0\<close> is an infinity for
  \<open>x \<noteq> 0\<close>, every comparison with NaN is false. The sign of zero is not modelled: a
  negative zero among the inputs is absorbed by \<open>|| 0\<close>, by a truthiness test, by the
  addition to a total that starts from \<open>0\<close> or by a comparison, and the service divides
  only by lengths, counters and such totals.
\<close>

datatype jsnum = Num real | PInf | NInf | NaN

text \<open>The infinity with the given sign (\<open>True\<close>: negative).\<close>

definition jsinf :: "bool \<Rightarrow> jsnum" where
  "jsinf negative = (if negative then NInf else PInf)"

definition overflowThreshold :: real where
  "overflowThreshold = 2 ^ 1024"

definition number :: "real \<Rightarrow> jsnum" where
  "number x =
     (if overflowThreshold \<le> \<bar>binary64 x\<bar> then jsinf (x < 0) else Num (binary64 x))"

fun jsgt :: "jsnum \<Rightarrow> jsnum \<Rightarrow> bool" where
  "jsgt NaN _ = False"
| "jsgt _ NaN = False"
| "jsgt (Num a) (Num b) = (a > b)"
| "jsgt PInf PInf = False"
| "jsgt PInf _ = True"
| "jsgt _ PInf = False"
| "jsgt NInf _ = False"
| "jsgt (Num a) NInf = True"

definition jslt :: "jsnum \<Rightarrow> jsnum \<Rightarrow> bool" where
  "jslt a b = jsgt b a"

fun jsge :: "jsnum \<Rightarrow> jsnum \<Rightarrow> bool" where
  "jsge NaN _ = False"
| "jsge _ NaN = False"
| "jsge (Num a) (Num b) = (a \<ge> b)"
| "jsge PInf _ = True"
| "jsge _ NInf = True"
| "jsge NInf _ = False"
| "jsge (Num a) PInf = False"

definition jsle :: "jsnum \<Rightarrow> jsnum \<Rightarrow> bool" where
  "jsle a b = jsge b a"

fun jsneg :: "jsnum \<Rightarrow> jsnum" where
  "jsneg (Num a) = Num (- a)"
| "jsneg PInf = NInf"
| "jsneg NInf = PInf"
| "jsneg NaN = NaN"

fun jsadd :: "jsnum \<Rightarrow> jsnum \<Rightarrow> jsnum" where
  "jsadd NaN _ = NaN"
| "jsadd _ NaN = NaN"
| "jsadd (Num a) (Num b) = number (a + b)"
| "jsadd PInf NInf = NaN"
| "jsadd NInf PInf = NaN"
| "jsadd PInf _ = PInf"
| "jsadd NInf _ = NInf"
| "jsadd (Num a) PInf = PInf"
| "jsadd (Num a) NInf = NInf"

definition jssub :: "jsnum \<Rightarrow> jsnum \<Rightarrow> jsnum" where
  "jssub a b = jsadd a (jsneg b)"

fun jsmul :: "jsnum \<Rightarrow> jsnum \<Rightarrow> jsnum" where
  "jsmul NaN _ = NaN"
| "jsmul _ NaN = NaN"
| "jsmul (Num a) (Num b) = number (a * b)"
| "jsmul PInf PInf = PInf"
| "jsmul PInf NInf = NInf"
| "jsmul NInf PInf = NInf"
| "jsmul NInf NInf = PInf"
| "jsmul PInf (Num b) = (if b = 0 then NaN else jsinf (b < 0))"
| "jsmul NInf (Num b) = (if b = 0 then NaN else jsinf (0 < b))"
| "jsmul (Num a) PInf = (if a = 0 then NaN else jsinf (a < 0))"
| "jsmul (Num a) NInf = (if a = 0 then NaN else jsinf (0 < a))"

fun jsdiv :: "jsnum \<Rightarrow> jsnum \<Rightarrow> jsnum" where
  "jsdiv NaN _ = NaN"
| "jsdiv _ NaN = NaN"
| "jsdiv (Num a) (Num b) =
     (if b \<noteq> 0 then number (a / b) else if a = 0 then NaN else jsinf (a < 0))"
| "jsdiv (Num a) PInf = Num 0"
| "jsdiv (Num a) NInf = Num 0"
| "jsdiv PInf (Num b) = jsinf (b < 0)"
| "jsdiv NInf (Num b) = jsinf (0 \<le> b)"
| "jsdiv PInf _ = NaN"
| "jsdiv NInf _ = NaN"

text \<open>\<open>Math.abs\<close>, \<open>Math.round\<close> (halves go up), \<open>Math.min\<close> and \<open>Math.max\<close> of two
  arguments and of a spread array (the empty array gives the neutral infinity; any NaN
  makes the result NaN).\<close>

fun jsabs :: "jsnum \<Rightarrow> jsnum" where
  "jsabs (Num a) = Num \<bar>a\<bar>"
| "jsabs PInf = PInf"
| "jsabs NInf = PInf"
| "jsabs NaN = NaN"

fun jsround :: "jsnum \<Rightarrow> jsnum" where
  "jsround (Num a) = Num (of_int \<lfloor>a + 1 / 2\<rfloor>)"
| "jsround PInf = PInf"
| "jsround NInf = NInf"
| "jsround NaN = NaN"

definition jsmin :: "jsnum \<Rightarrow> jsnum \<Rightarrow> jsnum" where
  "jsmin a b = (if a = NaN \<or> b = NaN then NaN else if jslt b a then b else a)"

definition jsmax :: "jsnum \<Rightarrow> jsnum \<Rightarrow> jsnum" where
  "jsmax a b = (if a = NaN \<or> b = NaN then NaN else if jsgt b a then b else a)"

definition jsminList :: "jsnum list \<Rightarrow> jsnum" where
  "jsminList xs = foldl jsmin PInf xs"

definition jsmaxList :: "jsnum list \<Rightarrow> jsnum" where
  "jsmaxList xs = foldl jsmax NInf xs"

text \<open>
  A numeric field of a JSON record is the decimal numeral of the text, a real, or absent.
  \<open>JSON.parse\<close> reads the numeral as the nearest number (\<open>number\<close>). In arithmetic and
  comparisons an absent field (\<open>undefined\<close>) converts to NaN. A number is truthy unless it is
  \<open>0\<close> or NaN; \<open>field || 0\<close> is the field when it is truthy and \<open>0\<close> otherwise.
\<close>

definition truthy :: "jsnum \<Rightarrow> bool" where
  "truthy x = (x \<noteq> Num 0 \<and> x \<noteq> NaN)"

definition toNumber :: "real option \<Rightarrow> jsnum" where
  "toNumber v = (case v of None \<Rightarrow> NaN | Some x \<Rightarrow> number x)"

definition truthyNumber :: "real option \<Rightarrow> bool" where
  "truthyNumber v = (case v of None \<Rightarrow> False | Some x \<Rightarrow> truthy (number x))"

definition orZero :: "real option \<Rightarrow> jsnum" where
  "orZero v = (if truthyNumber v then toNumber v else Num 0)"

text \<open>The value of a field, for \<open>===\<close> and \<open>!==\<close>: \<open>None\<close> is \<open>undefined\<close>.\<close>

definition fieldValue :: "real option \<Rightarrow> jsnum option" where
  "fieldValue v = map_option number v"

text \<open>A string field is truthy when it is present and not empty.\<close>

definition truthyString :: "string option \<Rightarrow> bool" where
  "truthyString v = (case v of None \<Rightarrow> False | Some s \<Rightarrow> s \<noteq> [])"

subsection \<open>Number.prototype.toFixed\<close>

text \<open>
  \<open>x.toFixed(d)\<close> is a string: \<open>NaN\<close>, \<open>Infinity\<close>, \<open>-Infinity\<close>, or the decimal
  numeral with exactly \<open>d\<close> fraction digits of the integer \<open>n\<close> for which \<open>n / 10^d\<close> is
  nearest to \<open>\<bar>x\<bar>\<close> (the larger \<open>n\<close> on a tie), with a minus sign when \<open>x < 0\<close>. The string is
  kept in structured form, with its characters given by \<open>fixedString\<close> and the number it
  converts back to (when the code compares it with a number) by \<open>fixedValue\<close>: the
  number nearest to the decimal numeral.
  Magnitudes of \<open>10^21\<close> and more, where JavaScript switches to exponent notation, are
  rendered in the same fixed notation here.
\<close>

datatype fixedstr = FixedNaN | FixedInf bool | Fixed bool nat nat

definition toFixed :: "nat \<Rightarrow> jsnum \<Rightarrow> fixedstr" where
  "toFixed d x =
     (case x of
        NaN \<Rightarrow> FixedNaN
      | PInf \<Rightarrow> FixedInf False
      | NInf \<Rightarrow> FixedInf True
      | Num r \<Rightarrow> Fixed (r < 0) (nat \<lfloor>\<bar>r\<bar> * 10 ^ d + 1 / 2\<rfloor>) d)"

fun fixedValue :: "fixedstr \<Rightarrow> jsnum" where
  "fixedValue FixedNaN = NaN"
| "fixedValue (FixedInf negative) = jsinf negative"
| "fixedValue (Fixed negative n d) = number ((if negative then - 1 else 1) * (real n / 10 ^ d))"

definition digitChar :: "nat \<Rightarrow> char" where
  "digitChar n = ''0123456789'' ! n"

function natString :: "nat \<Rightarrow> string" where
  "natString n = (if n < 10 then [digitChar n] else natString (n div 10) @ [digitChar (n mod 10)])"
  by pat_completeness auto
termination
  by (relation "measure id") auto

declare natString.simps [simp del]

text \<open>The \<open>d\<close> low-order decimal digits of \<open>n\<close>, with leading zeros.\<close>

fun fractionDigits :: "nat \<Rightarrow> nat \<Rightarrow> string" where
  "fractionDigits 0 n = []"
| "fractionDigits (Suc d) n = fractionDigits d (n div 10) @ [digitChar (n mod 10)]"

fun fixedString :: "fixedstr \<Rightarrow> string" where
  "fixedString FixedNaN = ''NaN''"
| "fixedString (FixedInf negative) = (if negative then ''-Infinity'' else ''Infinity'')"
| "fixedString (Fixed negative n d) =
     (if negative then ''-'' else '''') @ natString (n div 10 ^ d)
       @ (if d = 0 then '''' else ''.'' @ fractionDigits d n)"

section \<open>Dates\<close>

text \<open>
  Every date field of a record is used through \<open>new Date(field)\<close>. A field is a string or
  absent, and is modelled by what the Date constructor makes of it: a valid date with its
  time value (milliseconds since the epoch, an integer of magnitude at most
  \<open>8.64 * 10^15\<close>, beyond which the constructor gives an invalid date) or an invalid date,
  whose time value is NaN. An absent field gives an invalid date. The field itself is
  truthy when it is present.
\<close>

datatype jsdate = ValidDate int | InvalidDate

definition maxTime :: int where
  "maxTime = 8640000000000000"

definition newDate :: "jsdate option \<Rightarrow> jsdate" where
  "newDate field =
     (case field of
        None \<Rightarrow> InvalidDate
      | Some InvalidDate \<Rightarrow> InvalidDate
      | Some (ValidDate t) \<Rightarrow> if \<bar>t\<bar> \<le> maxTime then ValidDate t else InvalidDate)"

fun timeValue :: "jsdate \<Rightarrow> jsnum" where
  "timeValue (ValidDate t) = Num (of_int t)"
| "timeValue InvalidDate = NaN"

text \<open>
  The getters read local time. The local time zone is a parameter \<open>tz\<close>, its offset from
  UTC in minutes (positive east of Greenwich), taken as constant (no daylight saving).
  1 January 1970 was a Thursday (day 4). The month comes from the day number by the
  usual civil-calendar computation on 400-year eras that start on 1 March.
\<close>

definition msPerDay :: int where
  "msPerDay = 86400000"

definition localTime :: "int \<Rightarrow> int \<Rightarrow> int" where
  "localTime tz t = t + tz * 60000"

definition weekDay :: "int \<Rightarrow> nat" where
  "weekDay t = nat ((t div msPerDay + 4) mod 7)"

definition hourFromTime :: "int \<Rightarrow> nat" where
  "hourFromTime t = nat ((t div 3600000) mod 24)"

definition monthFromTime :: "int \<Rightarrow> nat" where
  "monthFromTime t =
     (let z = t div msPerDay + 719468;
          era = z div 146097;
          doe = z - era * 146097;
          yoe = (doe - doe div 1460 + doe div 36524 - doe div 146096) div 365;
          doy = doe - (365 * yoe + yoe div 4 - yoe div 100);
          mp = (5 * doy + 2) div 153
      in nat (if mp < 10 then mp + 2 else mp - 10))"

fun getDay :: "int \<Rightarrow> jsdate \<Rightarrow> jsnum" where
  "getDay tz (ValidDate t) = Num (real (weekDay (localTime tz t)))"
| "getDay tz InvalidDate = NaN"

fun getHours :: "int \<Rightarrow> jsdate \<Rightarrow> jsnum" where
  "getHours tz (ValidDate t) = Num (real (hourFromTime (localTime tz t)))"
| "getHours tz InvalidDate = NaN"

fun getMonth :: "int \<Rightarrow> jsdate \<Rightarrow> jsnum" where
  "getMonth tz (ValidDate t) = Num (real (monthFromTime (localTime tz t)))"
| "getMonth tz InvalidDate = NaN"

text \<open>
  The two ISO forms used in the examples: a date-only string \<open>YYYY-MM-DD\<close> is midnight
  UTC of that day; a date-time string without offset \<open>YYYY-MM-DDTHH:mm\<close> is local time.
\<close>

definition daysFromCivil :: "int \<Rightarrow> int \<Rightarrow> int \<Rightarrow> int" where
  "daysFromCivil y m d =
     (let y' = (if m \<le> 2 then y - 1 else y);
          era = y' div 400;
          yoe = y' - era * 400;
          doy = (153 * (if m > 2 then m - 3 else m + 9) + 2) div 5 + d - 1;
          doe = yoe * 365 + yoe div 4 - yoe div 100 + doy
      in era * 146097 + doe - 719468)"

definition isoDate :: "int \<Rightarrow> int \<Rightarrow> int \<Rightarrow> jsdate" where
  "isoDate y m d = ValidDate (daysFromCivil y m d * msPerDay)"

definition isoLocalDateTime :: "int \<Rightarrow> int \<Rightarrow> int \<Rightarrow> int \<Rightarrow> int \<Rightarrow> int \<Rightarrow> jsdate" where
  "isoLocalDateTime tz y m d h mi =
     ValidDate (daysFromCivil y m d * msPerDay + h * 3600000 + mi * 60000 - tz * 60000)"

section \<open>Input records\<close>

text \<open>
  The records of the event logs, with the fields the service reads. A field that a JSON
  record may lack is an \<open>option\<close>. Field names are those of the source, except where two
  records share a name: the search's \<open>propertyId\<close> is \<open>searchPropertyId\<close>, the image
  view's \<open>duration\<close> is \<open>viewDuration\<close>, the viewed property's \<open>price\<close> and \<open>rating\<close> are
  \<open>viewPrice\<close> and \<open>viewRating\<close>.
\<close>

record booking =
  bookingDate :: "jsdate option"
  checkIn :: "jsdate option"
  checkOut :: "jsdate option"
  propertyId :: "string option"
  price :: "real option"
  rating :: "real option"
  propertyType :: "string option"
  destination :: "string option"

record session =
  startTime :: "jsdate option"
  endTime :: "jsdate option"

record search =
  date :: "jsdate option"
  searchPropertyId :: "string option"
  searchTerm :: "string option"

text \<open>
  \<open>sequence || []\<close>: an absent sequence is read as the empty one. The eight extractors
  that take a sequence are called only on \<open>sequence || []\<close>, so their argument is a list
  and their guard \<open>!sequence || sequence.length === 0\<close> is the test for the empty list.
\<close>

definition orEmpty :: "'a list option \<Rightarrow> 'a list" where
  "orEmpty v = (case v of None \<Rightarrow> [] | Some xs \<Rightarrow> xs)"

section \<open>Shared helpers of the extractors\<close>

text \<open>
  \<open>counts[index]++\<close> on an array of counters. The index comes from a date getter: for a
  valid date it is a position of the array; for an invalid date it is NaN, and the
  statement then writes a property named \<open>NaN\<close> that no later step reads, so the
  counters stay as they are.
\<close>

fun incrementAt :: "jsnum \<Rightarrow> nat list \<Rightarrow> nat list" where
  "incrementAt (Num r) counts =
     (if r = real (nat \<lfloor>r\<rfloor>) \<and> nat \<lfloor>r\<rfloor> < length counts
      then counts[nat \<lfloor>r\<rfloor> := counts ! nat \<lfloor>r\<rfloor> + 1] else counts)"
| "incrementAt _ counts = counts"

text \<open>\<open>Math.max(...counts)\<close> and \<open>counts.indexOf(value)\<close> on an array of counters
  (\<open>indexOf\<close> gives the first position; the value searched for is always present).\<close>

definition maxCount :: "nat list \<Rightarrow> nat" where
  "maxCount counts = foldl max 0 counts"

definition indexOf :: "nat list \<Rightarrow> nat \<Rightarrow> nat" where
  "indexOf counts v = length (takeWhile (\<lambda>c. c \<noteq> v) counts)"

text \<open>\<open>entries.reduce((a, b) => a[1] > b[1] ? a : b)\<close>, the step: the later entry wins
  unless the earlier one is strictly greater.\<close>

definition pickGreater :: "string \<times> 'a::linorder \<Rightarrow> string \<times> 'a \<Rightarrow> string \<times> 'a" where
  "pickGreater a b = (if snd a > snd b then a else b)"

text \<open>
  The two exceptions that the extractors can raise. \<open>reduce\<close> without an initial value
  raises a TypeError on an empty array; otherwise it folds from the first element.
\<close>

datatype jserror = TypeError | RangeError

definition reduce1 :: "('a \<Rightarrow> 'a \<Rightarrow> 'a) \<Rightarrow> 'a list \<Rightarrow> jserror + 'a" where
  "reduce1 f xs = (case xs of [] \<Rightarrow> Inl TypeError | x # rest \<Rightarrow> Inr (foldl f x rest))"

text \<open>An entry of a distribution: the label (the day, the time of day, the hour or the
  season), the count, and the percentage as \<open>toFixed(1)\<close> wrote it.\<close>

record distEntry =
  label :: string
  count :: nat
  percentage :: fixedstr

definition percentageOf :: "nat \<Rightarrow> nat \<Rightarrow> fixedstr" where
  "percentageOf c n = toFixed 1 (jsmul (jsdiv (Num (real c)) (Num (real n))) (Num 100))"

section \<open>Time-pattern extractor\<close>

subsection \<open>detectBookingPatterns\<close>

record timeOfDayCounts =
  morning :: nat
  afternoon :: nat
  evening :: nat
  night :: nat

definition days :: "string list" where
  "days = [''Sunday'', ''Monday'', ''Tuesday'', ''Wednesday'', ''Thursday'', ''Friday'', ''Saturday'']"

text \<open>Body of the \<open>forEach\<close>; the state is \<open>(dayOfWeekCounts, timeOfDayCounts)\<close>.\<close>

definition bookingPatternStep ::
  "int \<Rightarrow> nat list \<times> timeOfDayCounts \<Rightarrow> booking \<Rightarrow> nat list \<times> timeOfDayCounts" where
  "bookingPatternStep tz st b =
     (case st of (dayOfWeekCounts, tc) \<Rightarrow>
        let d = newDate (bookingDate b);
            dayOfWeek = getDay tz d;
            hour = getHours tz d
        in (incrementAt dayOfWeek dayOfWeekCounts,
            if jsge hour (Num 5) \<and> jslt hour (Num 12) then tc\<lparr>morning := morning tc + 1\<rparr>
            else if jsge hour (Num 12) \<and> jslt hour (Num 17) then tc\<lparr>afternoon := afternoon tc + 1\<rparr>
            else if jsge hour (Num 17) \<and> jslt hour (Num 22) then tc\<lparr>evening := evening tc + 1\<rparr>
            else tc\<lparr>night := night tc + 1\<rparr>))"

definition timeEntries :: "timeOfDayCounts \<Rightarrow> (string \<times> nat) list" where
  "timeEntries tc =
     [(''morning'', morning tc), (''afternoon'', afternoon tc),
      (''evening'', evening tc), (''night'', night tc)]"

record bookingPatterns =
  preferredDayOfWeek :: "string option"
  preferredTimeOfDay :: "string option"
  dayDistribution :: "distEntry list option"
  timeDistribution :: "distEntry list option"

definition detectBookingPatterns :: "int \<Rightarrow> booking list \<Rightarrow> bookingPatterns" where
  "detectBookingPatterns tz bookings =
     (if bookings = [] then
        \<lparr>preferredDayOfWeek = None, preferredTimeOfDay = None,
         dayDistribution = None, timeDistribution = None\<rparr>
      else
        let st = foldl (bookingPatternStep tz)
                   ([0, 0, 0, 0, 0, 0, 0],
                    \<lparr>morning = 0, afternoon = 0, evening = 0, night = 0\<rparr>) bookings;
            dayOfWeekCounts = fst st;
            tc = snd st;
            maxDayCount = maxCount dayOfWeekCounts;
            preferredDayIndex = indexOf dayOfWeekCounts maxDayCount
        in \<lparr>preferredDayOfWeek =
              (if preferredDayIndex < length days then Some (days ! preferredDayIndex) else None),
            preferredTimeOfDay =
              Some (fst (foldl pickGreater (hd (timeEntries tc)) (tl (timeEntries tc)))),
            dayDistribution =
              Some (map (\<lambda>index. \<lparr>label = days ! index,
                                    count = dayOfWeekCounts ! index,
                                    percentage = percentageOf (dayOfWeekCounts ! index) (length bookings)\<rparr>)
                      [0..<length dayOfWeekCounts]),
            timeDistribution =
              Some (map (\<lambda>e. \<lparr>label = fst e, count = snd e,
                                percentage = percentageOf (snd e) (length bookings)\<rparr>)
                      (timeEntries tc))\<rparr>)"

subsection \<open>analyzeBrowsingHours\<close>

text \<open>Body of the \<open>forEach\<close>; the state is \<open>(hourCounts, totalDuration)\<close>. The duration of a
  session is added only when its \<open>endTime\<close> is present.\<close>

definition browsingStep :: "int \<Rightarrow> nat list \<times> jsnum \<Rightarrow> session \<Rightarrow> nat list \<times> jsnum" where
  "browsingStep tz st s =
     (case st of (hourCounts, totalDuration) \<Rightarrow>
        let sessionStart = newDate (startTime s);
            hour = getHours tz sessionStart
        in (incrementAt hour hourCounts,
            if endTime s \<noteq> None then
              jsadd totalDuration
                (jsdiv (jssub (timeValue (newDate (endTime s))) (timeValue sessionStart))
                   (Num (1000 * 60)))
            else totalDuration))"

record browsingHours =
  preferredBrowsingTime :: "string option"
  averageSessionDuration :: "string option"
  hourlyDistribution :: "distEntry list option"

definition analyzeBrowsingHours :: "int \<Rightarrow> session list \<Rightarrow> browsingHours" where
  "analyzeBrowsingHours tz sessions =
     (if sessions = [] then
        \<lparr>preferredBrowsingTime = None, averageSessionDuration = None, hourlyDistribution = None\<rparr>
      else
        let st = foldl (browsingStep tz) (replicate 24 0, Num 0) sessions;
            hourCounts = fst st;
            totalDuration = snd st;
            maxHourCount = maxCount hourCounts;
            preferredHourIndex = indexOf hourCounts maxHourCount;
            average =
              (if length sessions > 0
               then Some (toFixed 1 (jsdiv totalDuration (Num (real (length sessions))))) else None)
        in \<lparr>preferredBrowsingTime =
              Some (natString preferredHourIndex @ '':00 - ''
                      @ natString (preferredHourIndex + 1) @ '':00''),
            averageSessionDuration = map_option (\<lambda>f. fixedString f @ '' minutes'') average,
            hourlyDistribution =
              Some (map (\<lambda>hour. \<lparr>label = natString hour @ '':00'',
                                   count = hourCounts ! hour,
                                   percentage = percentageOf (hourCounts ! hour) (length sessions)\<rparr>)
                      [0..<length hourCounts])\<rparr>)"

subsection \<open>detectSeasonalTrends\<close>

record seasonCounts =
  spring :: nat
  summer :: nat
  fall :: nat
  winter :: nat

definition seasonStep :: "int \<Rightarrow> seasonCounts \<Rightarrow> search \<Rightarrow> seasonCounts" where
  "seasonStep tz sc s =
     (let month = getMonth tz (newDate (date s))
      in if jsge month (Num 2) \<and> jsle month (Num 4) then sc\<lparr>spring := spring sc + 1\<rparr>
         else if jsge month (Num 5) \<and> jsle month (Num 7) then sc\<lparr>summer := summer sc + 1\<rparr>
         else if jsge month (Num 8) \<and> jsle month (Num 10) then sc\<lparr>fall := fall sc + 1\<rparr>
         else sc\<lparr>winter := winter sc + 1\<rparr>)"

definition seasonEntries :: "seasonCounts \<Rightarrow> (string \<times> nat) list" where
  "seasonEntries sc =
     [(''spring'', spring sc), (''summer'', summer sc), (''fall'', fall sc), (''winter'', winter sc)]"

text \<open>\<open>seasonalDistribution\<close> is an object keyed by season; it is the list of its entries,
  the key being the label. The empty object is the empty list.\<close>

record seasonalTrends =
  preferredSeason :: "string option"
  seasonalDistribution :: "distEntry list"

definition detectSeasonalTrends :: "int \<Rightarrow> search list \<Rightarrow> seasonalTrends" where
  "detectSeasonalTrends tz searches =
     (if searches = [] then \<lparr>preferredSeason = None, seasonalDistribution = []\<rparr>
      else
        let sc = foldl (seasonStep tz) \<lparr>spring = 0, summer = 0, fall = 0, winter = 0\<rparr> searches
        in \<lparr>preferredSeason =
              Some (fst (foldl pickGreater (hd (seasonEntries sc)) (tl (seasonEntries sc)))),
            seasonalDistribution =
              map (\<lambda>e. \<lparr>label = fst e, count = snd e,
                          percentage = percentageOf (snd e) (length searches)\<rparr>)
                (seasonEntries sc)\<rparr>)"

subsection \<open>calculatePlanningWindow\<close>

definition planningDays :: "booking \<Rightarrow> jsnum" where
  "planningDays b =
     jsround (jsdiv (jssub (timeValue (newDate (checkIn b))) (timeValue (newDate (bookingDate b))))
                (Num (1000 * 60 * 60 * 24)))"

text \<open>
  \<open>Math.min(...xs)\<close> passes every element of \<open>xs\<close> as an argument of one call. An engine
  accepts only so many arguments and raises a RangeError beyond that; the limit depends on
  the engine and on its stack size (it is around \<open>1.2 * 10^5\<close> in Node.js) and is the
  parameter \<open>maxArguments\<close>. The same calls on the 7 day counters and on the 24 hour
  counters are below the limit of every engine and are modelled without it.
\<close>

definition spreadMin :: "nat \<Rightarrow> jsnum list \<Rightarrow> jserror + jsnum" where
  "spreadMin maxArguments xs = (if maxArguments < length xs then Inl RangeError else Inr (jsminList xs))"

definition spreadMax :: "nat \<Rightarrow> jsnum list \<Rightarrow> jserror + jsnum" where
  "spreadMax maxArguments xs = (if maxArguments < length xs then Inl RangeError else Inr (jsmaxList xs))"

record planningWindow =
  averagePlanningDays :: "jsnum option"
  planningStyle :: "string option"
  shortestPlanningDays :: "jsnum option"
  longestPlanningDays :: "jsnum option"

definition calculatePlanningWindow :: "nat \<Rightarrow> booking list \<Rightarrow> jserror + planningWindow" where
  "calculatePlanningWindow maxArguments bookings =
     (if bookings = [] then
        Inr \<lparr>averagePlanningDays = None, planningStyle = None,
             shortestPlanningDays = None, longestPlanningDays = None\<rparr>
      else
        let planningWindows = map planningDays bookings;
            totalDays = foldl jsadd (Num 0) planningWindows;
            averagePlanningDays = jsround (jsdiv totalDays (Num (real (length planningWindows))))
        in case spreadMin maxArguments planningWindows of
             Inl e \<Rightarrow> Inl e
           | Inr shortest \<Rightarrow>
               (case spreadMax maxArguments planningWindows of
                  Inl e \<Rightarrow> Inl e
                | Inr longest \<Rightarrow>
                    Inr \<lparr>averagePlanningDays = Some averagePlanningDays,
                         planningStyle =
                           Some (if jslt averagePlanningDays (Num 14) then ''Spontaneous''
                                 else if jslt averagePlanningDays (Num 60) then ''Moderate Planner''
                                 else ''Advance Planner''),
                         shortestPlanningDays = Some shortest,
                         longestPlanningDays = Some longest\<rparr>))"

subsection \<open>analyzeTimePatterns\<close>

record userActivity =
  activityBookings :: "booking list option"
  activitySessions :: "session list option"
  activitySearches :: "search list option"

text \<open>A sub-report is \<open>None\<close> when the property is \<open>null\<close>.\<close>

record timePatterns =
  bookingTime :: "bookingPatterns option"
  browsingTime :: "browsingHours option"
  seasonalPreference :: "seasonalTrends option"
  planningHorizon :: "planningWindow option"

definition analyzeTimePatterns :: "nat \<Rightarrow> int \<Rightarrow> userActivity option \<Rightarrow> jserror + timePatterns" where
  "analyzeTimePatterns maxArguments tz activity =
     (case activity of
        None \<Rightarrow>
          Inr \<lparr>bookingTime = None, browsingTime = None,
               seasonalPreference = None, planningHorizon = None\<rparr>
      | Some userActivity \<Rightarrow>
          (case calculatePlanningWindow maxArguments (orEmpty (activityBookings userActivity)) of
             Inl e \<Rightarrow> Inl e
           | Inr horizon \<Rightarrow>
               Inr \<lparr>bookingTime = Some (detectBookingPatterns tz (orEmpty (activityBookings userActivity))),
                    browsingTime = Some (analyzeBrowsingHours tz (orEmpty (activitySessions userActivity))),
                    seasonalPreference = Some (detectSeasonalTrends tz (orEmpty (activitySearches userActivity))),
                    planningHorizon = Some horizon\<rparr>))"

section \<open>Micro-interaction extractor\<close>

subsection \<open>calculateAverageHoverTime\<close>

record hover =
  duration :: "real option"
  elementType :: "string option"

definition elementTypeOf :: "hover \<Rightarrow> string" where
  "elementTypeOf h = (if truthyString (elementType h) then the (elementType h) else ''unknown'')"

text \<open>
  \<open>hoverTimeByType\<close> is a plain object used as a dictionary: it is the list of its own
  properties in the order of their creation. A read \<open>obj[key]\<close> finds the own property or,
  failing that, the property that every object inherits under that key: one of eleven
  built-in functions, or under \<open>__proto__\<close> the prototype object itself. In
  \<open>(obj[key] || 0) + duration\<close> an inherited value is truthy and converts to a string, the
  source text of the function (as Node.js prints it) or \<open>[object Object]\<close>, so the sum is
  that string followed by the number. A value of the dictionary is therefore a number or
  such a text, kept as its fixed beginning and the numbers appended to it.
\<close>

datatype hoverTotal = Seconds jsnum | Text string "jsnum list"

definition inheritedFunctions :: "(string \<times> string) list" where
  "inheritedFunctions =
     [(''constructor'', ''Object''),
      (''__defineGetter__'', ''__defineGetter__''),
      (''__defineSetter__'', ''__defineSetter__''),
      (''hasOwnProperty'', ''hasOwnProperty''),
      (''__lookupGetter__'', ''__lookupGetter__''),
      (''__lookupSetter__'', ''__lookupSetter__''),
      (''isPrototypeOf'', ''isPrototypeOf''),
      (''propertyIsEnumerable'', ''propertyIsEnumerable''),
      (''toString'', ''toString''),
      (''valueOf'', ''valueOf''),
      (''toLocaleString'', ''toLocaleString'')]"

definition inheritedText :: "string \<Rightarrow> string option" where
  "inheritedText key =
     (if key = ''__proto__'' then Some ''[object Object]''
      else map_option (\<lambda>name. ''function '' @ name @ ''() { [native code] }'')
             (map_of inheritedFunctions key))"

text \<open>\<open>obj[key]\<close>, with \<open>None\<close> for \<open>undefined\<close>.\<close>

definition getProperty :: "(string \<times> hoverTotal) list \<Rightarrow> string \<Rightarrow> hoverTotal option" where
  "getProperty obj key =
     (case map_of obj key of
        Some v \<Rightarrow> Some v
      | None \<Rightarrow> map_option (\<lambda>t. Text t []) (inheritedText key))"

text \<open>\<open>(value || 0) + duration\<close>: a text is truthy, and a number is unless it is 0 or NaN.\<close>

definition plusDuration :: "hoverTotal option \<Rightarrow> jsnum \<Rightarrow> hoverTotal" where
  "plusDuration value d =
     (case value of
        None \<Rightarrow> Seconds (jsadd (Num 0) d)
      | Some (Seconds w) \<Rightarrow> Seconds (jsadd (if truthy w then w else Num 0) d)
      | Some (Text t ds) \<Rightarrow> Text t (ds @ [d]))"

text \<open>
  \<open>obj[key] = value\<close> replaces the own property or creates it after the others. Under
  \<open>__proto__\<close> it calls the inherited setter, which ignores a value that is not an object:
  the dictionary stays as it is.
\<close>

fun putProperty :: "(string \<times> hoverTotal) list \<Rightarrow> string \<Rightarrow> hoverTotal \<Rightarrow> (string \<times> hoverTotal) list" where
  "putProperty [] key v = [(key, v)]"
| "putProperty ((k, w) # rest) key v =
     (if k = key then (k, v) # rest else (k, w) # putProperty rest key v)"

definition setProperty :: "(string \<times> hoverTotal) list \<Rightarrow> string \<Rightarrow> hoverTotal \<Rightarrow> (string \<times> hoverTotal) list" where
  "setProperty obj key v = (if key = ''__proto__'' then obj else putProperty obj key v)"

text \<open>Body of the \<open>forEach\<close>; the state is \<open>(hoverTimeByType, totalHoverTime)\<close>. (The
  source fills \<open>hoverCountByType\<close> in the same way; it is never read.)\<close>

definition hoverStep :: "(string \<times> hoverTotal) list \<times> jsnum \<Rightarrow> hover \<Rightarrow> (string \<times> hoverTotal) list \<times> jsnum" where
  "hoverStep st h =
     (case st of (hoverTimeByType, totalHoverTime) \<Rightarrow>
        (setProperty hoverTimeByType (elementTypeOf h)
           (plusDuration (getProperty hoverTimeByType (elementTypeOf h)) (orZero (duration h))),
         jsadd totalHoverTime (orZero (duration h))))"

text \<open>
  \<open>Object.entries\<close> lists first the keys that are array indices (the decimal numeral,
  without leading zeros, of a natural number below \<open>2^32 - 1\<close>) in ascending order, then
  the other keys in the order of their creation.
\<close>

definition digitValue :: "char \<Rightarrow> nat" where
  "digitValue c = of_char c - 48"

definition isDigit :: "char \<Rightarrow> bool" where
  "isDigit c = (48 \<le> (of_char c :: nat) \<and> (of_char c :: nat) \<le> 57)"

definition arrayIndex :: "string \<Rightarrow> nat option" where
  "arrayIndex key =
     (let n = foldl (\<lambda>acc c. 10 * acc + digitValue c) 0 key
      in if key \<noteq> [] \<and> list_all isDigit key \<and> (length key = 1 \<or> hd key \<noteq> CHR ''0'')
            \<and> n < 4294967295
         then Some n else None)"

definition entries :: "(string \<times> 'a) list \<Rightarrow> (string \<times> 'a) list" where
  "entries obj =
     sort_key (\<lambda>e. the (arrayIndex (fst e))) (filter (\<lambda>e. arrayIndex (fst e) \<noteq> None) obj)
       @ filter (\<lambda>e. arrayIndex (fst e) = None) obj"

text \<open>
  \<open>a[1] > b[1]\<close> on two values of the dictionary. Two numbers compare as numbers. A text
  converts to NaN against a number, so the comparison is false. Two texts compare as
  strings, character by character; they belong to different keys and so begin with the
  source texts of different functions, which decide the comparison before any appended
  number is reached.
\<close>

fun stringGreater :: "string \<Rightarrow> string \<Rightarrow> bool" where
  "stringGreater [] t = False"
| "stringGreater (c # cs) [] = True"
| "stringGreater (c # cs) (d # ds) =
     ((of_char d :: nat) < of_char c \<or> (c = d \<and> stringGreater cs ds))"

fun totalGreater :: "hoverTotal \<Rightarrow> hoverTotal \<Rightarrow> bool" where
  "totalGreater (Seconds a) (Seconds b) = jsgt a b"
| "totalGreater (Text s ds) (Text t es) = stringGreater s t"
| "totalGreater _ _ = False"

definition pickLonger :: "string \<times> hoverTotal \<Rightarrow> string \<times> hoverTotal \<Rightarrow> string \<times> hoverTotal" where
  "pickLonger a b = (if totalGreater (snd a) (snd b) then a else b)"

text \<open>The number that a value of the dictionary converts to in \<open>time / totalHoverTime\<close>.\<close>

fun totalNumber :: "hoverTotal \<Rightarrow> jsnum" where
  "totalNumber (Seconds w) = w"
| "totalNumber (Text t ds) = NaN"

record hoverEntry =
  hoverElementType :: string
  totalTime :: hoverTotal
  hoverPercentage :: fixedstr

record hoverReport =
  averageTime :: "string option"
  mostViewedElementType :: "string option"
  elementBreakdown :: "hoverEntry list option"

definition calculateAverageHoverTime :: "hover list \<Rightarrow> jserror + hoverReport" where
  "calculateAverageHoverTime hovers =
     (if hovers = [] then
        Inr \<lparr>averageTime = None, mostViewedElementType = None, elementBreakdown = None\<rparr>
      else
        let st = foldl hoverStep ([], Num 0) hovers;
            hoverTimeByType = fst st;
            totalHoverTime = snd st
        in case reduce1 pickLonger (entries hoverTimeByType) of
             Inl e \<Rightarrow> Inl e
           | Inr most \<Rightarrow>
               Inr \<lparr>averageTime =
                      Some (fixedString (toFixed 1 (jsdiv totalHoverTime (Num (real (length hovers)))))
                              @ '' seconds''),
                    mostViewedElementType = Some (fst most),
                    elementBreakdown =
                      Some (map (\<lambda>e. \<lparr>hoverElementType = fst e, totalTime = snd e,
                                        hoverPercentage =
                                          toFixed 1 (jsmul (jsdiv (totalNumber (snd e)) totalHoverTime) (Num 100))\<rparr>)
                              (entries hoverTimeByType))\<rparr>)"

subsection \<open>analyzeScrollPatterns\<close>

record scroll =
  depthPercentage :: "real option"
  pixelsPerSecond :: "real option"

text \<open>Body of the \<open>forEach\<close>; the state is \<open>(totalDepth, totalSpeed, completedScrolls)\<close>.\<close>

definition scrollStep :: "jsnum \<times> jsnum \<times> nat \<Rightarrow> scroll \<Rightarrow> jsnum \<times> jsnum \<times> nat" where
  "scrollStep st s =
     (case st of (totalDepth, totalSpeed, completedScrolls) \<Rightarrow>
        (if truthyNumber (depthPercentage s)
         then jsadd totalDepth (toNumber (depthPercentage s)) else totalDepth,
         if truthyNumber (pixelsPerSecond s)
         then jsadd totalSpeed (toNumber (pixelsPerSecond s)) else totalSpeed,
         if truthyNumber (depthPercentage s) then completedScrolls + 1 else completedScrolls))"

text \<open>A value that is \<open>null\<close> or a \<open>toFixed\<close> string, as a comparison with a number
  converts it: \<open>null\<close> converts to 0.\<close>

definition nullableValue :: "fixedstr option \<Rightarrow> jsnum" where
  "nullableValue v = (case v of None \<Rightarrow> Num 0 | Some f \<Rightarrow> fixedValue f)"

record scrollReport =
  scrollDepth :: "string option"
  scrollSpeed :: "string option"
  scrollBehavior :: "string option"

definition analyzeScrollPatterns :: "scroll list \<Rightarrow> scrollReport" where
  "analyzeScrollPatterns scrolls =
     (if scrolls = [] then \<lparr>scrollDepth = None, scrollSpeed = None, scrollBehavior = None\<rparr>
      else
        let st = foldl scrollStep (Num 0, Num 0, 0) scrolls;
            totalDepth = fst st;
            totalSpeed = fst (snd st);
            completedScrolls = snd (snd st);
            averageDepth =
              (if completedScrolls > 0
               then Some (toFixed 1 (jsdiv totalDepth (Num (real completedScrolls)))) else None);
            averageSpeed =
              (if length scrolls > 0
               then Some (toFixed 1 (jsdiv totalSpeed (Num (real (length scrolls))))) else None)
        in \<lparr>scrollDepth = map_option (\<lambda>f. fixedString f @ ''%'') averageDepth,
            scrollSpeed = map_option (\<lambda>f. fixedString f @ '' px/s'') averageSpeed,
            scrollBehavior =
              Some (if jsgt (nullableValue averageDepth) (Num 80)
                    then (if jsgt (nullableValue averageSpeed) (Num 1000)
                          then ''Rapid Deep Reader'' else ''Thorough Reader'')
                    else (if jsgt (nullableValue averageSpeed) (Num 1000)
                          then ''Quick Scanner'' else ''Casual Browser''))\<rparr>)"

subsection \<open>calculateImageViewTime\<close>

record imageView =
  viewDuration :: "real option"
  imageId :: "string option"

text \<open>A \<open>Set\<close> of strings is the list of its members in insertion order; its \<open>size\<close> is the
  length of the list.\<close>

definition setAdd :: "string list \<Rightarrow> string \<Rightarrow> string list" where
  "setAdd members x = (if x \<in> set members then members else members @ [x])"

definition imageStep :: "jsnum \<times> string list \<Rightarrow> imageView \<Rightarrow> jsnum \<times> string list" where
  "imageStep st v =
     (case st of (totalViewTime, uniqueImageIds) \<Rightarrow>
        (jsadd totalViewTime (orZero (viewDuration v)),
         if truthyString (imageId v) then setAdd uniqueImageIds (the (imageId v)) else uniqueImageIds))"

record imageReport =
  averageViewTime :: "string option"
  totalImagesViewed :: nat
  visualEngagementLevel :: "string option"

definition calculateImageViewTime :: "imageView list \<Rightarrow> imageReport" where
  "calculateImageViewTime imageViews =
     (if imageViews = [] then
        \<lparr>averageViewTime = None, totalImagesViewed = 0, visualEngagementLevel = None\<rparr>
      else
        let st = foldl imageStep (Num 0, []) imageViews;
            totalViewTime = fst st;
            uniqueImageIds = snd st;
            averageViewTime = toFixed 1 (jsdiv totalViewTime (Num (real (length imageViews))))
        in \<lparr>averageViewTime = Some (fixedString averageViewTime @ '' seconds''),
            totalImagesViewed = length uniqueImageIds,
            visualEngagementLevel =
              Some (if jsgt (fixedValue averageViewTime) (Num 5) then ''High''
                    else (if jsgt (fixedValue averageViewTime) (Num 2) then ''Medium'' else ''Low''))\<rparr>)"

subsection \<open>analyzePriceSensitivity\<close>

record priceFilter =
  minPrice :: "real option"
  maxPrice :: "real option"

text \<open>The \<open>for\<close> loop over the index \<open>i\<close>; the state is
  \<open>(totalMinPrice, totalMaxPrice, priceChanges)\<close>. \<open>!==\<close> compares the two fields as
  they were parsed.\<close>

function priceLoop :: "priceFilter list \<Rightarrow> nat \<Rightarrow> jsnum \<times> jsnum \<times> nat \<Rightarrow> jsnum \<times> jsnum \<times> nat" where
  "priceLoop priceFilters i st =
     (if i < length priceFilters then
        (case st of (totalMinPrice, totalMaxPrice, priceChanges) \<Rightarrow>
           priceLoop priceFilters (i + 1)
             (jsadd totalMinPrice (orZero (minPrice (priceFilters ! i))),
              jsadd totalMaxPrice (orZero (maxPrice (priceFilters ! i))),
              if i > 0 \<and> (fieldValue (minPrice (priceFilters ! (i - 1))) \<noteq> fieldValue (minPrice (priceFilters ! i))
                           \<or> fieldValue (maxPrice (priceFilters ! (i - 1))) \<noteq> fieldValue (maxPrice (priceFilters ! i)))
              then priceChanges + 1 else priceChanges))
      else st)"
  by pat_completeness auto
termination
  by (relation "measure (\<lambda>(priceFilters, i, st). length priceFilters - i)") auto

declare priceLoop.simps [simp del]

record priceReport =
  priceElasticity :: "string option"
  priceSensitivity :: "string option"
  averagePriceRange :: "string option"

definition analyzePriceSensitivity :: "priceFilter list \<Rightarrow> priceReport" where
  "analyzePriceSensitivity priceFilters =
     (if priceFilters = [] then
        \<lparr>priceElasticity = None, priceSensitivity = None, averagePriceRange = None\<rparr>
      else
        let st = priceLoop priceFilters 0 (Num 0, Num 0, 0);
            totalMinPrice = fst st;
            totalMaxPrice = fst (snd st);
            priceChanges = snd (snd st);
            averageMinPrice = toFixed 0 (jsdiv totalMinPrice (Num (real (length priceFilters))));
            averageMaxPrice = toFixed 0 (jsdiv totalMaxPrice (Num (real (length priceFilters))));
            priceElasticity =
              toFixed 1 (jsmul (jsdiv (Num (real priceChanges))
                                  (jssub (Num (real (length priceFilters))) (Num 1))) (Num 100))
        in \<lparr>priceElasticity = Some (fixedString priceElasticity @ ''%''),
            priceSensitivity =
              Some (if jsgt (fixedValue priceElasticity) (Num 60) then ''High''
                    else if jsgt (fixedValue priceElasticity) (Num 30) then ''Medium''
                    else ''Low''),
            averagePriceRange =
              Some (''$'' @ fixedString averageMinPrice @ '' - $'' @ fixedString averageMaxPrice)\<rparr>)"

subsection \<open>analyzeMicroInteractions\<close>

record interactions =
  interactionHovers :: "hover list option"
  interactionScrolls :: "scroll list option"
  interactionImageViews :: "imageView list option"
  interactionPriceFilters :: "priceFilter list option"

record microInteractions =
  hoverTime :: "hoverReport option"
  scrollBehaviorReport :: "scrollReport option"
  imageEngagement :: "imageReport option"
  priceElasticityReport :: "priceReport option"

definition analyzeMicroInteractions :: "interactions option \<Rightarrow> jserror + microInteractions" where
  "analyzeMicroInteractions v =
     (case v of
        None \<Rightarrow>
          Inr \<lparr>hoverTime = None, scrollBehaviorReport = None,
               imageEngagement = None, priceElasticityReport = None\<rparr>
      | Some interactions \<Rightarrow>
          (case calculateAverageHoverTime (orEmpty (interactionHovers interactions)) of
             Inl e \<Rightarrow> Inl e
           | Inr h \<Rightarrow>
               Inr \<lparr>hoverTime = Some h,
                    scrollBehaviorReport = Some (analyzeScrollPatterns (orEmpty (interactionScrolls interactions))),
                    imageEngagement = Some (calculateImageViewTime (orEmpty (interactionImageViews interactions))),
                    priceElasticityReport = Some (analyzePriceSensitivity (orEmpty (interactionPriceFilters interactions)))\<rparr>))"

section \<open>Decision-pattern extractor\<close>

record viewedProperty =
  viewDate :: "jsdate option"
  viewPrice :: "real option"
  viewRating :: "real option"

record userChoices =
  choiceBookings :: "booking list option"
  choiceSearches :: "search list option"
  viewedProperties :: "viewedProperty list option"

text \<open>The time value of a date field, \<open>new Date(field)\<close> read as a number.\<close>

definition dateValue :: "jsdate option \<Rightarrow> jsnum" where
  "dateValue field = timeValue (newDate field)"

subsection \<open>calculateImpulsivityScore\<close>

text \<open>The filter predicate of \<open>relatedSearches\<close>: the same property (two absent ids are
  equal under \<open>===\<close>), or a search less than 24 hours away from the booking.\<close>

definition isRelatedSearch :: "booking \<Rightarrow> search \<Rightarrow> bool" where
  "isRelatedSearch b s =
     (searchPropertyId s = propertyId b
      \<or> jslt (jsabs (jssub (dateValue (date s)) (dateValue (bookingDate b))))
           (Num (24 * 60 * 60 * 1000)))"

definition earlierSearch :: "search \<Rightarrow> search \<Rightarrow> search" where
  "earlierSearch earliest s =
     (if jslt (dateValue (date s)) (dateValue (date earliest)) then s else earliest)"

text \<open>The decision time of a booking in hours, when it has a related search.\<close>

definition decisionTimeOf :: "search list \<Rightarrow> booking \<Rightarrow> jsnum option" where
  "decisionTimeOf searches b =
     (let relatedSearches = filter (isRelatedSearch b) searches
      in if length relatedSearches > 0 then
           let earliestSearch = foldl earlierSearch (hd relatedSearches) relatedSearches
           in Some (jsdiv (jssub (dateValue (bookingDate b)) (dateValue (date earliestSearch)))
                      (Num (1000 * 60 * 60)))
         else None)"

text \<open>Body of the \<open>forEach\<close>; the state is \<open>(totalDecisionTime, quickDecisions)\<close>.\<close>

definition impulsivityStep :: "search list \<Rightarrow> jsnum \<times> nat \<Rightarrow> booking \<Rightarrow> jsnum \<times> nat" where
  "impulsivityStep searches st b =
     (case st of (totalDecisionTime, quickDecisions) \<Rightarrow>
        (case decisionTimeOf searches b of
           None \<Rightarrow> (totalDecisionTime, quickDecisions)
         | Some decisionTime \<Rightarrow>
             (jsadd totalDecisionTime decisionTime,
              if jslt decisionTime (Num 1) then quickDecisions + 1 else quickDecisions)))"

record impulsivityReport =
  impulsivityScore :: "fixedstr option"
  impulsivityCategory :: "string option"
  averageDecisionTimeHours :: "fixedstr option"
  quickDecisionPercentage :: "fixedstr option"

definition calculateImpulsivityScore :: "userChoices \<Rightarrow> impulsivityReport" where
  "calculateImpulsivityScore choices =
     (let bookings = orEmpty (choiceBookings choices);
          searches = orEmpty (choiceSearches choices)
      in if length bookings = 0 then
           \<lparr>impulsivityScore = None, impulsivityCategory = None,
            averageDecisionTimeHours = None, quickDecisionPercentage = None\<rparr>
         else
           let st = foldl (impulsivityStep searches) (Num 0, 0) bookings;
               totalDecisionTime = fst st;
               quickDecisions = snd st;
               averageDecisionTime = jsdiv totalDecisionTime (Num (real (length bookings)));
               quickDecisionRate =
                 jsmul (jsdiv (Num (real quickDecisions)) (Num (real (length bookings)))) (Num 100);
               impulsivityScore =
                 toFixed 0
                   (jsmin (Num 100)
                      (jsmax (Num 0)
                         (jsadd (jssub (Num 100) (jsmul (jsdiv averageDecisionTime (Num 24)) (Num 20)))
                            (jsdiv quickDecisionRate (Num 2)))))
           in \<lparr>impulsivityScore = Some impulsivityScore,
               impulsivityCategory =
                 Some (if jsgt (fixedValue impulsivityScore) (Num 70) then ''Highly Impulsive''
                       else if jsgt (fixedValue impulsivityScore) (Num 40) then ''Moderately Impulsive''
                       else ''Planned Decision Maker''),
               averageDecisionTimeHours = Some (toFixed 1 averageDecisionTime),
               quickDecisionPercentage = Some (toFixed 1 quickDecisionRate)\<rparr>)"

subsection \<open>analyzePriceQualityTradeoff\<close>

definition isContemporaryView :: "booking \<Rightarrow> viewedProperty \<Rightarrow> bool" where
  "isContemporaryView b v =
     jslt (jsabs (jssub (dateValue (viewDate v)) (dateValue (bookingDate b))))
       (Num (7 * 24 * 60 * 60 * 1000))"

text \<open>Body of the \<open>forEach\<close>; the state is \<open>(qualityOverPrice, priceOverQuality)\<close>.\<close>

definition priceQualityStep :: "viewedProperty list \<Rightarrow> nat \<times> nat \<Rightarrow> booking \<Rightarrow> nat \<times> nat" where
  "priceQualityStep viewed st b =
     (case st of (qualityOverPrice, priceOverQuality) \<Rightarrow>
        let contemporaryViews = filter (isContemporaryView b) viewed
        in if length contemporaryViews > 0 then
             let avgPrice =
                   jsdiv (foldl (\<lambda>sum v. jsadd sum (toNumber (viewPrice v))) (Num 0) contemporaryViews)
                     (Num (real (length contemporaryViews)));
                 avgRating =
                   jsdiv (foldl (\<lambda>sum v. jsadd sum (toNumber (viewRating v))) (Num 0) contemporaryViews)
                     (Num (real (length contemporaryViews)))
             in if jsgt (toNumber (price b)) avgPrice \<and> jsgt (toNumber (rating b)) avgRating
                then (qualityOverPrice + 1, priceOverQuality)
                else if jslt (toNumber (price b)) avgPrice \<and> jslt (toNumber (rating b)) avgRating
                then (qualityOverPrice, priceOverQuality + 1)
                else (qualityOverPrice, priceOverQuality)
           else (qualityOverPrice, priceOverQuality))"

record priceQualityReport =
  pqPreference :: "string option"
  pqScore :: "fixedstr option"
  qualityChoices :: "nat option"
  priceChoices :: "nat option"

definition analyzePriceQualityTradeoff :: "userChoices \<Rightarrow> priceQualityReport" where
  "analyzePriceQualityTradeoff choices =
     (let viewed = orEmpty (viewedProperties choices);
          bookings = orEmpty (choiceBookings choices)
      in if length bookings = 0 \<or> length viewed = 0 then
           \<lparr>pqPreference = None, pqScore = None, qualityChoices = None, priceChoices = None\<rparr>
         else
           let st = foldl (priceQualityStep viewed) (0, 0) bookings;
               qualityOverPrice = fst st;
               priceOverQuality = snd st;
               totalComparisons = qualityOverPrice + priceOverQuality;
               score =
                 (if totalComparisons > 0
                  then jsmul (jsdiv (jssub (Num (real qualityOverPrice)) (Num (real priceOverQuality)))
                                (Num (real totalComparisons))) (Num 100)
                  else Num 0)
           in \<lparr>pqPreference =
                 Some (if jsgt score (Num 50) then ''Strongly Quality-Focused''
                       else if jsgt score (Num 20) then ''Quality-Focused''
                       else if jslt score (Num (- 50)) then ''Strongly Price-Focused''
                       else if jslt score (Num (- 20)) then ''Price-Focused''
                       else ''Balanced Price-Quality''),
               pqScore = Some (toFixed 0 score),
               qualityChoices = Some qualityOverPrice,
               priceChoices = Some priceOverQuality\<rparr>)"

subsection \<open>calculateUniquenessSeeking\<close>

text \<open>\<open>toLowerCase\<close> on ASCII letters, and \<open>String.prototype.includes\<close> (named \<open>includesStr\<close>: \<open>includes\<close> is a keyword).\<close>

definition toLowerChar :: "char \<Rightarrow> char" where
  "toLowerChar c =
     (if 65 \<le> (of_char c :: nat) \<and> (of_char c :: nat) \<le> 90
      then char_of ((of_char c :: nat) + 32) else c)"

definition toLowerCase :: "string \<Rightarrow> string" where
  "toLowerCase s = map toLowerChar s"

fun startsWith :: "string \<Rightarrow> string \<Rightarrow> bool" where
  "startsWith s [] = True"
| "startsWith [] (c # cs) = False"
| "startsWith (x # xs) (c # cs) = (x = c \<and> startsWith xs cs)"

fun includesStr :: "string \<Rightarrow> string \<Rightarrow> bool" where
  "includesStr [] t = startsWith [] t"
| "includesStr (x # xs) t = (startsWith (x # xs) t \<or> includesStr xs t)"

definition unusualPropertyTypes :: "string list" where
  "unusualPropertyTypes =
     [''treehouse'', ''castle'', ''cave'', ''igloo'', ''lighthouse'', ''container'', ''boat'', ''dome'']"

text \<open>Body of the \<open>forEach\<close> over the bookings; the state is
  \<open>(propertyTypes, destinations, unusualPropertyCount)\<close>.\<close>

definition uniquenessStep ::
  "string list \<times> string list \<times> nat \<Rightarrow> booking \<Rightarrow> string list \<times> string list \<times> nat" where
  "uniquenessStep st b =
     (case st of (propertyTypes, destinations, unusualPropertyCount) \<Rightarrow>
        (if truthyString (propertyType b)
         then setAdd propertyTypes (toLowerCase (the (propertyType b))) else propertyTypes,
         if truthyString (destination b)
         then setAdd destinations (the (destination b)) else destinations,
         if truthyString (propertyType b)
            \<and> list_ex (\<lambda>t. includesStr (toLowerCase (the (propertyType b))) t) unusualPropertyTypes
         then unusualPropertyCount + 1 else unusualPropertyCount))"

definition searchTermStep :: "string list \<Rightarrow> search \<Rightarrow> string list" where
  "searchTermStep searchTerms s =
     (if truthyString (searchTerm s)
      then setAdd searchTerms (toLowerCase (the (searchTerm s))) else searchTerms)"

definition ratioPercent :: "nat \<Rightarrow> nat \<Rightarrow> jsnum" where
  "ratioPercent a b = jsmul (jsdiv (Num (real a)) (Num (real b))) (Num 100)"

record uniquenessReport =
  uniquenessScore :: "fixedstr option"
  uniquenessCategory :: "string option"
  unusualPropertyPercentage :: "fixedstr option"
  propertyTypeDiversity :: "nat option"

definition calculateUniquenessSeeking :: "userChoices \<Rightarrow> uniquenessReport" where
  "calculateUniquenessSeeking choices =
     (let bookings = orEmpty (choiceBookings choices);
          searches = orEmpty (choiceSearches choices)
      in if length bookings = 0 then
           \<lparr>uniquenessScore = None, uniquenessCategory = None,
            unusualPropertyPercentage = None, propertyTypeDiversity = None\<rparr>
         else
           let st = foldl uniquenessStep ([], [], 0) bookings;
               propertyTypes = fst st;
               destinations = fst (snd st);
               unusualPropertyCount = snd (snd st);
               searchTerms = foldl searchTermStep [] searches;
               typeUniqueness = jsmin (Num 100) (ratioPercent (length propertyTypes) (length bookings));
               unusualRatio = ratioPercent unusualPropertyCount (length bookings);
               destinationDiversity =
                 jsmin (Num 100) (ratioPercent (length destinations) (length bookings));
               searchDiversity =
                 jsmin (Num 100) (ratioPercent (length searchTerms) (length searches));
               score =
                 toFixed 0
                   (jsadd (jsadd (jsadd (jsmul typeUniqueness (number (3 / 10)))
                                    (jsmul unusualRatio (number (4 / 10))))
                             (jsmul destinationDiversity (number (2 / 10))))
                      (jsmul searchDiversity (number (1 / 10))))
           in \<lparr>uniquenessScore = Some score,
               uniquenessCategory =
                 Some (if jsgt (fixedValue score) (Num 70) then ''Novelty Seeker''
                       else if jsgt (fixedValue score) (Num 40) then ''Moderate Explorer''
                       else ''Comfort Seeker''),
               unusualPropertyPercentage = Some (toFixed 1 unusualRatio),
               propertyTypeDiversity = Some (length propertyTypes)\<rparr>)"

subsection \<open>assessRiskTolerance\<close>

text \<open>\<open>a && b ? Math.round((new Date(b') - new Date(a')) / msPerDay) : null\<close>: the whole
  days from \<open>a'\<close> to \<open>b'\<close> when both guard fields are present.\<close>

definition guardedDays :: "jsdate option \<Rightarrow> jsdate option \<Rightarrow> jsdate option \<Rightarrow> jsdate option \<Rightarrow> jsnum option" where
  "guardedDays g1 g2 later earlier =
     (if g1 \<noteq> None \<and> g2 \<noteq> None
      then Some (jsround (jsdiv (jssub (dateValue later) (dateValue earlier))
                            (Num (1000 * 60 * 60 * 24))))
      else None)"

text \<open>Body of the \<open>forEach\<close>; the state is \<open>(newDestinationCount, lowRatingCount,
  lastMinuteCount, longStayCount, visitedDestinations)\<close>.\<close>

definition riskStep ::
  "nat \<times> nat \<times> nat \<times> nat \<times> string list \<Rightarrow> booking \<Rightarrow> nat \<times> nat \<times> nat \<times> nat \<times> string list" where
  "riskStep st b =
     (case st of (newDestinationCount, lowRatingCount, lastMinuteCount, longStayCount, visited) \<Rightarrow>
        let isNew = (truthyString (destination b) \<and> the (destination b) \<notin> set visited);
            daysBefore = guardedDays (checkIn b) (bookingDate b) (checkIn b) (bookingDate b);
            stayLength = guardedDays (checkIn b) (checkOut b) (checkOut b) (checkIn b)
        in (if isNew then newDestinationCount + 1 else newDestinationCount,
            if truthyNumber (rating b) \<and> jslt (toNumber (rating b)) (Num 4)
            then lowRatingCount + 1 else lowRatingCount,
            if (case daysBefore of None \<Rightarrow> False | Some d \<Rightarrow> jsle d (Num 7))
            then lastMinuteCount + 1 else lastMinuteCount,
            if (case stayLength of None \<Rightarrow> False | Some d \<Rightarrow> jsge d (Num 14))
            then longStayCount + 1 else longStayCount,
            if isNew then setAdd visited (the (destination b)) else visited))"

record riskReport =
  riskToleranceScore :: "fixedstr option"
  riskToleranceCategory :: "string option"
  newDestinationPercentage :: "fixedstr option"
  lowRatingBookingPercentage :: "fixedstr option"
  lastMinuteBookingPercentage :: "fixedstr option"

definition assessRiskTolerance :: "userChoices \<Rightarrow> riskReport" where
  "assessRiskTolerance choices =
     (let bookings = orEmpty (choiceBookings choices)
      in if length bookings = 0 then
           \<lparr>riskToleranceScore = None, riskToleranceCategory = None,
            newDestinationPercentage = None, lowRatingBookingPercentage = None,
            lastMinuteBookingPercentage = None\<rparr>
         else
           let st = foldl riskStep (0, 0, 0, 0, []) bookings;
               newDestinationRate = ratioPercent (fst st) (length bookings);
               lowRatingRate = ratioPercent (fst (snd st)) (length bookings);
               lastMinuteRate = ratioPercent (fst (snd (snd st))) (length bookings);
               longStayRate = ratioPercent (fst (snd (snd (snd st)))) (length bookings);
               score =
                 toFixed 0
                   (jsadd (jsadd (jsadd (jsmul newDestinationRate (number (4 / 10)))
                                    (jsmul lowRatingRate (number (3 / 10))))
                             (jsmul lastMinuteRate (number (2 / 10))))
                      (jsmul longStayRate (number (1 / 10))))
           in \<lparr>riskToleranceScore = Some score,
               riskToleranceCategory =
                 Some (if jsgt (fixedValue score) (Num 70) then ''High Risk Tolerance''
                       else if jsgt (fixedValue score) (Num 40) then ''Moderate Risk Tolerance''
                       else ''Low Risk Tolerance''),
               newDestinationPercentage = Some (toFixed 1 newDestinationRate),
               lowRatingBookingPercentage = Some (toFixed 1 lowRatingRate),
               lastMinuteBookingPercentage = Some (toFixed 1 lastMinuteRate)\<rparr>)"

subsection \<open>analyzeDecisionPatterns\<close>

record decisionPatterns =
  impulsiveVsPlanned :: "impulsivityReport option"
  priceVsQualityReport :: "priceQualityReport option"
  uniquenessPreferenceReport :: "uniquenessReport option"
  riskToleranceReport :: "riskReport option"

definition analyzeDecisionPatterns :: "userChoices option \<Rightarrow> decisionPatterns" where
  "analyzeDecisionPatterns v =
     (case v of
        None \<Rightarrow>
          \<lparr>impulsiveVsPlanned = None, priceVsQualityReport = None,
           uniquenessPreferenceReport = None, riskToleranceReport = None\<rparr>
      | Some choices \<Rightarrow>
          \<lparr>impulsiveVsPlanned = Some (calculateImpulsivityScore choices),
           priceVsQualityReport = Some (analyzePriceQualityTradeoff choices),
           uniquenessPreferenceReport = Some (calculateUniquenessSeeking choices),
           riskToleranceReport = Some (assessRiskTolerance choices)\<rparr>)"

section \<open>Archetype classifier (classifyTravelArchetype)\<close>

datatype level = Low | Moderate | High

datatype trait = Openness | Conscientiousness | Extraversion | Agreeableness | Neuroticism

fun levelName :: "level \<Rightarrow> string" where
  "levelName Low = ''low''"
| "levelName Moderate = ''moderate''"
| "levelName High = ''high''"

fun traitName :: "trait \<Rightarrow> string" where
  "traitName Openness = ''openness''"
| "traitName Conscientiousness = ''conscientiousness''"
| "traitName Extraversion = ''extraversion''"
| "traitName Agreeableness = ''agreeableness''"
| "traitName Neuroticism = ''neuroticism''"

text \<open>
  One entry of the \<open>archetypes\<close> object literal: the trait requirements in the order they
  are written (the keys other than \<open>description\<close> and \<open>recommendedProperties\<close>), the
  description and the recommended property types.
\<close>

record archetypeTraits =
  requirements :: "(trait \<times> level) list"
  description :: string
  recommendedProperties :: "string list"

text \<open>The catalog, as an association list in declaration order (the order that
  \<open>Object.entries\<close> enumerates string keys in).\<close>

definition archetypes :: "(string \<times> archetypeTraits) list" where
  "archetypes =
   [(''The Explorer'',
      \<lparr>requirements = [(Openness, High), (Neuroticism, Low)],
       description = ''Seeks new experiences and destinations, values authenticity and adventure'',
       recommendedProperties = [''Treehouse'', ''Remote Cabin'', ''Eco Lodge'', ''Wilderness Retreat'']\<rparr>),
    (''The Comfort Seeker'',
      \<lparr>requirements = [(Neuroticism, High), (Conscientiousness, High)],
       description = ''Prioritizes comfort, security and predictability in travel experiences'',
       recommendedProperties = [''Luxury Resort'', ''Villa'', ''High-end Hotel'', ''Serviced Apartment'']\<rparr>),
    (''The Social Butterfly'',
      \<lparr>requirements = [(Extraversion, High), (Agreeableness, High)],
       description = ''Travels to meet people and make connections, enjoys shared experiences'',
       recommendedProperties = [''Hostel'', ''Co-living Space'', ''Resort'', ''Urban Apartment'']\<rparr>),
    (''The Digital Nomad'',
      \<lparr>requirements = [(Openness, High), (Conscientiousness, Moderate)],
       description = ''Seeks balance between work and exploration, values good connectivity'',
       recommendedProperties = [''Co-working Hotel'', ''Long-term Rental'', ''Connected Cabin'', ''Urban Loft'']\<rparr>),
    (''The Luxury Traveler'',
      \<lparr>requirements = [(Conscientiousness, High), (Openness, Moderate)],
       description = ''Values premium experiences, service excellence and exclusivity'',
       recommendedProperties = [''5-star Resort'', ''Private Villa'', ''Boutique Hotel'', ''Luxury Yacht'']\<rparr>),
    (''The Budget Backpacker'',
      \<lparr>requirements = [(Openness, High), (Conscientiousness, Low)],
       description = ''Prioritizes value and authentic experiences over luxury'',
       recommendedProperties = [''Hostel'', ''Budget Hotel'', ''Shared Apartment'', ''Camping'']\<rparr>),
    (''The Cultural Enthusiast'',
      \<lparr>requirements = [(Openness, High), (Extraversion, Moderate)],
       description = ''Travels to experience different cultures, history, and local traditions'',
       recommendedProperties = [''Historic Stay'', ''City Apartment'', ''Local Homestay'', ''Heritage Hotel'']\<rparr>),
    (''The Wellness Seeker'',
      \<lparr>requirements = [(Conscientiousness, High), (Neuroticism, Moderate)],
       description = ''Prioritizes health, wellness and rejuvenation during travel'',
       recommendedProperties = [''Spa Resort'', ''Yoga Retreat'', ''Hot Springs Villa'', ''Wellness Center'']\<rparr>)]"

text \<open>
  The personality profile arrives as parsed JSON. Each field is a number; a field that is
  absent or not numeric compares false against both thresholds, as NaN does, and is
  modelled by NaN.
\<close>

record personalityProfile =
  openness :: jsnum
  conscientiousness :: jsnum
  extraversion :: jsnum
  agreeableness :: jsnum
  neuroticism :: jsnum

definition categorize :: "jsnum \<Rightarrow> level" where
  "categorize x = (if jsgt x (Num 70) then High else (if jsgt x (Num 40) then Moderate else Low))"

fun personalityCategories :: "personalityProfile \<Rightarrow> trait \<Rightarrow> level" where
  "personalityCategories p Openness = categorize (openness p)"
| "personalityCategories p Conscientiousness = categorize (conscientiousness p)"
| "personalityCategories p Extraversion = categorize (extraversion p)"
| "personalityCategories p Agreeableness = categorize (agreeableness p)"
| "personalityCategories p Neuroticism = categorize (neuroticism p)"

text \<open>
  The behaviour data is optional (\<open>None\<close>: absent or falsy). The classifier reads three
  of its fields through optional chaining, so each sub-report may be absent and each
  label may be absent.
\<close>

record categoryReport =
  category :: "string option"

record preferenceReport =
  preference :: "string option"

record behaviorData =
  uniquenessPreference :: "categoryReport option"
  riskTolerance :: "categoryReport option"
  priceVsQuality :: "preferenceReport option"

definition categoryIs :: "categoryReport option \<Rightarrow> string \<Rightarrow> bool" where
  "categoryIs r s = (case r of None \<Rightarrow> False | Some c \<Rightarrow> category c = Some s)"

definition preferenceIs :: "preferenceReport option \<Rightarrow> string \<Rightarrow> bool" where
  "preferenceIs r s = (case r of None \<Rightarrow> False | Some c \<Rightarrow> preference c = Some s)"

text \<open>The accumulator of the scoring loops is the pair \<open>(matchScore, matchFactors)\<close>.\<close>

type_synonym matchAcc = "int \<times> string list"

text \<open>Body of the inner \<open>forEach\<close> over one archetype's trait requirements.\<close>

definition traitStep :: "(trait \<Rightarrow> level) \<Rightarrow> matchAcc \<Rightarrow> trait \<times> level \<Rightarrow> matchAcc" where
  "traitStep cats acc req =
     (case acc of (matchScore, matchFactors) \<Rightarrow>
      case req of (t, lv) \<Rightarrow>
        if cats t = lv then
          (matchScore + 25, matchFactors @ [traitName t @ '' ('' @ levelName lv @ '')''])
        else if (cats t = Moderate \<and> lv = High) \<or> (cats t = High \<and> lv = Moderate) then
          (matchScore + 15, matchFactors @ [traitName t @ '' (partial match)''])
        else (matchScore, matchFactors))"

text \<open>One of the four \<open>if\<close> statements of the behaviour block.\<close>

definition bonusIf :: "bool \<Rightarrow> string \<Rightarrow> matchAcc \<Rightarrow> matchAcc" where
  "bonusIf c factor acc = (if c then (fst acc + 20, snd acc @ [factor]) else acc)"

definition behaviorStep :: "string \<Rightarrow> behaviorData option \<Rightarrow> matchAcc \<Rightarrow> matchAcc" where
  "behaviorStep archetypeName behavior acc =
     (case behavior of
        None \<Rightarrow> acc
      | Some bd \<Rightarrow>
          let acc1 = bonusIf (archetypeName = ''The Explorer''
                              \<and> categoryIs (uniquenessPreference bd) ''Novelty Seeker'')
                       ''novelty seeking behavior'' acc;
              acc2 = bonusIf (archetypeName = ''The Comfort Seeker''
                              \<and> categoryIs (riskTolerance bd) ''Low Risk Tolerance'')
                       ''low risk tolerance'' acc1;
              acc3 = bonusIf (archetypeName = ''The Luxury Traveler''
                              \<and> preferenceIs (priceVsQuality bd) ''Strongly Quality-Focused'')
                       ''quality-focused decisions'' acc2
          in bonusIf (archetypeName = ''The Budget Backpacker''
                      \<and> preferenceIs (priceVsQuality bd) ''Strongly Price-Focused'')
               ''price-focused decisions'' acc3)"

record matchData =
  score :: int
  factors :: "string list"
  mdDescription :: string
  mdRecommendedProperties :: "string list"

text \<open>Body of the outer \<open>forEach\<close>: the entry of \<open>archetypeScores\<close> for one archetype.\<close>

definition scoreArchetype ::
  "personalityProfile \<Rightarrow> behaviorData option \<Rightarrow> string \<times> archetypeTraits \<Rightarrow> string \<times> matchData" where
  "scoreArchetype p behavior entry =
     (case entry of (archetypeName, tr) \<Rightarrow>
        let acc = behaviorStep archetypeName behavior
                    (foldl (traitStep (personalityCategories p)) (0, []) (requirements tr))
        in (archetypeName,
            \<lparr>score = fst acc, factors = snd acc,
             mdDescription = description tr,
             mdRecommendedProperties = recommendedProperties tr\<rparr>))"

definition archetypeScores ::
  "personalityProfile \<Rightarrow> behaviorData option \<Rightarrow> (string \<times> matchData) list" where
  "archetypeScores p behavior = map (scoreArchetype p behavior) archetypes"

text \<open>
  The \<open>reduce\<close> that finds the best match: it starts from the empty name with score 0
  and replaces the current best only on a strictly greater score.
\<close>

definition bestStep :: "string \<times> int \<Rightarrow> string \<times> matchData \<Rightarrow> string \<times> int" where
  "bestStep best entry = (if score (snd entry) > snd best then (fst entry, score (snd entry)) else best)"

definition bestMatch :: "(string \<times> matchData) list \<Rightarrow> string \<times> int" where
  "bestMatch scores = foldl bestStep ('''', 0) scores"

text \<open>
  \<open>Array.prototype.sort\<close> with a comparator is a stable sort: an element goes after
  another exactly when the comparator asks for it, and elements that compare equal keep
  their relative order. It is modelled by a stable insertion sort.
\<close>

fun insertCmp :: "('a \<Rightarrow> 'a \<Rightarrow> int) \<Rightarrow> 'a \<Rightarrow> 'a list \<Rightarrow> 'a list" where
  "insertCmp cmp x [] = [x]"
| "insertCmp cmp x (y # ys) = (if cmp x y \<le> 0 then x # y # ys else y # insertCmp cmp x ys)"

definition jsSort :: "('a \<Rightarrow> 'a \<Rightarrow> int) \<Rightarrow> 'a list \<Rightarrow> 'a list" where
  "jsSort cmp xs = foldr (insertCmp cmp) xs []"

definition byScoreDesc :: "string \<times> matchData \<Rightarrow> string \<times> matchData \<Rightarrow> int" where
  "byScoreDesc a b = score (snd b) - score (snd a)"

record topArchetype =
  archetype :: string
  taScore :: int
  taDescription :: string
  taFactors :: "string list"
  taRecommendedProperties :: "string list"

definition toTopArchetype :: "string \<times> matchData \<Rightarrow> topArchetype" where
  "toTopArchetype entry =
     \<lparr>archetype = fst entry, taScore = score (snd entry),
      taDescription = mdDescription (snd entry), taFactors = factors (snd entry),
      taRecommendedProperties = mdRecommendedProperties (snd entry)\<rparr>"

record classification =
  primaryArchetype :: string
  matchScore :: int
  primaryDescription :: "string option"
  primaryRecommendedProperties :: "string list option"
  topArchetypes :: "topArchetype list"

text \<open>
  The last part of the function, from \<open>// Find best matching archetype\<close> to the
  \<open>return\<close>: it depends on the inputs only through the table \<open>archetypeScores\<close>.
  \<open>archetypes[bestMatch.archetype]?.description\<close> is a lookup by name in the catalog
  that yields \<open>undefined\<close> (\<open>None\<close>) for a name that is not a key.
\<close>

definition selectArchetypes :: "(string \<times> matchData) list \<Rightarrow> classification" where
  "selectArchetypes scores =
     (let best = bestMatch scores
      in \<lparr>primaryArchetype = fst best,
          matchScore = snd best,
          primaryDescription = map_option description (map_of archetypes (fst best)),
          primaryRecommendedProperties = map_option recommendedProperties (map_of archetypes (fst best)),
          topArchetypes = map toTopArchetype (take 3 (jsSort byScoreDesc scores))\<rparr>)"

definition classifyTravelArchetype :: "personalityProfile \<Rightarrow> behaviorData option \<Rightarrow> classification" where
  "classifyTravelArchetype p behavior = selectArchetypes (archetypeScores p behavior)"

subsection \<open>Ranking and scoring, stated independently of the loops\<close>

definition catalogIndex :: "string \<Rightarrow> nat" where
  "catalogIndex n = length (takeWhile (\<lambda>e. fst e \<noteq> n) archetypes)"

definition rankedBefore :: "(string \<times> matchData) \<Rightarrow> (string \<times> matchData) \<Rightarrow> bool" where
  "rankedBefore a b = (score (snd b) \<le> score (snd a)
      \<and> (score (snd a) = score (snd b) \<longrightarrow> catalogIndex (fst a) < catalogIndex (fst b)))"

fun pointsTable :: "level \<Rightarrow> level \<Rightarrow> int" where
  "pointsTable Low Low = 25"
| "pointsTable Low Moderate = 0"
| "pointsTable Low High = 0"
| "pointsTable Moderate Low = 0"
| "pointsTable Moderate Moderate = 25"
| "pointsTable Moderate High = 15"
| "pointsTable High Low = 0"
| "pointsTable High Moderate = 15"
| "pointsTable High High = 25"

definition bonusPoints :: "string \<Rightarrow> behaviorData option \<Rightarrow> int" where
  "bonusPoints archetypeName behavior =
     (case behavior of
        None \<Rightarrow> 0
      | Some bd \<Rightarrow>
          (if archetypeName = ''The Explorer''
              \<and> categoryIs (uniquenessPreference bd) ''Novelty Seeker'' then 20 else 0)
        + (if archetypeName = ''The Comfort Seeker''
              \<and> categoryIs (riskTolerance bd) ''Low Risk Tolerance'' then 20 else 0)
        + (if archetypeName = ''The Luxury Traveler''
              \<and> preferenceIs (priceVsQuality bd) ''Strongly Quality-Focused'' then 20 else 0)
        + (if archetypeName = ''The Budget Backpacker''
              \<and> preferenceIs (priceVsQuality bd) ''Strongly Price-Focused'' then 20 else 0))"

definition archetypeScoreAt :: "personalityProfile \<Rightarrow> behaviorData option \<Rightarrow> nat \<Rightarrow> int" where
  "archetypeScoreAt p behavior k = score (snd (archetypeScores p behavior ! k))"

text \<open>Concrete inputs used in the examples below.\<close>

definition exampleProfile :: personalityProfile where
  "exampleProfile = \<lparr>openness = Num 80, conscientiousness = Num 50, extraversion = Num 20,
     agreeableness = Num 40, neuroticism = Num 15\<rparr>"

definition scenarioProfile :: personalityProfile where
  "scenarioProfile = \<lparr>openness = Num 80, conscientiousness = Num 30, extraversion = Num 20,
     agreeableness = Num 40, neuroticism = Num 15\<rparr>"

fun levelRank :: "level \<Rightarrow> nat" where
  "levelRank Low = 0"
| "levelRank Moderate = 1"
| "levelRank High = 2"

definition adjacentLevels :: "level \<Rightarrow> level \<Rightarrow> bool" where
  "adjacentLevels a b = (levelRank a + 1 = levelRank b \<or> levelRank b + 1 = levelRank a)"

definition claimedPoints :: "level \<Rightarrow> level \<Rightarrow> int" where
  "claimedPoints computed required =
     (if computed = required then 25
      else if adjacentLevels computed required \<and> (computed = Moderate \<or> required = Moderate) then 15
      else 0)"


section \<open>The extractors' results, stated independently of the loops\<close>

subsection \<open>Planning window\<close>

text \<open>
  A booking whose booking date and check-in date both parse and lie less than \<open>2^52\<close>
  milliseconds (some 142 000 years) apart, and its whole-day count: the days from booking
  to check-in, as a real, rounded to the nearest integer (a half goes up).
\<close>

definition hasPlanningDates :: "booking \<Rightarrow> bool" where
  "hasPlanningDates b =
     (case (newDate (bookingDate b), newDate (checkIn b)) of
        (ValidDate t, ValidDate u) \<Rightarrow> \<bar>u - t\<bar> < 2 ^ 52
      | _ \<Rightarrow> False)"

definition roundHalfUp :: "real \<Rightarrow> int" where
  "roundHalfUp x = \<lfloor>x + 1 / 2\<rfloor>"

definition wholeDays :: "booking \<Rightarrow> int" where
  "wholeDays b =
     (case (newDate (bookingDate b), newDate (checkIn b)) of
        (ValidDate t, ValidDate u) \<Rightarrow> roundHalfUp (real_of_int (u - t) / 86400000)
      | _ \<Rightarrow> 0)"

definition planningStyleOf :: "int \<Rightarrow> string" where
  "planningStyleOf meanDays =
     (if meanDays < 14 then ''Spontaneous''
      else if meanDays < 60 then ''Moderate Planner''
      else ''Advance Planner'')"

text \<open>The report on bookings with the given whole-day counts.\<close>

definition planningReport :: "int list \<Rightarrow> planningWindow" where
  "planningReport counts =
     \<lparr>averagePlanningDays =
        Some (Num (of_int (roundHalfUp (real_of_int (sum_list counts) / real (length counts))))),
      planningStyle =
        Some (planningStyleOf (roundHalfUp (real_of_int (sum_list counts) / real (length counts)))),
      shortestPlanningDays = Some (Num (of_int (Min (set counts)))),
      longestPlanningDays = Some (Num (of_int (Max (set counts))))\<rparr>"

text \<open>Scenario A on a host whose zone is \<open>tz\<close> minutes east of UTC: the booking
  \<open>{bookingDate: "2024-01-01T09:00", checkIn: "2024-01-10", checkOut: "2024-01-12"}\<close>.\<close>

definition scenarioBooking :: "int \<Rightarrow> booking" where
  "scenarioBooking tz =
     \<lparr>bookingDate = Some (isoLocalDateTime tz 2024 1 1 9 0),
      checkIn = Some (isoDate 2024 1 10),
      checkOut = Some (isoDate 2024 1 12),
      propertyId = None, price = None, rating = None,
      propertyType = None, destination = None\<rparr>"

subsection \<open>Scroll patterns\<close>

text \<open>The depths and the speeds that the records report (a field that is absent or 0 is
  not a report), and the mean of a list of reals.\<close>

definition reportedDepths :: "scroll list \<Rightarrow> real list" where
  "reportedDepths scrolls =
     map (\<lambda>s. the (depthPercentage s)) (filter (\<lambda>s. truthyNumber (depthPercentage s)) scrolls)"

definition reportedSpeeds :: "scroll list \<Rightarrow> real list" where
  "reportedSpeeds scrolls =
     map (\<lambda>s. the (pixelsPerSecond s)) (filter (\<lambda>s. truthyNumber (pixelsPerSecond s)) scrolls)"

definition meanOf :: "real list \<Rightarrow> real" where
  "meanOf xs = sum_list xs / real (length xs)"

definition scrollLabel :: "bool \<Rightarrow> bool \<Rightarrow> string" where
  "scrollLabel deep fast =
     (if deep then (if fast then ''Rapid Deep Reader'' else ''Thorough Reader'')
      else (if fast then ''Quick Scanner'' else ''Casual Browser''))"

text \<open>The label as the specification words it: both means taken over the records that
  report the value.\<close>

definition claimedScrollBehavior :: "scroll list \<Rightarrow> string" where
  "claimedScrollBehavior scrolls =
     scrollLabel (meanOf (reportedDepths scrolls) > 80) (meanOf (reportedSpeeds scrolls) > 1000)"

text \<open>Four scroll records at depth 50, of which only the first reports a speed.\<close>

definition exampleScrolls :: "scroll list" where
  "exampleScrolls =
     [\<lparr>depthPercentage = Some 50, pixelsPerSecond = Some 3000\<rparr>,
      \<lparr>depthPercentage = Some 50, pixelsPerSecond = None\<rparr>,
      \<lparr>depthPercentage = Some 50, pixelsPerSecond = None\<rparr>,
      \<lparr>depthPercentage = Some 50, pixelsPerSecond = None\<rparr>]"

subsection \<open>Impulsivity\<close>

text \<open>
  A search is related to a booking when it is for the same property or when both dates
  parse and lie less than 24 hours apart.
\<close>

definition relatedTo :: "booking \<Rightarrow> search \<Rightarrow> bool" where
  "relatedTo b s =
     (searchPropertyId s = propertyId b
      \<or> (case (newDate (date s), newDate (bookingDate b)) of
            (ValidDate t, ValidDate u) \<Rightarrow> \<bar>t - u\<bar> < 86400000
          | _ \<Rightarrow> False))"

text \<open>The decision times of the bookings that have a related search, in booking order;
  the sum of a list of numbers as the loop forms it, from left to right; the score
  formula before \<open>toFixed\<close>, in the arithmetic of the code.\<close>

definition decisionTimes :: "search list \<Rightarrow> booking list \<Rightarrow> jsnum list" where
  "decisionTimes searches bookings =
     map (\<lambda>b. the (decisionTimeOf searches b))
       (filter (\<lambda>b. decisionTimeOf searches b \<noteq> None) bookings)"

definition jsSum :: "jsnum list \<Rightarrow> jsnum" where
  "jsSum xs = foldl jsadd (Num 0) xs"

definition impulsivityFormula :: "jsnum \<Rightarrow> jsnum \<Rightarrow> jsnum" where
  "impulsivityFormula meanDecisionHours quickDecisionRate =
     jsmin (Num 100)
       (jsmax (Num 0)
          (jsadd (jssub (Num 100) (jsmul (jsdiv meanDecisionHours (Num 24)) (Num 20)))
             (jsdiv quickDecisionRate (Num 2))))"

text \<open>The mean as the specification words it: over the bookings that have a related
  search only.\<close>

definition claimedMeanDecisionHours :: "search list \<Rightarrow> booking list \<Rightarrow> jsnum" where
  "claimedMeanDecisionHours searches bookings =
     jsdiv (jsSum (decisionTimes searches bookings))
       (Num (real (length (decisionTimes searches bookings))))"

text \<open>Two bookings and one search: the first booking, of property \<open>p1\<close> on 10 January
  2024, follows a search for \<open>p1\<close> two days earlier; the second, of \<open>p2\<close> on 10 March, has
  no related search.\<close>

definition exampleChoices :: userChoices where
  "exampleChoices =
     \<lparr>choiceBookings = Some
        [\<lparr>bookingDate = Some (isoDate 2024 1 10), checkIn = None, checkOut = None,
          propertyId = Some ''p1'', price = None, rating = None,
          propertyType = None, destination = None\<rparr>,
         \<lparr>bookingDate = Some (isoDate 2024 3 10), checkIn = None, checkOut = None,
          propertyId = Some ''p2'', price = None, rating = None,
          propertyType = None, destination = None\<rparr>],
      choiceSearches = Some
        [\<lparr>date = Some (isoDate 2024 1 8), searchPropertyId = Some ''p1'', searchTerm = None\<rparr>],
      viewedProperties = None\<rparr>"

text \<open>The mean decision time and the quick-decision rate as the code forms them: both
  divide by the number of all bookings.\<close>

definition meanDecisionHours :: "userChoices \<Rightarrow> jsnum" where
  "meanDecisionHours choices =
     jsdiv (jsSum (decisionTimes (orEmpty (choiceSearches choices)) (orEmpty (choiceBookings choices))))
       (Num (real (length (orEmpty (choiceBookings choices)))))"

definition quickDecisionRate :: "userChoices \<Rightarrow> jsnum" where
  "quickDecisionRate choices =
     ratioPercent
       (length (filter (\<lambda>d. jslt d (Num 1))
                  (decisionTimes (orEmpty (choiceSearches choices)) (orEmpty (choiceBookings choices)))))
       (length (orEmpty (choiceBookings choices)))"

subsection \<open>Booking patterns\<close>

text \<open>The local weekday and hour of a booking, when its booking date parses; the band of
  an hour, where a missing hour (an unparseable date) falls through every comparison
  to the last branch, \<open>night\<close>.\<close>

definition dayOfBooking :: "int \<Rightarrow> booking \<Rightarrow> nat option" where
  "dayOfBooking tz b =
     (case newDate (bookingDate b) of
        ValidDate t \<Rightarrow> Some (weekDay (localTime tz t))
      | InvalidDate \<Rightarrow> None)"

definition hourOfBooking :: "int \<Rightarrow> booking \<Rightarrow> nat option" where
  "hourOfBooking tz b =
     (case newDate (bookingDate b) of
        ValidDate t \<Rightarrow> Some (hourFromTime (localTime tz t))
      | InvalidDate \<Rightarrow> None)"

definition timeBand :: "nat option \<Rightarrow> string" where
  "timeBand hour =
     (case hour of
        None \<Rightarrow> ''night''
      | Some h \<Rightarrow>
          if 5 \<le> h \<and> h < 12 then ''morning''
          else if 12 \<le> h \<and> h < 17 then ''afternoon''
          else if 17 \<le> h \<and> h < 22 then ''evening''
          else ''night'')"

definition dayCount :: "int \<Rightarrow> booking list \<Rightarrow> nat \<Rightarrow> nat" where
  "dayCount tz bookings i = length (filter (\<lambda>b. dayOfBooking tz b = Some i) bookings)"

definition bandCount :: "int \<Rightarrow> booking list \<Rightarrow> string \<Rightarrow> nat" where
  "bandCount tz bookings band =
     length (filter (\<lambda>b. timeBand (hourOfBooking tz b) = band) bookings)"

text \<open>A booking made at the given local date and time, and one whose booking date does
  not parse.\<close>

definition bookedAt :: "jsdate \<Rightarrow> booking" where
  "bookedAt d =
     \<lparr>bookingDate = Some d, checkIn = None, checkOut = None, propertyId = None,
      price = None, rating = None, propertyType = None, destination = None\<rparr>"

text \<open>On a host in UTC: a booking on Monday 1 January 2024 at 10:00 followed by one with
  an unparseable date; and six bookings at 10:00 on the six days from Monday 1 to
  Saturday 6 January 2024.\<close>

definition malformedExample :: "booking list" where
  "malformedExample = [bookedAt (isoLocalDateTime 0 2024 1 1 10 0), bookedAt InvalidDate]"

definition sixDaysExample :: "booking list" where
  "sixDaysExample =
     map (\<lambda>d. bookedAt (isoLocalDateTime 0 2024 1 d 10 0)) [1, 2, 3, 4, 5, 6]"

text \<open>The percentages of a distribution as the strings the report holds.\<close>

definition percentageStrings :: "distEntry list \<Rightarrow> string list" where
  "percentageStrings distribution = map (\<lambda>e. fixedString (percentage e)) distribution"

section \<open>Properties of binary64 rounding\<close>

lemma roundEven_int [simp]: "roundEven (of_int k) = k"
  by (simp add: roundEven_def)

lemma roundEven_error: "\<bar>of_int (roundEven m) - m\<bar> \<le> 1 / 2"
  unfolding roundEven_def by (auto simp: abs_le_iff)

lemma roundEven_ge_int: "of_int k \<le> m \<Longrightarrow> k \<le> roundEven m"
  unfolding roundEven_def by (auto simp: le_floor_iff) linarith+

lemma roundEven_le_int: "m \<le> of_int k \<Longrightarrow> roundEven m \<le> k"
proof -
  assume a: "m \<le> of_int k"
  have f: "\<lfloor>m\<rfloor> \<le> k" using a by (simp add: floor_le_iff)
  show ?thesis
  proof (cases "m = of_int k")
    case True then show ?thesis by simp
  next
    case False
    with a have lt: "m < of_int k" by simp
    then have "\<lfloor>m\<rfloor> < k" by (simp add: floor_less_iff)
    then have "\<lfloor>m\<rfloor> + 1 \<le> k" by simp
    with f show ?thesis unfolding roundEven_def by auto
  qed
qed

lemma roundEven_mono: "m \<le> m' \<Longrightarrow> roundEven m \<le> roundEven m'"
proof -
  assume a: "m \<le> m'"
  have fl: "\<lfloor>m\<rfloor> \<le> \<lfloor>m'\<rfloor>" using a by (rule floor_mono)
  show ?thesis
  proof (cases "\<lfloor>m\<rfloor> = \<lfloor>m'\<rfloor>")
    case True
    with a show ?thesis unfolding roundEven_def by auto
  next
    case False
    with fl have "\<lfloor>m\<rfloor> + 1 \<le> \<lfloor>m'\<rfloor>" by simp
    moreover have "roundEven m \<le> \<lfloor>m\<rfloor> + 1" unfolding roundEven_def by auto
    moreover have "\<lfloor>m'\<rfloor> \<le> roundEven m'" unfolding roundEven_def by auto
    ultimately show ?thesis by linarith
  qed
qed

lemma roundEven_minus: "roundEven (- m) = - roundEven m"
proof (cases "m = of_int \<lfloor>m\<rfloor>")
  case True
  then obtain k where "m = of_int k" ..
  then show ?thesis by (simp flip: of_int_minus)
next
  case False
  then have c: "\<lfloor>- m\<rfloor> = - \<lfloor>m\<rfloor> - 1"
    by (metis ceiling_altdef ceiling_def add_diff_cancel_right' minus_diff_eq minus_minus diff_minus_eq_add add.commute uminus_add_conv_diff)
  show ?thesis
    unfolding roundEven_def c using False by (auto simp: algebra_simps)
qed


lemma exponent_bounds:
  assumes "x \<noteq> 0"
  shows "2 powi exponent x \<le> \<bar>x\<bar>" and "\<bar>x\<bar> < 2 powi (exponent x + 1)"
proof -
  have "2 powi exponent x \<le> \<bar>x\<bar> \<and> \<bar>x\<bar> < 2 powi (exponent x + 1)"
  proof (cases "1 \<le> \<bar>x\<bar>")
    case True
    define N where "N = \<lfloor>\<bar>x\<bar>\<rfloor>"
    have N: "0 < N" using True by (simp add: N_def)
    have e: "exponent x = bitlen N - 1" using True by (simp add: exponent_def N_def)
    from bitlen_bounds [OF N] have b: "2 ^ nat (bitlen N - 1) \<le> N" "N < 2 ^ nat (bitlen N)"
      by simp_all
    have b1: "1 \<le> bitlen N" using N by (simp add: bitlen_alt_def)
    have "2 powi (bitlen N - 1) = (2::real) ^ nat (bitlen N - 1)"
      using b1 by (simp add: power_int_nonneg_exp)
    also have "\<dots> = of_int (2 ^ nat (bitlen N - 1))" by simp
    also have "\<dots> \<le> of_int N" using b(1) by (simp only: of_int_le_iff)
    also have "\<dots> \<le> \<bar>x\<bar>" by (simp add: N_def)
    finally have lo: "2 powi (bitlen N - 1) \<le> \<bar>x\<bar>" .
    have "\<bar>x\<bar> < of_int (N + 1)" by (simp add: N_def)
    also have "\<dots> \<le> of_int (2 ^ nat (bitlen N))" using b(2) by (simp only: of_int_le_iff)
    also have "\<dots> = (2::real) ^ nat (bitlen N)" by simp
    also have "\<dots> = 2 powi (bitlen N)" using b1 by (simp add: power_int_nonneg_exp)
    finally have "\<bar>x\<bar> < 2 powi (bitlen N)" .
    with lo e show ?thesis by simp
  next
    case False
    define y where "y = 1 / \<bar>x\<bar>"
    define M where "M = \<lceil>y\<rceil>"
    define k where "k = bitlen (M - 1)"
    have xp: "0 < \<bar>x\<bar>" using assms by simp
    have y1: "1 < y" using False xp by (simp add: y_def)
    have M2: "0 < M - 1" using y1 by (simp add: M_def)
    have e: "exponent x = - k" using False by (simp add: exponent_def k_def M_def y_def)
    from bitlen_bounds [OF M2] have b: "2 ^ nat (k - 1) \<le> M - 1" "M - 1 < 2 ^ nat k"
      by (simp_all add: k_def)
    have k1: "1 \<le> k" using M2 by (simp add: k_def bitlen_alt_def)
    have "y \<le> of_int M" by (simp add: M_def)
    also have "\<dots> \<le> of_int (2 ^ nat k)" using b(2) by (simp only: of_int_le_iff)
    also have "\<dots> = (2::real) ^ nat k" by simp
    finally have yk: "y \<le> 2 ^ nat k" .
    have "(2::real) ^ nat (k - 1) = of_int (2 ^ nat (k - 1))" by simp
    also have "\<dots> \<le> of_int (M - 1)" using b(1) by (simp only: of_int_le_iff)
    also have "\<dots> < y" by (simp add: M_def) linarith
    finally have ky: "2 ^ nat (k - 1) < y" .
    have "2 powi (- k) = 1 / (2::real) ^ nat k"
      using k1 by (simp add: power_int_minus_divide power_int_nonneg_exp)
    also have "\<dots> \<le> \<bar>x\<bar>"
      using yk xp by (simp add: y_def field_simps)
    finally have lo: "2 powi (- k) \<le> \<bar>x\<bar>" .
    have "\<bar>x\<bar> < 1 / (2::real) ^ nat (k - 1)"
      using ky xp by (simp add: y_def field_simps)
    also have "\<dots> = 1 / 2 powi (k - 1)"
      using k1 by (simp add: power_int_nonneg_exp)
    also have "\<dots> = 2 powi (- (k - 1))"
      by (simp only: power_int_minus_divide)
    finally have "\<bar>x\<bar> < 2 powi (- k + 1)" by (simp add: algebra_simps)
    with lo e show ?thesis by simp
  qed
  then show "2 powi exponent x \<le> \<bar>x\<bar>" and "\<bar>x\<bar> < 2 powi (exponent x + 1)" by simp_all
qed

lemma exponent_unique:
  assumes "2 powi e \<le> \<bar>x\<bar>" and "\<bar>x\<bar> < 2 powi (e + 1)"
  shows "exponent x = e"
proof -
  have "0 < (2::real) powi e" by simp
  with assms(1) have "0 < \<bar>x\<bar>" by linarith
  then have x: "x \<noteq> 0" by simp
  note b = exponent_bounds [OF x]
  have "\<not> exponent x < e"
  proof
    assume "exponent x < e"
    then have "exponent x + 1 \<le> e" by simp
    then have "(2::real) powi (exponent x + 1) \<le> 2 powi e" by (intro power_int_increasing) simp_all
    with b(2) assms(1) show False by simp
  qed
  moreover have "\<not> e < exponent x"
  proof
    assume "e < exponent x"
    then have "e + 1 \<le> exponent x" by simp
    then have "(2::real) powi (e + 1) \<le> 2 powi exponent x" by (intro power_int_increasing) simp_all
    with b(1) assms(2) show False by simp
  qed
  ultimately show ?thesis by simp
qed

lemma exponent_minus [simp]: "exponent (- x) = exponent x"
  by (simp add: exponent_def)


lemma binade_minus [simp]: "binade (- x) = binade x"
  by (simp add: binade_def)

lemma binary64_0 [simp]: "binary64 0 = 0"
  by (simp add: binary64_def)

lemma binary64_minus: "binary64 (- x) = - binary64 x"
  by (simp add: binary64_def roundEven_minus)

lemma powi_cancel: "x * 2 powi (52 - e) * 2 powi (e - 52) = (x::real)"
proof -
  have "(2::real) powi (52 - e) * 2 powi (e - 52) = 2 powi ((52 - e) + (e - 52))"
    by (subst power_int_add) simp_all
  then have "(2::real) powi (52 - e) * 2 powi (e - 52) = 1" by simp
  then show ?thesis by (simp add: mult.assoc)
qed

lemma binary64_error:
  assumes "x \<noteq> 0"
  shows "\<bar>binary64 x - x\<bar> \<le> 2 powi (binade x - 53)"
proof -
  define e where "e = binade x"
  define m where "m = x * 2 powi (52 - e)"
  have x: "x = m * 2 powi (e - 52)" by (simp add: m_def powi_cancel)
  have "binary64 x = of_int (roundEven m) * 2 powi (e - 52)"
    using assms by (simp add: binary64_def e_def m_def)
  moreover note x
  ultimately have "binary64 x - x = (of_int (roundEven m) - m) * 2 powi (e - 52)"
    by (simp only: left_diff_distrib)
  then have "\<bar>binary64 x - x\<bar> = \<bar>of_int (roundEven m) - m\<bar> * 2 powi (e - 52)"
    by (simp add: abs_mult)
  also have "\<dots> \<le> 1 / 2 * 2 powi (e - 52)"
    by (intro mult_right_mono roundEven_error) simp
  also have "\<dots> = 2 powi (e - 53)"
  proof -
    have "(2::real) powi (e - 52) = 2 powi ((e - 53) + 1)" by simp
    also have "\<dots> = 2 powi (e - 53) * 2" by (subst power_int_add) simp_all
    finally show ?thesis by simp
  qed
  finally show ?thesis by (simp add: e_def)
qed

lemma binade_le:
  assumes "x \<noteq> 0" and "\<bar>x\<bar> < 2 powi n" and "- 1021 \<le> n"
  shows "binade x \<le> n - 1"
proof -
  have "\<not> n \<le> exponent x"
  proof
    assume "n \<le> exponent x"
    then have "(2::real) powi n \<le> 2 powi exponent x" by (intro power_int_increasing) simp_all
    with exponent_bounds(1) [OF assms(1)] assms(2) show False by simp
  qed
  with assms(3) show ?thesis by (simp add: binade_def)
qed

lemma binary64_error_below:
  assumes "\<bar>x\<bar> < 2 powi n" and "- 1021 \<le> n"
  shows "\<bar>binary64 x - x\<bar> \<le> 2 powi (n - 54)"
proof (cases "x = 0")
  case True
  then show ?thesis by simp
next
  case False
  have "binade x - 53 \<le> n - 54" using binade_le [OF False assms] by simp
  then have "(2::real) powi (binade x - 53) \<le> 2 powi (n - 54)"
    by (intro power_int_increasing) simp_all
  with binary64_error [OF False] show ?thesis by linarith
qed


lemma scaled_bounds:
  assumes "0 < x"
  shows "x * 2 powi (52 - binade x) < 2 ^ 53"
    and "- 1022 \<le> exponent x \<Longrightarrow> 2 ^ 52 \<le> x * 2 powi (52 - binade x)"
proof -
  have x: "x \<noteq> 0" "\<bar>x\<bar> = x" using assms by simp_all
  have "x < 2 powi (exponent x + 1)" using exponent_bounds(2) [OF x(1)] x(2) by simp
  also have "\<dots> \<le> 2 powi (binade x + 1)"
    by (intro power_int_increasing) (simp_all add: binade_def)
  finally have "x * 2 powi (52 - binade x) < 2 powi (binade x + 1) * 2 powi (52 - binade x)"
    by (intro mult_strict_right_mono) simp_all
  also have "\<dots> = 2 powi ((binade x + 1) + (52 - binade x))"
    by (subst power_int_add) simp_all
  also have "\<dots> = 2 ^ 53" by simp
  finally show "x * 2 powi (52 - binade x) < 2 ^ 53" .
  assume n: "- 1022 \<le> exponent x"
  then have b: "binade x = exponent x" by (simp add: binade_def)
  have "(2::real) ^ 52 = 2 powi (exponent x + (52 - exponent x))" by simp
  also have "\<dots> = 2 powi exponent x * 2 powi (52 - exponent x)"
    by (subst power_int_add) simp_all
  also have "\<dots> \<le> x * 2 powi (52 - exponent x)"
    using exponent_bounds(1) [OF x(1)] x(2) by (intro mult_right_mono) simp_all
  finally show "2 ^ 52 \<le> x * 2 powi (52 - binade x)" by (simp add: b)
qed

lemma binary64_pos_bounds:
  assumes "0 < x"
  shows "0 \<le> binary64 x"
    and "binary64 x \<le> 2 powi (binade x + 1)"
    and "- 1022 \<le> exponent x \<Longrightarrow> 2 powi binade x \<le> binary64 x"
proof -
  define m where "m = x * 2 powi (52 - binade x)"
  have b: "binary64 x = of_int (roundEven m) * 2 powi (binade x - 52)"
    using assms by (simp add: binary64_def m_def)
  have "of_int 0 \<le> m" using assms by (simp add: m_def)
  then have "0 \<le> roundEven m" by (rule roundEven_ge_int)
  then show "0 \<le> binary64 x" by (simp add: b)
  have "m \<le> of_int (2 ^ 53)" using scaled_bounds(1) [OF assms] by (simp add: m_def)
  then have "roundEven m \<le> 2 ^ 53" by (rule roundEven_le_int)
  then have "real_of_int (roundEven m) \<le> 2 ^ 53" by (metis of_int_le_iff of_int_numeral of_int_power)
  then have "binary64 x \<le> 2 ^ 53 * 2 powi (binade x - 52)"
    unfolding b by (intro mult_right_mono) simp_all
  also have "\<dots> = 2 powi (53 + (binade x - 52))"
    by (subst power_int_add) simp_all
  finally show "binary64 x \<le> 2 powi (binade x + 1)" by (simp add: algebra_simps)
  assume n: "- 1022 \<le> exponent x"
  have "of_int (2 ^ 52) \<le> m" using scaled_bounds(2) [OF assms n] by (simp add: m_def)
  then have "2 ^ 52 \<le> roundEven m" by (rule roundEven_ge_int)
  then have "(2::real) ^ 52 \<le> real_of_int (roundEven m)" by (metis of_int_le_iff of_int_numeral of_int_power)
  then have "2 ^ 52 * 2 powi (binade x - 52) \<le> binary64 x"
    unfolding b by (intro mult_right_mono) simp_all
  moreover have "(2::real) ^ 52 * 2 powi (binade x - 52) = 2 powi (52 + (binade x - 52))"
    by (subst power_int_add) simp_all
  ultimately show "2 powi binade x \<le> binary64 x" by simp
qed

lemma exponent_mono:
  assumes "0 < x" and "x \<le> y"
  shows "exponent x \<le> exponent y"
proof (rule ccontr)
  assume "\<not> exponent x \<le> exponent y"
  then have "exponent y + 1 \<le> exponent x" by simp
  then have "(2::real) powi (exponent y + 1) \<le> 2 powi exponent x"
    by (intro power_int_increasing) simp_all
  moreover have "2 powi exponent x \<le> x" using exponent_bounds(1) [of x] assms(1) by simp
  moreover have "y < 2 powi (exponent y + 1)" using exponent_bounds(2) [of y] assms by simp
  ultimately show False using assms(2) by linarith
qed

lemma binary64_mono_pos:
  assumes "0 < x" and "x \<le> y"
  shows "binary64 x \<le> binary64 y"
proof -
  have y: "0 < y" using assms by simp
  have e: "binade x \<le> binade y"
    using exponent_mono [OF assms] by (simp add: binade_def)
  show ?thesis
  proof (cases "binade x = binade y")
    case True
    have "x * 2 powi (52 - binade y) \<le> y * 2 powi (52 - binade y)"
      using assms(2) by (intro mult_right_mono) simp_all
    then have "roundEven (x * 2 powi (52 - binade y)) \<le> roundEven (y * 2 powi (52 - binade y))"
      by (rule roundEven_mono)
    then have "real_of_int (roundEven (x * 2 powi (52 - binade y))) * 2 powi (binade y - 52)
        \<le> real_of_int (roundEven (y * 2 powi (52 - binade y))) * 2 powi (binade y - 52)"
      by (intro mult_right_mono) simp_all
    then show ?thesis using assms y True by (simp add: binary64_def)
  next
    case False
    with e have lt: "binade x + 1 \<le> binade y" by simp
    then have "- 1022 < binade y" by (simp add: binade_def)
    then have n: "- 1022 \<le> exponent y" by (simp add: binade_def)
    have "binary64 x \<le> 2 powi (binade x + 1)" by (rule binary64_pos_bounds(2) [OF assms(1)])
    also have "\<dots> \<le> 2 powi binade y" using lt by (intro power_int_increasing) simp_all
    also have "\<dots> \<le> binary64 y" by (rule binary64_pos_bounds(3) [OF y n])
    finally show ?thesis .
  qed
qed

lemma binary64_mono:
  assumes "x \<le> y"
  shows "binary64 x \<le> binary64 y"
proof -
  consider "0 < x" | "x \<le> 0" "0 \<le> y" | "y < 0" by linarith
  then show ?thesis
  proof cases
    case 1
    then show ?thesis using assms by (rule binary64_mono_pos)
  next
    case 2
    have "binary64 x \<le> 0"
    proof (cases "x = 0")
      case True then show ?thesis by simp
    next
      case False
      with 2 have "0 < - x" by simp
      from binary64_pos_bounds(1) [OF this] show ?thesis by (simp add: binary64_minus)
    qed
    moreover have "0 \<le> binary64 y"
    proof (cases "y = 0")
      case True then show ?thesis by simp
    next
      case False
      with 2 have "0 < y" by simp
      then show ?thesis by (rule binary64_pos_bounds(1))
    qed
    ultimately show ?thesis by simp
  next
    case 3
    then have "0 < - y" "- y \<le> - x" using assms by simp_all
    from binary64_mono_pos [OF this] show ?thesis by (simp add: binary64_minus)
  qed
qed


lemma powi_add2: "(2::real) powi a * 2 powi b = 2 powi (a + b)"
  by (subst power_int_add) simp_all

lemma binary64_on_grid:
  assumes "x * 2 powi (52 - binade x) = of_int n"
  shows "binary64 x = x"
proof (cases "x = 0")
  case True
  then show ?thesis by simp
next
  case False
  then have "binary64 x = x * 2 powi (52 - binade x) * 2 powi (binade x - 52)"
    by (simp add: binary64_def assms)
  then show ?thesis by (simp only: powi_cancel)
qed

lemma two_53: "(2::real) ^ 53 = 2 powi 53"
  by simp

lemma binary64_exact:
  assumes k: "\<bar>k\<bar> \<le> 2 ^ 53" and j: "- 1074 \<le> j"
  shows "binary64 (of_int k * 2 powi j) = of_int k * 2 powi j"
proof (cases "k = 0")
  case True
  then show ?thesis by simp
next
  case False
  define x where "x = real_of_int k * 2 powi j"
  define e where "e = binade x"
  have x0: "x \<noteq> 0" using False by (simp add: x_def)
  have ax: "\<bar>x\<bar> = real_of_int \<bar>k\<bar> * 2 powi j" by (simp add: x_def abs_mult)
  have "real_of_int \<bar>k\<bar> \<le> real_of_int (2 ^ 53)" using k by (simp only: of_int_le_iff)
  then have rk: "real_of_int \<bar>k\<bar> \<le> 2 powi 53" by simp
  have "\<exists>n. x * 2 powi (52 - e) = of_int n"
  proof (cases "0 \<le> j + 52 - e")
    case True
    have "x * 2 powi (52 - e) = of_int k * (2 powi j * 2 powi (52 - e))"
      by (simp add: x_def)
    also have "\<dots> = of_int k * 2 powi (j + (52 - e))"
      by (simp only: powi_add2)
    also have "\<dots> = of_int k * 2 ^ nat (j + (52 - e))"
      using True by (simp add: power_int_nonneg_exp)
    also have "\<dots> = of_int (k * 2 ^ nat (j + (52 - e)))" by simp
    finally show ?thesis ..
  next
    case False
    then have gt: "j + 52 < e" by simp
    with j have "- 1022 < e" by simp
    then have ee: "e = exponent x" by (simp add: e_def binade_def)
    have "2 powi e \<le> \<bar>x\<bar>" using exponent_bounds(1) [OF x0] ee by simp
    also have "\<dots> \<le> 2 powi 53 * 2 powi j"
      unfolding ax using rk by (intro mult_right_mono) simp_all
    also have "\<dots> = 2 powi (53 + j)" by (simp only: powi_add2)
    finally have le: "(2::real) powi e \<le> 2 powi (53 + j)" .
    have "e \<le> 53 + j"
    proof (rule ccontr)
      assume "\<not> e \<le> 53 + j"
      then have "53 + j < e" by simp
      then have "(2::real) powi (53 + j) < 2 powi e" by (intro power_int_strict_increasing) simp_all
      with le show False by simp
    qed
    with gt have e53: "e = 53 + j" by simp
    have "2 powi (53 + j) \<le> \<bar>x\<bar>" using exponent_bounds(1) [OF x0] ee e53 by simp
    then have "2 powi 53 * 2 powi j \<le> real_of_int \<bar>k\<bar> * 2 powi j"
      unfolding ax by (simp only: powi_add2)
    then have "(2::real) powi 53 \<le> real_of_int \<bar>k\<bar>"
      by (simp only: mult_le_cancel_right) (simp add: not_less [symmetric])
    then have "real_of_int (2 ^ 53) \<le> real_of_int \<bar>k\<bar>" by simp
    then have "2 ^ 53 \<le> \<bar>k\<bar>" by (simp only: of_int_le_iff)
    with k have kk: "\<bar>k\<bar> = 2 ^ 53" by simp
    have "even \<bar>k\<bar>" unfolding kk by simp
    then have "even k" by simp
    then have ev: "k = 2 * (k div 2)" by simp
    have "x * 2 powi (52 - e) = of_int k * (2 powi j * 2 powi (52 - e))"
      by (simp add: x_def)
    also have "\<dots> = of_int k * 2 powi (j + (52 - e))"
      by (simp only: powi_add2)
    also have "\<dots> = of_int k * 2 powi (- 1)"
      by (simp add: e53)
    also have "\<dots> = of_int (2 * (k div 2)) / 2"
      using ev by (simp add: power_int_minus field_simps)
    also have "\<dots> = of_int (k div 2)" by simp
    finally show ?thesis ..
  qed
  then obtain n where "x * 2 powi (52 - binade x) = of_int n" unfolding e_def ..
  from binary64_on_grid [OF this] show ?thesis by (simp add: x_def)
qed

lemma binary64_int: "\<bar>k\<bar> \<le> 2 ^ 53 \<Longrightarrow> binary64 (of_int k) = of_int k"
  using binary64_exact [of k 0] by simp

lemma binary64_nat:
  assumes "n \<le> 2 ^ 53"
  shows "binary64 (real n) = real n"
proof -
  have "int n \<le> int (2 ^ 53)" using assms by (simp only: zle_int)
  then have "\<bar>int n\<bar> \<le> 2 ^ 53" by simp
  from binary64_int [OF this] show ?thesis by simp
qed

lemma binary64_idem [simp]: "binary64 (binary64 x) = binary64 x"
proof (cases "x = 0")
  case True
  then show ?thesis by simp
next
  case False
  define n where "n = roundEven (x * 2 powi (52 - binade x))"
  have b: "binary64 x = of_int n * 2 powi (binade x - 52)"
    using False by (simp add: binary64_def n_def)
  have "\<bar>n\<bar> \<le> 2 ^ 53"
  proof (cases "0 < x")
    case True
    have "x * 2 powi (52 - binade x) \<le> of_int (2 ^ 53)"
      using scaled_bounds(1) [OF True] by simp
    then have "n \<le> 2 ^ 53" unfolding n_def by (rule roundEven_le_int)
    moreover have "of_int 0 \<le> x * 2 powi (52 - binade x)" using True by simp
    then have "0 \<le> n" unfolding n_def by (rule roundEven_ge_int)
    ultimately show ?thesis by simp
  next
    case f: False
    with False have p: "0 < - x" by simp
    have "(- x) * 2 powi (52 - binade (- x)) \<le> of_int (2 ^ 53)"
      using scaled_bounds(1) [OF p] by simp
    then have "roundEven ((- x) * 2 powi (52 - binade (- x))) \<le> 2 ^ 53" by (rule roundEven_le_int)
    then have "- n \<le> 2 ^ 53" by (simp add: n_def roundEven_minus)
    moreover have "0 \<le> (- x) * 2 powi (52 - binade (- x))"
      using p by (intro mult_nonneg_nonneg) simp_all
    then have "of_int 0 \<le> (- x) * 2 powi (52 - binade (- x))" by simp
    then have "0 \<le> roundEven ((- x) * 2 powi (52 - binade (- x)))" by (rule roundEven_ge_int)
    then have "0 \<le> - n" by (simp add: n_def roundEven_minus)
    ultimately show ?thesis by simp
  qed
  moreover have "- 1074 \<le> binade x - 52" by (simp add: binade_def)
  ultimately show ?thesis unfolding b by (rule binary64_exact)
qed

lemma binary64_abs_le:
  assumes "\<bar>x\<bar> \<le> b" and "binary64 b = b"
  shows "\<bar>binary64 x\<bar> \<le> b"
proof -
  have "binary64 x \<le> binary64 b" using assms(1) by (intro binary64_mono) simp
  moreover have "binary64 (- b) \<le> binary64 x" using assms(1) by (intro binary64_mono) simp
  ultimately show ?thesis using assms(2) by (simp add: binary64_minus abs_le_iff)
qed

lemma binary64_pow2: "- 1074 \<le> j \<Longrightarrow> binary64 (2 powi j) = 2 powi j"
  using binary64_exact [of 1 j] by simp

lemma number_finite:
  assumes "\<bar>x\<bar> \<le> 2 ^ 1023"
  shows "number x = Num (binary64 x)"
proof -
  have "binary64 (2 ^ 1023) = (2::real) ^ 1023"
    using binary64_pow2 [of 1023] by simp
  from binary64_abs_le [OF assms this] have "\<bar>binary64 x\<bar> \<le> 2 ^ 1023" .
  also have "\<dots> < overflowThreshold" by (simp add: overflowThreshold_def)
  finally show ?thesis by (simp add: number_def)
qed

lemma number_int:
  assumes "\<bar>k\<bar> \<le> 2 ^ 53"
  shows "number (of_int k) = Num (of_int k)"
proof -
  have "real_of_int \<bar>k\<bar> \<le> real_of_int (2 ^ 53)" using assms by (simp only: of_int_le_iff)
  also have "\<dots> \<le> 2 ^ 1023" by simp
  finally have "\<bar>real_of_int k\<bar> \<le> 2 ^ 1023" by simp
  then show ?thesis by (simp add: number_finite binary64_int [OF assms])
qed

lemma number_nat:
  assumes "n \<le> 2 ^ 53"
  shows "number (real n) = Num (real n)"
proof -
  have "int n \<le> int (2 ^ 53)" using assms by (simp only: zle_int)
  then have "\<bar>int n\<bar> \<le> 2 ^ 53" by simp
  from number_int [OF this] show ?thesis by simp
qed

lemma number_0 [simp]: "number 0 = Num 0"
  using number_int [of 0] by simp

lemma number_1 [simp]: "number 1 = Num 1"
  using number_int [of 1] by simp

lemma number_numeral [simp]:
  "numeral w \<le> (9007199254740992::int) \<Longrightarrow> number (numeral w) = Num (numeral w)"
  using number_int [of "numeral w"] by simp

lemma number_neg_numeral [simp]:
  "numeral w \<le> (9007199254740992::int) \<Longrightarrow> number (- numeral w) = Num (- numeral w)"
  using number_int [of "- numeral w"] by simp

lemma number_dyadic:
  assumes "\<bar>k\<bar> \<le> 2 ^ 53" and "j \<le> 1074"
  shows "number (of_int k / 2 ^ j) = Num (of_int k / 2 ^ j)"
proof -
  have e: "real_of_int k / 2 ^ j = of_int k * 2 powi (- int j)"
    by (simp add: power_int_minus field_simps)
  have b: "binary64 (real_of_int k / 2 ^ j) = real_of_int k / 2 ^ j"
    unfolding e using assms by (intro binary64_exact) simp_all
  have "real_of_int \<bar>k\<bar> \<le> real_of_int (2 ^ 53)" using assms(1) by (simp only: of_int_le_iff)
  then have "\<bar>real_of_int k\<bar> \<le> 2 ^ 53" by simp
  moreover have "\<bar>real_of_int k / 2 ^ j\<bar> \<le> \<bar>real_of_int k\<bar>"
    by (simp add: abs_divide field_simps mult_le_cancel_left1)
  moreover have "(2::real) ^ 53 \<le> 2 ^ 1023" by simp
  ultimately have "\<bar>real_of_int k / 2 ^ j\<bar> \<le> 2 ^ 1023" by linarith
  then show ?thesis by (simp add: number_finite b)
qed

lemma number_half [simp]: "number (1 / 2) = Num (1 / 2)"
  using number_dyadic [of 1 1] by simp

lemma binary64_int_threshold:
  assumes "0 < c" and "c \<le> 2 ^ 53"
  shows "(\<bar>binary64 (of_int d)\<bar> < of_int c) = (\<bar>d\<bar> < c)"
proof
  assume a: "\<bar>d\<bar> < c"
  with assms(2) have "\<bar>d\<bar> \<le> 2 ^ 53" by simp
  then have "binary64 (of_int d) = of_int d" by (rule binary64_int)
  with a show "\<bar>binary64 (real_of_int d)\<bar> < of_int c" by simp
next
  assume a: "\<bar>binary64 (real_of_int d)\<bar> < of_int c"
  have c: "binary64 (of_int c) = of_int c" using assms by (intro binary64_int) simp
  show "\<bar>d\<bar> < c"
  proof (rule ccontr)
    assume "\<not> \<bar>d\<bar> < c"
    then consider "c \<le> d" | "d \<le> - c" by linarith
    then show False
    proof cases
      case 1
      then have "real_of_int c \<le> real_of_int d" by simp
      from binary64_mono [OF this] c a show False by simp
    next
      case 2
      then have "real_of_int d \<le> - real_of_int c" by simp
      from binary64_mono [OF this] c a show False by (simp add: binary64_minus)
    qed
  qed
qed

lemma floor_binary64_quotient:
  assumes D: "0 < D" "D \<le> 2 ^ 53" and d: "\<bar>d\<bar> < 2 ^ 52"
  shows "\<lfloor>binary64 (of_int d / of_int D) + 1 / 2\<rfloor> = \<lfloor>real_of_int d / of_int D + 1 / 2\<rfloor>"
proof -
  define x where "x = real_of_int d / real_of_int D"
  define m where "m = \<lfloor>x + 1 / 2\<rfloor>"
  have rD: "0 < real_of_int D" "1 \<le> real_of_int D" using D(1) by simp_all
  have lo: "of_int m - 1 / 2 \<le> x" and hi: "x < of_int m + 1 / 2"
    unfolding m_def by linarith+
  have ax: "\<bar>x\<bar> \<le> real_of_int \<bar>d\<bar>"
  proof -
    have "\<bar>x\<bar> = real_of_int \<bar>d\<bar> / real_of_int D" using rD by (simp add: x_def abs_divide)
    also have "\<dots> \<le> real_of_int \<bar>d\<bar> / 1" using rD by (intro divide_left_mono) simp_all
    finally show ?thesis by simp
  qed
  have "real_of_int \<bar>m\<bar> \<le> \<bar>x\<bar> + 1 / 2" using lo hi by (simp add: abs_if) 
  with ax have "real_of_int \<bar>m\<bar> \<le> real_of_int \<bar>d\<bar> + 1 / 2" by linarith
  then have "real_of_int \<bar>m\<bar> < real_of_int (\<bar>d\<bar> + 1)" by simp
  then have "\<bar>m\<bar> < \<bar>d\<bar> + 1" by (simp only: of_int_less_iff)
  with d have m53: "\<bar>2 * m - 1\<bar> \<le> 2 ^ 53" by simp
  have half: "binary64 (of_int m - 1 / 2) = of_int m - 1 / 2"
  proof -
    have e1: "real_of_int m - 1 / 2 = real_of_int (2 * m - 1) * 2 powi (- 1)"
      by (simp add: power_int_minus field_simps)
    have e2: "binary64 (real_of_int (2 * m - 1) * 2 powi (- 1)) = real_of_int (2 * m - 1) * 2 powi (- 1)"
      using m53 by (intro binary64_exact) simp_all
    show ?thesis unfolding e1 by (rule e2)
  qed
  have b_lo: "of_int m - 1 / 2 \<le> binary64 x"
    using binary64_mono [OF lo] half by simp
  have b_hi: "binary64 x < of_int m + 1 / 2"
  proof (cases "d = 0")
    case True
    then have "x = 0" by (simp add: x_def)
    with hi show ?thesis by simp
  next
    case False
    then have x0: "x \<noteq> 0" using rD by (simp add: x_def)
    have "real_of_int d * 2 < (2 * real_of_int m + 1) * real_of_int D"
      using hi rD by (simp add: x_def field_simps)
    then have "real_of_int (d * 2) < real_of_int ((2 * m + 1) * D)" by simp
    then have "d * 2 < (2 * m + 1) * D" by (simp only: of_int_less_iff)
    then have "d * 2 + 1 \<le> (2 * m + 1) * D" by simp
    then have "real_of_int (d * 2 + 1) \<le> real_of_int ((2 * m + 1) * D)" by (simp only: of_int_le_iff)
    then have gap: "x + 1 / (2 * real_of_int D) \<le> of_int m + 1 / 2"
      using rD by (simp add: x_def field_simps)
    have "1 \<le> real_of_int \<bar>d\<bar>" using False by (simp flip: of_int_abs)
    then have "1 / real_of_int D \<le> \<bar>x\<bar>"
      using rD by (simp add: x_def abs_divide divide_right_mono flip: of_int_abs)
    moreover have "2 powi (- 53) \<le> 1 / real_of_int D"
    proof -
      have "real_of_int D \<le> real_of_int (2 ^ 53)" using D(2) by (simp only: of_int_le_iff)
      then have "real_of_int D \<le> 2 ^ 53" by simp
      then have "1 / (2::real) ^ 53 \<le> 1 / real_of_int D" using rD by (intro divide_left_mono) simp_all
      then show ?thesis by (simp add: power_int_minus_divide)
    qed
    ultimately have "2 powi (- 53) \<le> \<bar>x\<bar>" by linarith
    moreover have "\<bar>x\<bar> < 2 powi (exponent x + 1)" by (rule exponent_bounds(2) [OF x0])
    ultimately have lt: "(2::real) powi (- 53) < 2 powi (exponent x + 1)" by linarith
    have "- 53 < exponent x + 1"
    proof (rule ccontr)
      assume "\<not> - 53 < exponent x + 1"
      then have "exponent x + 1 \<le> - 53" by simp
      then have "(2::real) powi (exponent x + 1) \<le> 2 powi (- 53)"
        by (intro power_int_increasing) simp_all
      with lt show False by simp
    qed
    then have be: "binade x = exponent x" by (simp add: binade_def)
    have "2 powi exponent x \<le> \<bar>x\<bar>" by (rule exponent_bounds(1) [OF x0])
    also have "\<bar>x\<bar> = real_of_int \<bar>d\<bar> / real_of_int D" using rD by (simp add: x_def abs_divide)
    also have "\<dots> < 2 ^ 52 / real_of_int D"
    proof -
      have "real_of_int \<bar>d\<bar> < real_of_int (2 ^ 52)" using d by (simp only: of_int_less_iff)
      then have "real_of_int \<bar>d\<bar> < 2 ^ 52" by simp
      then show ?thesis using rD by (intro divide_strict_right_mono) simp_all
    qed
    finally have e: "2 powi exponent x < 2 ^ 52 / real_of_int D" .
    have "(2::real) powi (binade x - 53) = 2 powi (exponent x + (- 53))"
      by (simp add: be)
    also have "\<dots> = 2 powi exponent x * 2 powi (- 53)"
      by (simp only: powi_add2)
    also have "\<dots> < 2 ^ 52 / real_of_int D * 2 powi (- 53)"
      using e by (intro mult_strict_right_mono) simp_all
    also have "\<dots> = 1 / (2 * real_of_int D)"
      by (simp add: power_int_minus_divide)
    finally have err: "2 powi (binade x - 53) < 1 / (2 * real_of_int D)" .
    have "binary64 x \<le> x + 2 powi (binade x - 53)"
      using binary64_error [OF x0] by (simp add: abs_le_iff) 
    with err gap show ?thesis by linarith
  qed
  from b_lo b_hi have "\<lfloor>binary64 x + 1 / 2\<rfloor> = m" by linarith
  then show ?thesis by (simp add: x_def m_def)
qed

section \<open>Properties of the classifier\<close>

lemma set_insertCmp: "set (insertCmp cmp x xs) = insert x (set xs)"
  by (induction xs) auto

lemma jsSort_Cons: "jsSort cmp (x # xs) = insertCmp cmp x (jsSort cmp xs)"
  by (simp add: jsSort_def)

lemma set_jsSort: "set (jsSort cmp xs) = set xs"
  by (induction xs) (simp_all add: jsSort_Cons set_insertCmp, simp add: jsSort_def)

lemma length_insertCmp: "length (insertCmp cmp x xs) = Suc (length xs)"
  by (induction xs) auto

lemma length_jsSort: "length (jsSort cmp xs) = length xs"
  by (induction xs) (simp_all add: jsSort_Cons length_insertCmp, simp add: jsSort_def)

lemma ranked_insertCmp:
  assumes "sorted_wrt rankedBefore ys"
    and "\<forall>y\<in>set ys. catalogIndex (fst x) < catalogIndex (fst y)"
  shows "sorted_wrt rankedBefore (insertCmp byScoreDesc x ys)"
  using assms
proof (induction ys)
  case Nil
  then show ?case by simp
next
  case (Cons y ys)
  show ?case
  proof (cases "byScoreDesc x y \<le> 0")
    case True
    then have xy: "score (snd y) \<le> score (snd x)" by (simp add: byScoreDesc_def)
    have "rankedBefore x z" if "z \<in> set (y # ys)" for z
    proof -
      have "score (snd z) \<le> score (snd y)"
        using that Cons.prems(1) by (auto simp: rankedBefore_def)
      with xy Cons.prems(2) that show ?thesis by (auto simp: rankedBefore_def)
    qed
    with True Cons.prems(1) show ?thesis by simp
  next
    case False
    then have yx: "score (snd x) < score (snd y)" by (simp add: byScoreDesc_def)
    have "sorted_wrt rankedBefore (insertCmp byScoreDesc x ys)"
      using Cons by simp
    moreover have "rankedBefore y w" if "w \<in> set (insertCmp byScoreDesc x ys)" for w
      using that yx Cons.prems(1) by (auto simp: set_insertCmp rankedBefore_def)
    ultimately show ?thesis using False by simp
  qed
qed

lemma ranked_jsSort:
  "sorted_wrt (\<lambda>a b. catalogIndex (fst a) < catalogIndex (fst b)) xs
   \<Longrightarrow> sorted_wrt rankedBefore (jsSort byScoreDesc xs)"
proof (induction xs)
  case Nil
  then show ?case by (simp add: jsSort_def)
next
  case (Cons x xs)
  then show ?case
    by (simp add: jsSort_Cons ranked_insertCmp set_jsSort)
qed

lemma catalogIndex_names:
  "map (catalogIndex \<circ> fst) archetypes = [0, 1, 2, 3, 4, 5, 6, 7]"
  by (simp add: catalogIndex_def archetypes_def)

lemma catalogIndex_nth:
  assumes "k < 8"
  shows "catalogIndex (fst (archetypes ! k)) = k"
proof -
  from assms have "k \<in> {0, 1, 2, 3, 4, 5, 6, 7}" by auto
  then show ?thesis
    by (elim insertE emptyE) (simp_all add: catalogIndex_def archetypes_def)
qed

lemma fst_scoreArchetype: "fst (scoreArchetype p b e) = fst e"
  by (simp add: scoreArchetype_def Let_def split: prod.splits)

lemma archetypeScores_names: "map fst (archetypeScores p b) = map fst archetypes"
  by (simp add: archetypeScores_def fst_scoreArchetype)

lemma archetypeScores_positions:
  "sorted_wrt (\<lambda>a b. catalogIndex (fst a) < catalogIndex (fst b)) (archetypeScores p b)"
proof -
  have "map (catalogIndex \<circ> fst) (archetypeScores p b) = [0, 1, 2, 3, 4, 5, 6, 7]"
    using catalogIndex_names archetypeScores_names [of p b]
    by (metis map_map)
  then have "sorted_wrt (<) (map (catalogIndex \<circ> fst) (archetypeScores p b))" by simp
  then show ?thesis by (simp add: sorted_wrt_map)
qed


lemma bestMatch_foldl:
  "foldl bestStep best xs = best \<and> (\<forall>e\<in>set xs. score (snd e) \<le> snd best)
   \<or> (\<exists>k<length xs. foldl bestStep best xs = (fst (xs ! k), score (snd (xs ! k)))
        \<and> snd best < score (snd (xs ! k))
        \<and> (\<forall>j<length xs. score (snd (xs ! j)) \<le> score (snd (xs ! k)))
        \<and> (\<forall>j<k. score (snd (xs ! j)) < score (snd (xs ! k))))"
proof (induction xs rule: rev_induct)
  case Nil
  then show ?case by simp
next
  case (snoc x xs)
  let ?b = "foldl bestStep best xs"
  show ?case
  proof (cases "score (snd x) > snd ?b")
    case True
    have all: "\<forall>j<length xs. score (snd (xs ! j)) \<le> snd ?b"
      using snoc.IH by (auto simp: all_set_conv_all_nth)
    have ge: "snd best \<le> snd ?b" using snoc.IH by auto
    have "foldl bestStep best (xs @ [x]) = (fst x, score (snd x))"
      using True by (simp add: bestStep_def)
    moreover have "\<forall>j<length (xs @ [x]). score (snd ((xs @ [x]) ! j)) \<le> score (snd x)"
      using all True by (auto simp: nth_append less_Suc_eq)
    moreover have "\<forall>j<length xs. score (snd ((xs @ [x]) ! j)) < score (snd x)"
      using all True by (auto simp: nth_append)
    ultimately show ?thesis using True ge
      by (intro disjI2 exI [of _ "length xs"]) simp
  next
    case False
    then have keep: "foldl bestStep best (xs @ [x]) = ?b" by (simp add: bestStep_def)
    from snoc.IH show ?thesis
    proof (elim disjE exE conjE)
      assume "?b = best" "\<forall>e\<in>set xs. score (snd e) \<le> snd best"
      with False keep show ?thesis by auto
    next
      fix k
      assume k: "k < length xs" "?b = (fst (xs ! k), score (snd (xs ! k)))"
        "snd best < score (snd (xs ! k))"
        "\<forall>j<length xs. score (snd (xs ! j)) \<le> score (snd (xs ! k))"
        "\<forall>j<k. score (snd (xs ! j)) < score (snd (xs ! k))"
      have "\<forall>j<length (xs @ [x]). score (snd ((xs @ [x]) ! j)) \<le> score (snd ((xs @ [x]) ! k))"
        using k False by (auto simp: nth_append less_Suc_eq)
      moreover have "\<forall>j<k. score (snd ((xs @ [x]) ! j)) < score (snd ((xs @ [x]) ! k))"
        using k by (auto simp: nth_append)
      ultimately show ?thesis using k keep
        by (intro disjI2 exI [of _ k]) (simp add: nth_append)
    qed
  qed
qed


lemma traitStep_points:
  "fst (traitStep cats acc (t, lv)) = fst acc + pointsTable (cats t) lv"
  by (cases acc; cases "cats t"; cases lv) (simp_all add: traitStep_def)

lemma foldl_traitStep_points:
  "fst (foldl (traitStep cats) acc reqs)
     = fst acc + (\<Sum>req\<leftarrow>reqs. pointsTable (cats (fst req)) (snd req))"
proof (induction reqs arbitrary: acc)
  case Nil
  then show ?case by simp
next
  case (Cons req reqs)
  obtain t lv where req: "req = (t, lv)" by (cases req)
  show ?case by (simp add: Cons.IH req traitStep_points)
qed

lemma fst_bonusIf: "fst (bonusIf c f acc) = fst acc + (if c then 20 else 0)"
  by (simp add: bonusIf_def)

lemma behaviorStep_points:
  "fst (behaviorStep n behavior acc) = fst acc + bonusPoints n behavior"
  by (cases behavior) (simp_all add: behaviorStep_def bonusPoints_def Let_def fst_bonusIf)

lemma bonusPoints_nonneg: "0 \<le> bonusPoints n behavior"
  by (cases behavior) (simp_all add: bonusPoints_def)

lemma score_scoreArchetype:
  "score (snd (scoreArchetype p behavior (n, tr)))
     = (\<Sum>req\<leftarrow>requirements tr. pointsTable (personalityCategories p (fst req)) (snd req))
       + bonusPoints n behavior"
  by (simp add: scoreArchetype_def Let_def behaviorStep_points foldl_traitStep_points)

lemma explorer_or_comfort_scores:
  "15 \<le> score (snd (archetypeScores p behavior ! 0))
   \<or> 15 \<le> score (snd (archetypeScores p behavior ! 1))"
proof -
  have e: "score (snd (archetypeScores p behavior ! 0))
      = pointsTable (personalityCategories p Openness) High
        + pointsTable (personalityCategories p Neuroticism) Low
        + bonusPoints ''The Explorer'' behavior"
    by (simp add: archetypeScores_def archetypes_def score_scoreArchetype)
  have c: "score (snd (archetypeScores p behavior ! 1))
      = pointsTable (personalityCategories p Neuroticism) High
        + pointsTable (personalityCategories p Conscientiousness) High
        + bonusPoints ''The Comfort Seeker'' behavior"
    by (simp add: archetypeScores_def archetypes_def score_scoreArchetype)
  have nn: "0 \<le> pointsTable a b" for a b by (cases a; cases b) simp_all
  show ?thesis
  proof (cases "personalityCategories p Neuroticism")
    case Low
    then show ?thesis
      using e nn [of "personalityCategories p Openness" High] bonusPoints_nonneg [of "''The Explorer''" behavior]
      by simp
  next
    case Moderate
    then show ?thesis
      using c nn [of "personalityCategories p Conscientiousness" High] bonusPoints_nonneg [of "''The Comfort Seeker''" behavior]
      by simp
  next
    case High
    then show ?thesis
      using c nn [of "personalityCategories p Conscientiousness" High] bonusPoints_nonneg [of "''The Comfort Seeker''" behavior]
      by simp
  qed
qed

lemma length_archetypeScores: "length (archetypeScores p behavior) = 8"
  by (simp add: archetypeScores_def archetypes_def)

lemma topArchetypes_ranked:
  "sorted_wrt rankedBefore (take 3 (jsSort byScoreDesc (archetypeScores p behavior)))"
  by (intro sorted_wrt_take ranked_jsSort archetypeScores_positions)

lemma bestMatch_positive:
  assumes "\<exists>e\<in>set xs. 0 < score (snd e)"
  shows "\<exists>k<length xs. bestMatch xs = (fst (xs ! k), score (snd (xs ! k)))
        \<and> 0 < score (snd (xs ! k))
        \<and> (\<forall>j<length xs. score (snd (xs ! j)) \<le> score (snd (xs ! k)))
        \<and> (\<forall>j<k. score (snd (xs ! j)) < score (snd (xs ! k)))"
proof -
  from assms obtain e where e: "e \<in> set xs" "0 < score (snd e)" ..
  have no: "\<not> (\<forall>e\<in>set xs. score (snd e) \<le> snd (emptyName, 0::int))" for emptyName :: string
  proof
    assume "\<forall>e\<in>set xs. score (snd e) \<le> snd (emptyName, 0::int)"
    with e(1) have "score (snd e) \<le> 0" by simp
    with e(2) show False by simp
  qed
  from bestMatch_foldl [of "([], 0)" xs] show ?thesis
  proof (elim disjE conjE)
    assume "\<forall>e\<in>set xs. score (snd e) \<le> snd ([] :: string, 0::int)"
    with no show ?thesis by simp
  next
    assume "\<exists>k<length xs. foldl bestStep ([], 0) xs = (fst (xs ! k), score (snd (xs ! k)))
        \<and> snd ([] :: string, 0::int) < score (snd (xs ! k))
        \<and> (\<forall>j<length xs. score (snd (xs ! j)) \<le> score (snd (xs ! k)))
        \<and> (\<forall>j<k. score (snd (xs ! j)) < score (snd (xs ! k)))"
    then show ?thesis by (simp add: bestMatch_def)
  qed
qed

lemma primary_is_first_max:
  "\<exists>k<length archetypes.
      bestMatch (archetypeScores p behavior) = (fst (archetypes ! k), archetypeScoreAt p behavior k)
      \<and> 0 < archetypeScoreAt p behavior k
      \<and> (\<forall>j<length archetypes. archetypeScoreAt p behavior j \<le> archetypeScoreAt p behavior k)
      \<and> (\<forall>j<k. archetypeScoreAt p behavior j < archetypeScoreAt p behavior k)"
proof -
  let ?xs = "archetypeScores p behavior"
  have len: "length ?xs = length archetypes" by (simp add: archetypeScores_def)
  have names: "fst (?xs ! k) = fst (archetypes ! k)" if "k < length archetypes" for k
    using that by (simp add: archetypeScores_def fst_scoreArchetype)
  have m: "?xs ! 0 \<in> set ?xs" "?xs ! 1 \<in> set ?xs"
    by (simp_all add: length_archetypeScores)
  have "\<exists>e\<in>set ?xs. 0 < score (snd e)"
    using explorer_or_comfort_scores [of p behavior]
  proof
    assume "15 \<le> score (snd (?xs ! 0))"
    then have "0 < score (snd (?xs ! 0))" by simp
    with m(1) show ?thesis ..
  next
    assume "15 \<le> score (snd (?xs ! 1))"
    then have "0 < score (snd (?xs ! 1))" by simp
    with m(2) show ?thesis ..
  qed
  from bestMatch_positive [OF this] obtain k where k: "k < length ?xs"
      and b: "bestMatch ?xs = (fst (?xs ! k), score (snd (?xs ! k)))"
      and pos: "0 < score (snd (?xs ! k))"
      and mx: "\<forall>j<length ?xs. score (snd (?xs ! j)) \<le> score (snd (?xs ! k))"
      and fs: "\<forall>j<k. score (snd (?xs ! j)) < score (snd (?xs ! k))"
    by (elim exE conjE)
  show ?thesis
  proof (intro exI [of _ k] conjI)
    show "k < length archetypes" using k len by simp
    show "bestMatch ?xs = (fst (archetypes ! k), archetypeScoreAt p behavior k)"
      using b names [of k] k len by (simp add: archetypeScoreAt_def)
    show "0 < archetypeScoreAt p behavior k" using pos by (simp add: archetypeScoreAt_def)
    show "\<forall>j<length archetypes. archetypeScoreAt p behavior j \<le> archetypeScoreAt p behavior k"
      using mx len by (simp add: archetypeScoreAt_def)
    show "\<forall>j<k. archetypeScoreAt p behavior j < archetypeScoreAt p behavior k"
      using fs by (simp add: archetypeScoreAt_def)
  qed
qed

lemma archetypeScoreAt_points:
  assumes "k < length archetypes"
  shows "archetypeScoreAt p behavior k
     = (\<Sum>req\<leftarrow>requirements (snd (archetypes ! k)).
          pointsTable (personalityCategories p (fst req)) (snd req))
       + bonusPoints (fst (archetypes ! k)) behavior"
proof -
  obtain n tr where e: "archetypes ! k = (n, tr)" by (cases "archetypes ! k")
  show ?thesis
    using assms by (simp add: archetypeScoreAt_def archetypeScores_def e score_scoreArchetype)
qed

lemma classify_score_at_least_15:
  "15 \<le> matchScore (classifyTravelArchetype p behavior)
   \<and> primaryArchetype (classifyTravelArchetype p behavior) \<in> fst ` set archetypes"
proof -
  from primary_is_first_max [of p behavior] obtain k where k: "k < length archetypes"
    and b: "bestMatch (archetypeScores p behavior) = (fst (archetypes ! k), archetypeScoreAt p behavior k)"
    and mx: "\<forall>j<length archetypes. archetypeScoreAt p behavior j \<le> archetypeScoreAt p behavior k"
    by (elim exE conjE)
  have l: "length archetypes = 8" by (simp add: archetypes_def)
  from mx l have "archetypeScoreAt p behavior 0 \<le> archetypeScoreAt p behavior k"
    "archetypeScoreAt p behavior 1 \<le> archetypeScoreAt p behavior k" by simp_all
  with explorer_or_comfort_scores [of p behavior]
  have "15 \<le> archetypeScoreAt p behavior k" by (auto simp: archetypeScoreAt_def)
  moreover have "fst (archetypes ! k) \<in> fst ` set archetypes"
    using k by simp
  ultimately show ?thesis
    using b by (simp add: classifyTravelArchetype_def selectArchetypes_def Let_def)
qed

section \<open>Properties of the extractors\<close>

subsection \<open>Numbers read from a field\<close>

lemma number_cases:
  obtains y where "number x = Num y" "binary64 y = y" "\<bar>y\<bar> < overflowThreshold"
  | "number x = PInf" | "number x = NInf"
proof (cases "overflowThreshold \<le> \<bar>binary64 x\<bar>")
  case True
  show ?thesis
  proof (cases "x < 0")
    case True
    with \<open>overflowThreshold \<le> \<bar>binary64 x\<bar>\<close> have "number x = NInf"
      by (simp add: number_def jsinf_def)
    then show ?thesis by (rule that(3))
  next
    case False
    with \<open>overflowThreshold \<le> \<bar>binary64 x\<bar>\<close> have "number x = PInf"
      by (simp add: number_def jsinf_def)
    then show ?thesis by (rule that(2))
  qed
next
  case False
  then show ?thesis using that(1) [of "binary64 x"] by (simp add: number_def)
qed

lemma number_of_double:
  assumes "binary64 y = y" and "\<bar>y\<bar> < overflowThreshold"
  shows "number y = Num y"
  using assms by (simp add: number_def)

lemma jsadd_zero_number [simp]: "jsadd (Num 0) (number x) = number x"
  by (rule number_cases [of x]) (simp_all add: number_of_double)

lemma jsdiv_number_one [simp]: "jsdiv (number x) (Num 1) = number x"
  by (rule number_cases [of x]) (simp_all add: number_of_double jsinf_def)

lemma orZero_cases: "orZero v = Num 0 \<or> (\<exists>x. orZero v = number x)"
  by (auto simp: orZero_def toNumber_def truthyNumber_def split: option.splits)

lemma jsadd_zero_orZero [simp]: "jsadd (Num 0) (orZero v) = orZero v"
  using orZero_cases [of v] by auto

lemma jsdiv_orZero_one [simp]: "jsdiv (orZero v) (Num 1) = orZero v"
  using orZero_cases [of v] by auto

lemma orZero_numeral [simp]:
  "numeral w \<le> (9007199254740992::int) \<Longrightarrow> orZero (Some (numeral w)) = Num (numeral w)"
  by (simp add: orZero_def truthyNumber_def truthy_def toNumber_def)

lemma toNumber_numeral [simp]:
  "numeral w \<le> (9007199254740992::int) \<Longrightarrow> toNumber (Some (numeral w)) = Num (numeral w)"
  by (simp add: toNumber_def)

lemma truthyNumber_numeral [simp]:
  "numeral w \<le> (9007199254740992::int) \<Longrightarrow> truthyNumber (Some (numeral w))"
  by (simp add: truthyNumber_def truthy_def)

lemma truthyNumber_None [simp]: "\<not> truthyNumber None"
  by (simp add: truthyNumber_def)

subsection \<open>Price sensitivity\<close>

lemma priceLoop_single:
  "priceLoop [r] 0 (Num 0, Num 0, 0) = (orZero (minPrice r), orZero (maxPrice r), 0)"
  by (simp add: priceLoop.simps [of "[r]" 0] priceLoop.simps [of "[r]" "Suc 0"])

subsection \<open>Scroll patterns\<close>

lemma exampleScrolls_reports:
  "reportedDepths exampleScrolls = [50, 50, 50, 50]"
  "reportedSpeeds exampleScrolls = [3000]"
  by (simp_all add: exampleScrolls_def reportedDepths_def reportedSpeeds_def)

lemma exampleScrolls_totals:
  "foldl scrollStep (Num 0, Num 0, 0) exampleScrolls = (Num 200, Num 3000, 4)"
  by (simp add: exampleScrolls_def scrollStep_def)

lemma exampleScrolls_result:
  "analyzeScrollPatterns exampleScrolls =
       \<lparr>scrollDepth = Some ''50.0%'', scrollSpeed = Some ''750.0 px/s'',
        scrollBehavior = Some ''Casual Browser''\<rparr>"
proof -
  have ne: "exampleScrolls \<noteq> []" "length exampleScrolls = 4" by (simp_all add: exampleScrolls_def)
  show ?thesis
    using ne
    by (simp add: analyzeScrollPatterns_def exampleScrolls_totals Let_def nullableValue_def
        toFixed_def natString.simps digitChar_def)
qed

subsection \<open>Dates\<close>

lemma newDate_range: "newDate f = ValidDate t \<Longrightarrow> \<bar>t\<bar> \<le> maxTime"
  by (auto simp: newDate_def split: option.splits jsdate.splits if_splits)

lemma number_time_difference:
  assumes "\<bar>t\<bar> \<le> maxTime" and "\<bar>u\<bar> \<le> maxTime"
  shows "jssub (Num (of_int t)) (Num (of_int u)) = Num (binary64 (of_int (t - u)))"
proof -
  have "\<bar>t - u\<bar> \<le> 2 ^ 54" using assms by (simp add: maxTime_def)
  then have "real_of_int \<bar>t - u\<bar> \<le> real_of_int (2 ^ 54)" by (simp only: of_int_le_iff)
  also have "\<dots> \<le> 2 ^ 1023" by simp
  finally have "\<bar>real_of_int (t - u)\<bar> \<le> 2 ^ 1023" by simp
  from number_finite [OF this] show ?thesis by (simp add: jssub_def)
qed

subsection \<open>Planning window\<close>

lemma number_quotient:
  assumes "\<bar>d\<bar> \<le> 2 ^ 53" and "0 < D"
  shows "number (real_of_int d / real_of_int D) = Num (binary64 (real_of_int d / real_of_int D))"
proof -
  have rD: "1 \<le> real_of_int D" using assms(2) by simp
  have "\<bar>real_of_int d / real_of_int D\<bar> = real_of_int \<bar>d\<bar> / real_of_int D"
    using rD by (simp add: abs_divide)
  also have "\<dots> \<le> real_of_int \<bar>d\<bar> / 1" using rD by (intro divide_left_mono) simp_all
  also have "\<dots> \<le> real_of_int (2 ^ 53)" using assms(1) by (simp only: of_int_le_iff div_by_1)
  also have "\<dots> \<le> 2 ^ 1023" by simp
  finally show ?thesis by (rule number_finite)
qed

lemma jsround_quotient:
  assumes "\<bar>d\<bar> < 2 ^ 52" and "0 < D" and "D \<le> 2 ^ 53"
  shows "jsround (jsdiv (Num (of_int d)) (Num (of_int D)))
           = Num (of_int (roundHalfUp (real_of_int d / real_of_int D)))"
proof -
  have "\<bar>d\<bar> \<le> 2 ^ 53" using assms(1) by simp
  from number_quotient [OF this assms(2)] assms(2)
  have "jsdiv (Num (of_int d)) (Num (of_int D)) = Num (binary64 (real_of_int d / real_of_int D))"
    by simp
  then show ?thesis
    by (simp add: roundHalfUp_def floor_binary64_quotient [OF assms(2,3,1)])
qed

lemma planningDays_valid:
  assumes "hasPlanningDates b"
  shows "planningDays b = Num (of_int (wholeDays b))"
proof -
  from assms obtain t u where t: "newDate (bookingDate b) = ValidDate t"
    and u: "newDate (checkIn b) = ValidDate u" and d: "\<bar>u - t\<bar> < 2 ^ 52"
    by (auto simp: hasPlanningDates_def split: jsdate.splits)
  have "\<bar>u - t\<bar> \<le> 2 ^ 53" using d by simp
  then have "binary64 (of_int (u - t)) = of_int (u - t)" by (rule binary64_int)
  then have sub: "jssub (Num (of_int u)) (Num (of_int t)) = Num (of_int (u - t))"
    using number_time_difference [OF newDate_range [OF u] newDate_range [OF t]] by simp
  have "planningDays b = jsround (jsdiv (Num (of_int (u - t))) (Num (of_int 86400000)))"
    by (simp add: planningDays_def t u sub)
  also have "\<dots> = Num (of_int (roundHalfUp (real_of_int (u - t) / real_of_int 86400000)))"
    using d by (intro jsround_quotient) simp_all
  finally show ?thesis by (simp add: wholeDays_def t u)
qed

lemma wholeDays_bound:
  assumes "hasPlanningDates b"
  shows "\<bar>wholeDays b\<bar> < 2 ^ 26"
proof -
  from assms obtain t u where t: "newDate (bookingDate b) = ValidDate t"
    and u: "newDate (checkIn b) = ValidDate u" and d: "\<bar>u - t\<bar> < 2 ^ 52"
    by (auto simp: hasPlanningDates_def split: jsdate.splits)
  define x where "x = real_of_int (u - t) / 86400000"
  have "real_of_int \<bar>u - t\<bar> < real_of_int (2 ^ 52)" using d by (simp only: of_int_less_iff)
  then have r: "\<bar>real_of_int (u - t)\<bar> < 2 ^ 52" by simp
  have "\<bar>x\<bar> = \<bar>real_of_int (u - t)\<bar> / 86400000" by (simp add: x_def)
  also have "\<dots> < 2 ^ 52 / 86400000" using r by (intro divide_strict_right_mono) simp_all
  also have "\<dots> < 60000000" by simp
  finally have xb: "\<bar>x\<bar> < 60000000" .
  have "\<lfloor>x + 1 / 2\<rfloor> < 2 ^ 26" using xb by (simp add: abs_less_iff)
  moreover have "- (2 ^ 26) < \<lfloor>x + 1 / 2\<rfloor>" using xb by (simp add: abs_less_iff)
  ultimately have "\<bar>\<lfloor>x + 1 / 2\<rfloor>\<bar> < 2 ^ 26" by linarith
  then show ?thesis by (simp add: wholeDays_def roundHalfUp_def t u x_def)
qed

lemma foldl_jsadd_ints:
  assumes "\<bar>a\<bar> + sum_list (map abs ks) \<le> 2 ^ 53"
  shows "foldl jsadd (Num (of_int a)) (map (\<lambda>k. Num (of_int k)) ks) = Num (of_int (a + sum_list ks))"
  using assms
proof (induction ks arbitrary: a)
  case Nil
  then show ?case by simp
next
  case (Cons k ks)
  have nn: "0 \<le> sum_list (map abs ks)" by (rule sum_list_nonneg) auto
  have "\<bar>a + k\<bar> \<le> 2 ^ 53" using Cons.prems nn by simp
  then have s: "jsadd (Num (of_int a)) (Num (of_int k)) = Num (of_int (a + k))"
    using number_int [of "a + k"] by simp
  have b: "\<bar>a + k\<bar> + sum_list (map abs ks) \<le> 2 ^ 53" using Cons.prems nn by simp
  have "foldl jsadd (Num (of_int a)) (map (\<lambda>k. Num (of_int k)) (k # ks))
      = foldl jsadd (jsadd (Num (of_int a)) (Num (of_int k))) (map (\<lambda>k. Num (of_int k)) ks)"
    by simp
  also have "\<dots> = foldl jsadd (Num (of_int (a + k))) (map (\<lambda>k. Num (of_int k)) ks)"
    by (simp only: s)
  also have "\<dots> = Num (of_int ((a + k) + sum_list ks))"
    by (rule Cons.IH [OF b])
  finally show ?case by (simp add: add.assoc)
qed

lemma foldl_jsmin_Num:
  "foldl jsmin (Num (of_int a)) (map (\<lambda>x. Num (of_int x)) xs) = Num (of_int (foldl min a xs))"
  by (induction xs arbitrary: a) (simp_all add: jsmin_def jslt_def min_def)

lemma foldl_jsmax_Num:
  "foldl jsmax (Num (of_int a)) (map (\<lambda>x. Num (of_int x)) xs) = Num (of_int (foldl max a xs))"
  by (induction xs arbitrary: a) (simp_all add: jsmax_def max_def)

lemma foldl_min_Min: "foldl min (a::int) xs = Min (set (a # xs))"
proof (induction xs arbitrary: a)
  case Nil
  then show ?case by simp
next
  case (Cons x xs)
  have "Min (set (a # x # xs)) = Min (insert (min a x) (set xs))"
    by (cases "xs = []") (simp_all add: min.assoc)
  then show ?case using Cons.IH [of "min a x"] by simp
qed

lemma foldl_max_Max: "foldl max (a::int) xs = Max (set (a # xs))"
proof (induction xs arbitrary: a)
  case Nil
  then show ?case by simp
next
  case (Cons x xs)
  have "Max (set (a # x # xs)) = Max (insert (max a x) (set xs))"
    by (cases "xs = []") (simp_all add: max.assoc)
  then show ?case using Cons.IH [of "max a x"] by simp
qed

lemma jsminList_Num:
  assumes "xs \<noteq> []"
  shows "jsminList (map (\<lambda>x. Num (of_int x)) xs) = Num (of_int (Min (set xs)))"
proof -
  obtain y ys where xs: "xs = y # ys" using assms by (cases xs) auto
  have "jsminList (map (\<lambda>x. Num (of_int x)) xs)
      = foldl jsmin (Num (of_int y)) (map (\<lambda>x. Num (of_int x)) ys)"
    by (simp add: jsminList_def xs jsmin_def jslt_def)
  then show ?thesis by (simp add: foldl_jsmin_Num foldl_min_Min xs)
qed

lemma jsmaxList_Num:
  assumes "xs \<noteq> []"
  shows "jsmaxList (map (\<lambda>x. Num (of_int x)) xs) = Num (of_int (Max (set xs)))"
proof -
  obtain y ys where xs: "xs = y # ys" using assms by (cases xs) auto
  have "jsmaxList (map (\<lambda>x. Num (of_int x)) xs)
      = foldl jsmax (Num (of_int y)) (map (\<lambda>x. Num (of_int x)) ys)"
    by (simp add: jsmaxList_def xs jsmax_def)
  then show ?thesis by (simp add: foldl_jsmax_Num foldl_max_Max xs)
qed

lemma sum_list_abs_bound:
  assumes "\<forall>k\<in>set ks. \<bar>k\<bar> \<le> (b::int)"
  shows "sum_list (map abs ks) \<le> int (length ks) * b"
  using assms by (induction ks) (simp_all add: algebra_simps)

lemma planningWindows_valid:
  assumes "list_all hasPlanningDates bookings"
  shows "map planningDays bookings = map (\<lambda>k. Num (of_int k)) (map wholeDays bookings)"
  using assms by (simp add: list_all_iff planningDays_valid)

lemma planning_sum_bound:
  assumes "list_all hasPlanningDates bookings" and "length bookings \<le> 2 ^ 26"
  shows "sum_list (map abs (map wholeDays bookings)) < 2 ^ 52"
proof -
  have "\<forall>k\<in>set (map wholeDays bookings). \<bar>k\<bar> \<le> 2 ^ 26 - 1"
    using assms(1) wholeDays_bound by (fastforce simp: list_all_iff)
  from sum_list_abs_bound [OF this]
  have "sum_list (map abs (map wholeDays bookings)) \<le> int (length bookings) * (2 ^ 26 - 1)"
    by simp
  also have "\<dots> \<le> 2 ^ 26 * (2 ^ 26 - 1)"
  proof -
    have "int (length bookings) \<le> int (2 ^ 26)" using assms(2) by (simp only: zle_int)
    then have "int (length bookings) \<le> 2 ^ 26" by simp
    then show ?thesis by (intro mult_right_mono) simp_all
  qed
  also have "\<dots> < 2 ^ 52" by simp
  finally show ?thesis .
qed

lemma calculatePlanningWindow_valid:
  assumes ne: "bookings \<noteq> []" and v: "list_all hasPlanningDates bookings"
    and l1: "length bookings \<le> maxArguments" and l2: "length bookings \<le> 2 ^ 26"
  shows "calculatePlanningWindow maxArguments bookings = Inr (planningReport (map wholeDays bookings))"
proof -
  let ?ws = "map wholeDays bookings"
  let ?S = "sum_list ?ws"
  let ?n = "int (length bookings)"
  have ws: "?ws \<noteq> []" using ne by simp
  have pw: "map planningDays bookings = map (\<lambda>k. Num (of_int k)) ?ws"
    by (rule planningWindows_valid [OF v])
  note sb = planning_sum_bound [OF v l2]
  have "\<bar>0::int\<bar> + sum_list (map abs ?ws) \<le> 2 ^ 53" using sb by simp
  from foldl_jsadd_ints [OF this]
  have total: "foldl jsadd (Num 0) (map (\<lambda>k. Num (of_int k)) ?ws) = Num (of_int ?S)" by simp
  have S: "\<bar>?S\<bar> < 2 ^ 52" using sb sum_list_abs [of ?ws] by linarith
  have n: "0 < ?n" using ne by simp
  have "?n \<le> int (2 ^ 26)" using l2 by (simp only: zle_int)
  then have n53: "?n \<le> 2 ^ 53" by simp
  have avg: "jsround (jsdiv (Num (of_int ?S)) (Num (real (length bookings))))
      = Num (of_int (roundHalfUp (real_of_int ?S / real (length bookings))))"
    using jsround_quotient [OF S n n53] by simp
  have mn: "spreadMin maxArguments (map (\<lambda>k. Num (of_int k)) ?ws) = Inr (Num (of_int (Min (set ?ws))))"
    using l1 jsminList_Num [OF ws] by (simp add: spreadMin_def)
  have mx: "spreadMax maxArguments (map (\<lambda>k. Num (of_int k)) ?ws) = Inr (Num (of_int (Max (set ?ws))))"
    using l1 jsmaxList_Num [OF ws] by (simp add: spreadMax_def)
  show ?thesis
    unfolding calculatePlanningWindow_def Let_def pw total length_map avg mn mx
    using ne by (simp add: planningReport_def planningStyleOf_def jslt_def)
qed

lemma calculatePlanningWindow_too_long:
  assumes "bookings \<noteq> []" and "maxArguments < length bookings"
  shows "calculatePlanningWindow maxArguments bookings = Inl RangeError"
  using assms by (simp add: calculatePlanningWindow_def Let_def spreadMin_def)

lemma scenario_dates:
  assumes "- 720 \<le> tz" and "tz \<le> 840"
  shows "newDate (bookingDate (scenarioBooking tz)) = ValidDate (1704099600000 - tz * 60000)"
    and "newDate (checkIn (scenarioBooking tz)) = ValidDate 1704844800000"
  using assms
  by (simp_all add: scenarioBooking_def newDate_def maxTime_def isoDate_def isoLocalDateTime_def
      daysFromCivil_def msPerDay_def)

lemma scenario_days:
  assumes "- 720 \<le> tz" and "tz \<le> 840"
  shows "hasPlanningDates (scenarioBooking tz)"
    and "- 180 \<le> tz \<Longrightarrow> wholeDays (scenarioBooking tz) = 9"
    and "tz < - 180 \<Longrightarrow> wholeDays (scenarioBooking tz) = 8"
proof -
  note d = scenario_dates [OF assms]
  show "hasPlanningDates (scenarioBooking tz)"
    using assms by (simp add: hasPlanningDates_def d)
  have w: "wholeDays (scenarioBooking tz) = \<lfloor>(745200000 + real_of_int tz * 60000) / 86400000 + 1 / 2\<rfloor>"
    by (simp add: wholeDays_def d roundHalfUp_def)
  have lo: "- 720 \<le> real_of_int tz" and hi: "real_of_int tz \<le> 840"
    using assms by linarith+
  {
    assume "- 180 \<le> tz"
    then have l: "- 180 \<le> real_of_int tz" by linarith
    have "9 \<le> (745200000 + real_of_int tz * 60000) / 86400000 + 1 / 2"
      using l by (simp add: field_simps)
    moreover have "(745200000 + real_of_int tz * 60000) / 86400000 + 1 / 2 < 10"
      using hi by (simp add: field_simps)
    ultimately have "\<lfloor>(745200000 + real_of_int tz * 60000) / 86400000 + 1 / 2\<rfloor> = 9" by linarith
    then show "wholeDays (scenarioBooking tz) = 9" by (simp only: w)
  }
  {
    assume "tz < - 180"
    then have "tz \<le> - 181" by simp
    then have h: "real_of_int tz \<le> - 181" by linarith
    have "8 \<le> (745200000 + real_of_int tz * 60000) / 86400000 + 1 / 2"
      using lo by (simp add: field_simps)
    moreover have "(745200000 + real_of_int tz * 60000) / 86400000 + 1 / 2 < 9"
      using h by (simp add: field_simps)
    ultimately have "\<lfloor>(745200000 + real_of_int tz * 60000) / 86400000 + 1 / 2\<rfloor> = 8" by linarith
    then show "wholeDays (scenarioBooking tz) = 8" by (simp only: w)
  }
qed

subsection \<open>Impulsivity\<close>

lemma impulsivityStep_pair:
  "impulsivityStep searches (t, q) b =
     (case decisionTimeOf searches b of
        None \<Rightarrow> (t, q)
      | Some d \<Rightarrow> (jsadd t d, if jslt d (Num 1) then q + 1 else q))"
  by (simp add: impulsivityStep_def)

lemma foldl_impulsivityStep:
  "foldl (impulsivityStep searches) (t, q) bookings =
     (foldl jsadd t (decisionTimes searches bookings),
      q + length (filter (\<lambda>d. jslt d (Num 1)) (decisionTimes searches bookings)))"
proof (induction bookings arbitrary: t q)
  case Nil
  then show ?case by (simp add: decisionTimes_def)
next
  case (Cons b bookings)
  show ?case
  proof (cases "decisionTimeOf searches b")
    case None
    then show ?thesis
      using Cons.IH [of t q] by (simp add: impulsivityStep_pair decisionTimes_def)
  next
    case (Some d)
    then show ?thesis
      using Cons.IH [of "jsadd t d" "if jslt d (Num 1) then q + 1 else q"]
      by (simp add: impulsivityStep_pair decisionTimes_def)
  qed
qed

lemma calculateImpulsivityScore_nonempty:
  assumes "orEmpty (choiceBookings choices) \<noteq> []"
  shows "calculateImpulsivityScore choices =
     (let bookings = orEmpty (choiceBookings choices);
          times = decisionTimes (orEmpty (choiceSearches choices)) bookings;
          mean = jsdiv (jsSum times) (Num (real (length bookings)));
          rate = ratioPercent (length (filter (\<lambda>d. jslt d (Num 1)) times)) (length bookings)
      in \<lparr>impulsivityScore = Some (toFixed 0 (impulsivityFormula mean rate)),
          impulsivityCategory =
            Some (if jsgt (fixedValue (toFixed 0 (impulsivityFormula mean rate))) (Num 70)
                  then ''Highly Impulsive''
                  else if jsgt (fixedValue (toFixed 0 (impulsivityFormula mean rate))) (Num 40)
                  then ''Moderately Impulsive''
                  else ''Planned Decision Maker''),
          averageDecisionTimeHours = Some (toFixed 1 mean),
          quickDecisionPercentage = Some (toFixed 1 rate)\<rparr>)"
  using assms
  by (simp add: calculateImpulsivityScore_def Let_def foldl_impulsivityStep jsSum_def
      impulsivityFormula_def ratioPercent_def)

lemma exampleChoices_times:
  "orEmpty (choiceBookings exampleChoices) \<noteq> []"
  "length (orEmpty (choiceBookings exampleChoices)) = 2"
  "decisionTimes (orEmpty (choiceSearches exampleChoices)) (orEmpty (choiceBookings exampleChoices))
     = [Num 48]"
  by (simp_all add: exampleChoices_def orEmpty_def decisionTimes_def decisionTimeOf_def
      isRelatedSearch_def earlierSearch_def dateValue_def newDate_def maxTime_def isoDate_def
      daysFromCivil_def msPerDay_def jssub_def jslt_def Let_def)

lemma isRelatedSearch_relatedTo: "isRelatedSearch b s = relatedTo b s"
proof (cases "newDate (date s)")
  case InvalidDate
  then show ?thesis
    by (simp add: isRelatedSearch_def relatedTo_def dateValue_def jssub_def jslt_def)
next
  case s: (ValidDate t)
  show ?thesis
  proof (cases "newDate (bookingDate b)")
    case InvalidDate
    then show ?thesis
      using s by (simp add: isRelatedSearch_def relatedTo_def dateValue_def jssub_def jslt_def)
  next
    case (ValidDate u)
    have "(\<bar>binary64 (of_int (t - u))\<bar> < of_int 86400000) = (\<bar>t - u\<bar> < 86400000)"
      by (rule binary64_int_threshold) simp_all
    then show ?thesis
      using s ValidDate number_time_difference [OF newDate_range [OF s] newDate_range [OF ValidDate]]
      by (simp add: isRelatedSearch_def relatedTo_def dateValue_def jslt_def)
  qed
qed

lemma decisionTimeOf_related:
  "(decisionTimeOf searches b \<noteq> None) = list_ex (relatedTo b) searches"
proof -
  have "(filter (isRelatedSearch b) searches \<noteq> []) = list_ex (isRelatedSearch b) searches"
    by (induction searches) auto
  then show ?thesis
    by (simp add: decisionTimeOf_def Let_def isRelatedSearch_relatedTo [abs_def])
qed

subsection \<open>Booking patterns\<close>

lemma weekDay_less: "weekDay t < 7"
  by (simp add: weekDay_def nat_less_iff)

lemma hourFromTime_less: "hourFromTime t < 24"
  by (simp add: hourFromTime_def nat_less_iff)

lemma incrementAt_index:
  "i < length counts \<Longrightarrow> incrementAt (Num (real i)) counts = counts[i := counts ! i + 1]"
  by simp

lemma getDay_dayOfBooking:
  "getDay tz (newDate (bookingDate b)) =
     (case dayOfBooking tz b of None \<Rightarrow> NaN | Some i \<Rightarrow> Num (real i))"
  by (simp add: dayOfBooking_def split: jsdate.splits)

lemma getHours_hourOfBooking:
  "getHours tz (newDate (bookingDate b)) =
     (case hourOfBooking tz b of None \<Rightarrow> NaN | Some h \<Rightarrow> Num (real h))"
  by (simp add: hourOfBooking_def split: jsdate.splits)

lemma dayOfBooking_less: "dayOfBooking tz b = Some i \<Longrightarrow> i < 7"
  by (auto simp: dayOfBooking_def weekDay_less split: jsdate.splits)

text \<open>One step of the loop on the state seen as day counters and band counters.\<close>

lemma bookingPatternStep_day:
  assumes "length dc = 7"
  shows "fst (bookingPatternStep tz (dc, tc) b) =
     (case dayOfBooking tz b of None \<Rightarrow> dc | Some i \<Rightarrow> dc[i := dc ! i + 1])"
proof (cases "dayOfBooking tz b")
  case None
  then show ?thesis
    by (simp add: bookingPatternStep_def Let_def getDay_dayOfBooking)
next
  case (Some i)
  then have "i < length dc" using dayOfBooking_less assms by simp
  then show ?thesis
    using Some by (simp add: bookingPatternStep_def Let_def getDay_dayOfBooking)
qed

lemma bookingPatternStep_band:
  "snd (bookingPatternStep tz (dc, tc) b) =
     (if timeBand (hourOfBooking tz b) = ''morning'' then tc\<lparr>morning := morning tc + 1\<rparr>
      else if timeBand (hourOfBooking tz b) = ''afternoon'' then tc\<lparr>afternoon := afternoon tc + 1\<rparr>
      else if timeBand (hourOfBooking tz b) = ''evening'' then tc\<lparr>evening := evening tc + 1\<rparr>
      else tc\<lparr>night := night tc + 1\<rparr>)"
  by (cases "hourOfBooking tz b")
    (auto simp: bookingPatternStep_def Let_def getHours_hourOfBooking timeBand_def jslt_def)

lemma length_bookingPatternStep:
  "length dc = 7 \<Longrightarrow> length (fst (bookingPatternStep tz (dc, tc) b)) = 7"
  by (simp add: bookingPatternStep_day split: option.splits)

lemma dayCount_Cons:
  "dayCount tz (b # bs) i = (if dayOfBooking tz b = Some i then 1 else 0) + dayCount tz bs i"
  by (simp add: dayCount_def)

lemma bandCount_Cons:
  "bandCount tz (b # bs) band
     = (if timeBand (hourOfBooking tz b) = band then 1 else 0) + bandCount tz bs band"
  by (simp add: bandCount_def)

lemma foldl_bookingPatternStep_day:
  assumes "length dc = 7"
  shows "fst (foldl (bookingPatternStep tz) (dc, tc) bs)
           = map (\<lambda>i. dc ! i + dayCount tz bs i) [0..<7]"
  using assms
proof (induction bs arbitrary: dc tc)
  case Nil
  have "map (\<lambda>i. dc ! i) [0..<length dc] = dc" by (rule map_nth)
  then show ?case using Nil by (simp add: dayCount_def)
next
  case (Cons b bs)
  let ?st = "bookingPatternStep tz (dc, tc) b"
  have len: "length (fst ?st) = 7" by (rule length_bookingPatternStep [OF Cons.prems])
  have "fst (foldl (bookingPatternStep tz) (dc, tc) (b # bs))
          = fst (foldl (bookingPatternStep tz) (fst ?st, snd ?st) bs)"
    by simp
  also have "\<dots> = map (\<lambda>i. fst ?st ! i + dayCount tz bs i) [0..<7]"
    by (rule Cons.IH [OF len])
  also have "\<dots> = map (\<lambda>i. dc ! i + dayCount tz (b # bs) i) [0..<7]"
  proof (rule map_cong [OF refl])
    fix i assume "i \<in> set [0..<7]"
    then have i: "i < length dc" using Cons.prems by simp
    have "fst ?st ! i = dc ! i + (if dayOfBooking tz b = Some i then 1 else 0)"
      using i by (simp add: bookingPatternStep_day [OF Cons.prems] nth_list_update split: option.splits)
    then show "fst ?st ! i + dayCount tz bs i = dc ! i + dayCount tz (b # bs) i"
      by (simp add: dayCount_Cons)
  qed
  finally show ?case .
qed

lemma foldl_bookingPatternStep_band:
  "snd (foldl (bookingPatternStep tz) (dc, tc) bs)
     = \<lparr>morning = morning tc + bandCount tz bs ''morning'',
        afternoon = afternoon tc + bandCount tz bs ''afternoon'',
        evening = evening tc + bandCount tz bs ''evening'',
        night = night tc + bandCount tz bs ''night''\<rparr>"
proof (induction bs arbitrary: dc tc)
  case Nil
  then show ?case by (simp add: bandCount_def)
next
  case (Cons b bs)
  let ?st = "bookingPatternStep tz (dc, tc) b"
  have "snd (foldl (bookingPatternStep tz) (dc, tc) (b # bs))
          = snd (foldl (bookingPatternStep tz) (fst ?st, snd ?st) bs)"
    by simp
  also have "\<dots> = \<lparr>morning = morning (snd ?st) + bandCount tz bs ''morning'',
        afternoon = afternoon (snd ?st) + bandCount tz bs ''afternoon'',
        evening = evening (snd ?st) + bandCount tz bs ''evening'',
        night = night (snd ?st) + bandCount tz bs ''night''\<rparr>"
    by (rule Cons.IH)
  also have "\<dots> = \<lparr>morning = morning tc + bandCount tz (b # bs) ''morning'',
        afternoon = afternoon tc + bandCount tz (b # bs) ''afternoon'',
        evening = evening tc + bandCount tz (b # bs) ''evening'',
        night = night tc + bandCount tz (b # bs) ''night''\<rparr>"
  proof -
    have band: "timeBand (hourOfBooking tz b) \<in> {''morning'', ''afternoon'', ''evening'', ''night''}"
      by (simp add: timeBand_def split: option.splits)
    show ?thesis
      unfolding bookingPatternStep_band bandCount_Cons using band by auto
  qed
  finally show ?case .
qed

lemma initial_day_counts:
  "fst (foldl (bookingPatternStep tz)
          ([0, 0, 0, 0, 0, 0, 0], \<lparr>morning = 0, afternoon = 0, evening = 0, night = 0\<rparr>) bs)
     = map (dayCount tz bs) [0..<7]"
proof -
  have "fst (foldl (bookingPatternStep tz)
          ([0, 0, 0, 0, 0, 0, 0], \<lparr>morning = 0, afternoon = 0, evening = 0, night = 0\<rparr>) bs)
     = map (\<lambda>i. [0, 0, 0, 0, 0, 0, 0] ! i + dayCount tz bs i) [0..<7]"
    by (rule foldl_bookingPatternStep_day) simp
  also have "\<dots> = map (dayCount tz bs) [0..<7]"
  proof (rule map_cong [OF refl])
    fix i assume "i \<in> set [0..<7]"
    then have "i < 7" by simp
    then have "i \<in> {0, 1, 2, 3, 4, 5, 6}" by auto
    then have "[0, 0, 0, 0, 0, 0, 0 :: nat] ! i = 0" by (elim insertE emptyE) simp_all
    then show "[0, 0, 0, 0, 0, 0, 0] ! i + dayCount tz bs i = dayCount tz bs i" by simp
  qed
  finally show ?thesis .
qed

lemma initial_band_counts:
  "snd (foldl (bookingPatternStep tz)
          ([0, 0, 0, 0, 0, 0, 0], \<lparr>morning = 0, afternoon = 0, evening = 0, night = 0\<rparr>) bs)
     = \<lparr>morning = bandCount tz bs ''morning'', afternoon = bandCount tz bs ''afternoon'',
        evening = bandCount tz bs ''evening'', night = bandCount tz bs ''night''\<rparr>"
  by (simp add: foldl_bookingPatternStep_band)

lemma detectBookingPatterns_distributions:
  assumes "bookings \<noteq> []"
  shows "dayDistribution (detectBookingPatterns tz bookings) =
      Some (map (\<lambda>i. \<lparr>label = days ! i, count = dayCount tz bookings i,
                        percentage = percentageOf (dayCount tz bookings i) (length bookings)\<rparr>)
              [0..<7])"
    and "timeDistribution (detectBookingPatterns tz bookings) =
      Some (map (\<lambda>band. \<lparr>label = band, count = bandCount tz bookings band,
                           percentage = percentageOf (bandCount tz bookings band) (length bookings)\<rparr>)
              [''morning'', ''afternoon'', ''evening'', ''night''])"
proof -
  have nth: "map (dayCount tz bookings) [0..<7] ! i = dayCount tz bookings i" if "i < 7" for i
    using that by (simp del: upt_Suc)
  show "dayDistribution (detectBookingPatterns tz bookings) =
      Some (map (\<lambda>i. \<lparr>label = days ! i, count = dayCount tz bookings i,
                        percentage = percentageOf (dayCount tz bookings i) (length bookings)\<rparr>)
              [0..<7])"
    using assms
    by (simp add: detectBookingPatterns_def Let_def initial_day_counts nth del: upt_Suc
        cong: map_cong)
  show "timeDistribution (detectBookingPatterns tz bookings) =
      Some (map (\<lambda>band. \<lparr>label = band, count = bandCount tz bookings band,
                           percentage = percentageOf (bandCount tz bookings band) (length bookings)\<rparr>)
              [''morning'', ''afternoon'', ''evening'', ''night''])"
    using assms
    by (simp add: detectBookingPatterns_def Let_def initial_band_counts timeEntries_def)
qed

lemma malformed_day_band:
  assumes "newDate (bookingDate b) = InvalidDate"
  shows "dayOfBooking tz b = None" and "timeBand (hourOfBooking tz b) = ''night''"
  using assms by (simp_all add: dayOfBooking_def hourOfBooking_def timeBand_def)

lemma dayCount_insert_malformed:
  assumes "newDate (bookingDate b) = InvalidDate"
  shows "dayCount tz (bs1 @ b # bs2) i = dayCount tz (bs1 @ bs2) i"
  by (simp add: dayCount_def malformed_day_band [OF assms])

lemma bandCount_insert_malformed:
  assumes "newDate (bookingDate b) = InvalidDate"
  shows "bandCount tz (bs1 @ b # bs2) band
           = bandCount tz (bs1 @ bs2) band + (if band = ''night'' then 1 else 0)"
  by (auto simp add: bandCount_def malformed_day_band [OF assms])

lemma example_days:
  "dayOfBooking 0 (bookedAt (isoLocalDateTime 0 2024 1 1 10 0)) = Some 1"
  "hourOfBooking 0 (bookedAt (isoLocalDateTime 0 2024 1 1 10 0)) = Some 10"
  "dayOfBooking 0 (bookedAt InvalidDate) = None"
  "hourOfBooking 0 (bookedAt InvalidDate) = None"
  by (simp_all add: dayOfBooking_def hourOfBooking_def bookedAt_def newDate_def maxTime_def
      isoLocalDateTime_def daysFromCivil_def msPerDay_def localTime_def weekDay_def hourFromTime_def)

lemma malformedExample_distributions:
  "dayDistribution (detectBookingPatterns 0 malformedExample) =
     Some [\<lparr>label = ''Sunday'', count = 0, percentage = Fixed False 0 1\<rparr>,
           \<lparr>label = ''Monday'', count = 1, percentage = Fixed False 500 1\<rparr>,
           \<lparr>label = ''Tuesday'', count = 0, percentage = Fixed False 0 1\<rparr>,
           \<lparr>label = ''Wednesday'', count = 0, percentage = Fixed False 0 1\<rparr>,
           \<lparr>label = ''Thursday'', count = 0, percentage = Fixed False 0 1\<rparr>,
           \<lparr>label = ''Friday'', count = 0, percentage = Fixed False 0 1\<rparr>,
           \<lparr>label = ''Saturday'', count = 0, percentage = Fixed False 0 1\<rparr>]"
  "timeDistribution (detectBookingPatterns 0 malformedExample) =
     Some [\<lparr>label = ''morning'', count = 1, percentage = Fixed False 500 1\<rparr>,
           \<lparr>label = ''afternoon'', count = 0, percentage = Fixed False 0 1\<rparr>,
           \<lparr>label = ''evening'', count = 0, percentage = Fixed False 0 1\<rparr>,
           \<lparr>label = ''night'', count = 1, percentage = Fixed False 500 1\<rparr>]"
proof -
  have ne: "malformedExample \<noteq> []" by (simp add: malformedExample_def)
  have up: "[0..<7] = [0, 1, 2, 3, 4, 5, 6]" by (simp add: upt_rec)
  show "dayDistribution (detectBookingPatterns 0 malformedExample) =
     Some [\<lparr>label = ''Sunday'', count = 0, percentage = Fixed False 0 1\<rparr>,
           \<lparr>label = ''Monday'', count = 1, percentage = Fixed False 500 1\<rparr>,
           \<lparr>label = ''Tuesday'', count = 0, percentage = Fixed False 0 1\<rparr>,
           \<lparr>label = ''Wednesday'', count = 0, percentage = Fixed False 0 1\<rparr>,
           \<lparr>label = ''Thursday'', count = 0, percentage = Fixed False 0 1\<rparr>,
           \<lparr>label = ''Friday'', count = 0, percentage = Fixed False 0 1\<rparr>,
           \<lparr>label = ''Saturday'', count = 0, percentage = Fixed False 0 1\<rparr>]"
    unfolding detectBookingPatterns_distributions(1) [OF ne] up
    by (simp add: malformedExample_def dayCount_def example_days days_def percentageOf_def toFixed_def)
  show "timeDistribution (detectBookingPatterns 0 malformedExample) =
     Some [\<lparr>label = ''morning'', count = 1, percentage = Fixed False 500 1\<rparr>,
           \<lparr>label = ''afternoon'', count = 0, percentage = Fixed False 0 1\<rparr>,
           \<lparr>label = ''evening'', count = 0, percentage = Fixed False 0 1\<rparr>,
           \<lparr>label = ''night'', count = 1, percentage = Fixed False 500 1\<rparr>]"
    unfolding detectBookingPatterns_distributions(2) [OF ne]
    by (simp add: malformedExample_def bandCount_def example_days timeBand_def percentageOf_def toFixed_def)
qed

lemma validAlone_distributions:
  "dayDistribution (detectBookingPatterns 0 [bookedAt (isoLocalDateTime 0 2024 1 1 10 0)]) =
     Some [\<lparr>label = ''Sunday'', count = 0, percentage = Fixed False 0 1\<rparr>,
           \<lparr>label = ''Monday'', count = 1, percentage = Fixed False 1000 1\<rparr>,
           \<lparr>label = ''Tuesday'', count = 0, percentage = Fixed False 0 1\<rparr>,
           \<lparr>label = ''Wednesday'', count = 0, percentage = Fixed False 0 1\<rparr>,
           \<lparr>label = ''Thursday'', count = 0, percentage = Fixed False 0 1\<rparr>,
           \<lparr>label = ''Friday'', count = 0, percentage = Fixed False 0 1\<rparr>,
           \<lparr>label = ''Saturday'', count = 0, percentage = Fixed False 0 1\<rparr>]"
  "timeDistribution (detectBookingPatterns 0 [bookedAt (isoLocalDateTime 0 2024 1 1 10 0)]) =
     Some [\<lparr>label = ''morning'', count = 1, percentage = Fixed False 1000 1\<rparr>,
           \<lparr>label = ''afternoon'', count = 0, percentage = Fixed False 0 1\<rparr>,
           \<lparr>label = ''evening'', count = 0, percentage = Fixed False 0 1\<rparr>,
           \<lparr>label = ''night'', count = 0, percentage = Fixed False 0 1\<rparr>]"
proof -
  have ne: "[bookedAt (isoLocalDateTime 0 2024 1 1 10 0)] \<noteq> []" by simp
  have up: "[0..<7] = [0, 1, 2, 3, 4, 5, 6]" by (simp add: upt_rec)
  show "dayDistribution (detectBookingPatterns 0 [bookedAt (isoLocalDateTime 0 2024 1 1 10 0)]) =
     Some [\<lparr>label = ''Sunday'', count = 0, percentage = Fixed False 0 1\<rparr>,
           \<lparr>label = ''Monday'', count = 1, percentage = Fixed False 1000 1\<rparr>,
           \<lparr>label = ''Tuesday'', count = 0, percentage = Fixed False 0 1\<rparr>,
           \<lparr>label = ''Wednesday'', count = 0, percentage = Fixed False 0 1\<rparr>,
           \<lparr>label = ''Thursday'', count = 0, percentage = Fixed False 0 1\<rparr>,
           \<lparr>label = ''Friday'', count = 0, percentage = Fixed False 0 1\<rparr>,
           \<lparr>label = ''Saturday'', count = 0, percentage = Fixed False 0 1\<rparr>]"
    unfolding detectBookingPatterns_distributions(1) [OF ne] up
    by (simp add: dayCount_def example_days days_def percentageOf_def toFixed_def)
  show "timeDistribution (detectBookingPatterns 0 [bookedAt (isoLocalDateTime 0 2024 1 1 10 0)]) =
     Some [\<lparr>label = ''morning'', count = 1, percentage = Fixed False 1000 1\<rparr>,
           \<lparr>label = ''afternoon'', count = 0, percentage = Fixed False 0 1\<rparr>,
           \<lparr>label = ''evening'', count = 0, percentage = Fixed False 0 1\<rparr>,
           \<lparr>label = ''night'', count = 0, percentage = Fixed False 0 1\<rparr>]"
    unfolding detectBookingPatterns_distributions(2) [OF ne]
    by (simp add: bandCount_def example_days timeBand_def percentageOf_def toFixed_def)
qed

section \<open>Claims about the classifier\<close>

text \<open>
  Claim C1, as the code has it. Inside the scoring loop a requirement \<open>(trait, level)\<close>
  adds 25 points when the computed level equals the required one, 15 points exactly when
  one of the two is moderate and the other is high, and nothing otherwise: moderate
  against low (in either direction) and low against high earn no points. The score of
  every catalog archetype is the sum of these points over its requirements plus the
  behaviour bonus.
\<close>

theorem partial_credit_rule:
  "fst (traitStep (personalityCategories p) (matchScore0, matchFactors0) (t, lv))
     = matchScore0 + pointsTable (personalityCategories p t) lv
   \<and> (\<forall>k<length archetypes.
        archetypeScoreAt p behavior k
          = (\<Sum>req\<leftarrow>requirements (snd (archetypes ! k)).
               pointsTable (personalityCategories p (fst req)) (snd req))
            + bonusPoints (fst (archetypes ! k)) behavior)"
  using traitStep_points [of "personalityCategories p" "(matchScore0, matchFactors0)" t lv]
    archetypeScoreAt_points [of _ p behavior]
  by simp

text \<open>The rule at a concrete profile: The Budget Backpacker (entry 5) earns 25 points
  from openness and nothing from the moderate conscientiousness.\<close>

theorem partial_credit_rule_witness:
  "(5::nat) < length archetypes
   \<and> fst (traitStep (personalityCategories exampleProfile) (0, []) (Conscientiousness, Low)) = 0
   \<and> archetypeScoreAt exampleProfile None 5 = 25"
proof -
  have l: "(5::nat) < length archetypes" by (simp add: archetypes_def)
  from partial_credit_rule [of exampleProfile 0 "[]" Conscientiousness Low None]
  have s: "fst (traitStep (personalityCategories exampleProfile) (0, []) (Conscientiousness, Low))
            = 0 + pointsTable (personalityCategories exampleProfile Conscientiousness) Low"
    and a: "\<forall>k<length archetypes.
        archetypeScoreAt exampleProfile None k
          = (\<Sum>req\<leftarrow>requirements (snd (archetypes ! k)).
               pointsTable (personalityCategories exampleProfile (fst req)) (snd req))
            + bonusPoints (fst (archetypes ! k)) None"
    by simp_all
  from a l have "archetypeScoreAt exampleProfile None 5
          = (\<Sum>req\<leftarrow>requirements (snd (archetypes ! 5)).
               pointsTable (personalityCategories exampleProfile (fst req)) (snd req))
            + bonusPoints (fst (archetypes ! 5)) None" by blast
  then have "archetypeScoreAt exampleProfile None 5 = 25"
    by (simp add: archetypes_def exampleProfile_def categorize_def bonusPoints_def)
  with l s show ?thesis by (simp add: exampleProfile_def categorize_def)
qed

text \<open>
  The partial credit as claim C1 words it gives 15 points to moderate against low. The
  code gives none: with conscientiousness 50 (moderate) The Budget Backpacker, which
  requires low, scores 25 and not 40; with conscientiousness 30 (low) The Digital Nomad,
  which requires moderate, scores 25 as well.
\<close>

theorem partial_credit_counterexample:
  "snd (archetypes ! 5) = \<lparr>requirements = [(Openness, High), (Conscientiousness, Low)],
       description = ''Prioritizes value and authentic experiences over luxury'',
       recommendedProperties = [''Hostel'', ''Budget Hotel'', ''Shared Apartment'', ''Camping'']\<rparr>
   \<and> personalityCategories exampleProfile Conscientiousness = Moderate
   \<and> claimedPoints Moderate Low = 15
   \<and> claimedPoints (personalityCategories exampleProfile Openness) High
       + claimedPoints (personalityCategories exampleProfile Conscientiousness) Low = 40
   \<and> fst (traitStep (personalityCategories exampleProfile) (0, []) (Conscientiousness, Low)) = 0
   \<and> archetypeScoreAt exampleProfile None 5 = 25
   \<and> snd (archetypes ! 3) = \<lparr>requirements = [(Openness, High), (Conscientiousness, Moderate)],
       description = ''Seeks balance between work and exploration, values good connectivity'',
       recommendedProperties = [''Co-working Hotel'', ''Long-term Rental'', ''Connected Cabin'', ''Urban Loft'']\<rparr>
   \<and> personalityCategories scenarioProfile Conscientiousness = Low
   \<and> claimedPoints Low Moderate = 15
   \<and> fst (traitStep (personalityCategories scenarioProfile) (0, []) (Conscientiousness, Moderate)) = 0
   \<and> archetypeScoreAt scenarioProfile None 3 = 25"
proof -
  have a5: "archetypeScoreAt exampleProfile None 5 = 25"
    using archetypeScoreAt_points [of 5 exampleProfile None]
    by (simp add: archetypes_def exampleProfile_def categorize_def bonusPoints_def)
  have a3: "archetypeScoreAt scenarioProfile None 3 = 25"
    using archetypeScoreAt_points [of 3 scenarioProfile None]
    by (simp add: archetypes_def scenarioProfile_def categorize_def bonusPoints_def)
  have lv: "personalityCategories exampleProfile Conscientiousness = Moderate"
    "personalityCategories exampleProfile Openness = High"
    "personalityCategories scenarioProfile Conscientiousness = Low"
    by (simp_all add: exampleProfile_def scenarioProfile_def categorize_def)
  have cat: "snd (archetypes ! 5) = \<lparr>requirements = [(Openness, High), (Conscientiousness, Low)],
       description = ''Prioritizes value and authentic experiences over luxury'',
       recommendedProperties = [''Hostel'', ''Budget Hotel'', ''Shared Apartment'', ''Camping'']\<rparr>"
    "snd (archetypes ! 3) = \<lparr>requirements = [(Openness, High), (Conscientiousness, Moderate)],
       description = ''Seeks balance between work and exploration, values good connectivity'',
       recommendedProperties = [''Co-working Hotel'', ''Long-term Rental'', ''Connected Cabin'', ''Urban Loft'']\<rparr>"
    by (simp_all add: archetypes_def)
  have cl: "claimedPoints Moderate Low = 15" "claimedPoints Low Moderate = 15"
    "claimedPoints High High = 25"
    by (simp_all add: claimedPoints_def adjacentLevels_def)
  have st: "fst (traitStep (personalityCategories exampleProfile) (0, []) (Conscientiousness, Low)) = 0"
    "fst (traitStep (personalityCategories scenarioProfile) (0, []) (Conscientiousness, Moderate)) = 0"
    by (simp_all add: traitStep_def exampleProfile_def scenarioProfile_def categorize_def)
  show ?thesis
    unfolding lv cl by (intro conjI refl cat st a5 a3) simp
qed

text \<open>
  Claim C3. The returned \<open>topArchetypes\<close> has three entries, each a catalog archetype
  with its score; it is sorted by descending score, and of two entries with equal scores
  the one declared earlier in the catalog comes first. The primary archetype is the
  earliest catalog archetype that attains the maximal score.
\<close>

theorem classify_ranking:
  "length (topArchetypes (classifyTravelArchetype p behavior)) = 3
   \<and> (\<forall>t\<in>set (topArchetypes (classifyTravelArchetype p behavior)).
         catalogIndex (archetype t) < length archetypes
         \<and> taScore t = archetypeScoreAt p behavior (catalogIndex (archetype t)))
   \<and> (\<forall>i j. i < j \<and> j < length (topArchetypes (classifyTravelArchetype p behavior)) \<longrightarrow>
         taScore (topArchetypes (classifyTravelArchetype p behavior) ! j)
           \<le> taScore (topArchetypes (classifyTravelArchetype p behavior) ! i)
         \<and> (taScore (topArchetypes (classifyTravelArchetype p behavior) ! i)
              = taScore (topArchetypes (classifyTravelArchetype p behavior) ! j) \<longrightarrow>
            catalogIndex (archetype (topArchetypes (classifyTravelArchetype p behavior) ! i))
              < catalogIndex (archetype (topArchetypes (classifyTravelArchetype p behavior) ! j))))
   \<and> (\<exists>k<length archetypes.
         primaryArchetype (classifyTravelArchetype p behavior) = fst (archetypes ! k)
         \<and> matchScore (classifyTravelArchetype p behavior) = archetypeScoreAt p behavior k
         \<and> (\<forall>j<length archetypes. archetypeScoreAt p behavior j \<le> archetypeScoreAt p behavior k)
         \<and> (\<forall>j<k. archetypeScoreAt p behavior j < archetypeScoreAt p behavior k))"
proof -
  let ?xs = "archetypeScores p behavior"
  let ?ys = "take 3 (jsSort byScoreDesc ?xs)"
  let ?tops = "topArchetypes (classifyTravelArchetype p behavior)"
  have tops: "?tops = map toTopArchetype ?ys"
    by (simp add: classifyTravelArchetype_def selectArchetypes_def Let_def)
  have len: "length ?ys = 3"
    by (simp add: length_jsSort length_archetypeScores)
  have entry: "catalogIndex (fst e) < length archetypes
      \<and> score (snd e) = archetypeScoreAt p behavior (catalogIndex (fst e))" if "e \<in> set ?xs" for e
  proof -
    from that obtain k where k: "k < length ?xs" "e = ?xs ! k"
      by (auto simp: in_set_conv_nth)
    have "catalogIndex (fst (?xs ! k)) = catalogIndex (fst (archetypes ! k))"
      using k(1) by (simp add: archetypeScores_def fst_scoreArchetype)
    also have "\<dots> = k"
      using k(1) by (simp add: length_archetypeScores catalogIndex_nth)
    finally show ?thesis
      using k by (simp add: archetypeScoreAt_def archetypeScores_def)
  qed
  have sub: "set ?ys \<subseteq> set ?xs"
    using set_take_subset [of 3 "jsSort byScoreDesc ?xs"] by (simp add: set_jsSort)
  have part1: "length ?tops = 3"
    using len tops by simp
  have part2: "\<forall>t\<in>set ?tops.
         catalogIndex (archetype t) < length archetypes
         \<and> taScore t = archetypeScoreAt p behavior (catalogIndex (archetype t))"
  proof
    fix t assume "t \<in> set ?tops"
    then obtain e where e: "e \<in> set ?ys" "t = toTopArchetype e"
      unfolding tops by auto
    from e(1) sub have "e \<in> set ?xs" ..
    from entry [OF this] show "catalogIndex (archetype t) < length archetypes
         \<and> taScore t = archetypeScoreAt p behavior (catalogIndex (archetype t))"
      by (simp add: e(2) toTopArchetype_def)
  qed
  have part3: "\<forall>i j. i < j \<and> j < length ?tops \<longrightarrow>
         taScore (?tops ! j) \<le> taScore (?tops ! i)
         \<and> (taScore (?tops ! i) = taScore (?tops ! j) \<longrightarrow>
            catalogIndex (archetype (?tops ! i)) < catalogIndex (archetype (?tops ! j)))"
  proof (intro allI impI)
    fix i j
    assume ij: "i < j \<and> j < length ?tops"
    then have ij': "i < j" "j < length ?ys" "i < length ?ys" using tops by auto
    have "rankedBefore (?ys ! i) (?ys ! j)"
      using topArchetypes_ranked [of p behavior] ij'
      by (simp only: sorted_wrt_iff_nth_less)
    then show "taScore (?tops ! j) \<le> taScore (?tops ! i)
         \<and> (taScore (?tops ! i) = taScore (?tops ! j) \<longrightarrow>
            catalogIndex (archetype (?tops ! i)) < catalogIndex (archetype (?tops ! j)))"
      using ij' unfolding tops by (simp add: rankedBefore_def toTopArchetype_def)
  qed
  have part4: "\<exists>k<length archetypes.
         primaryArchetype (classifyTravelArchetype p behavior) = fst (archetypes ! k)
         \<and> matchScore (classifyTravelArchetype p behavior) = archetypeScoreAt p behavior k
         \<and> (\<forall>j<length archetypes. archetypeScoreAt p behavior j \<le> archetypeScoreAt p behavior k)
         \<and> (\<forall>j<k. archetypeScoreAt p behavior j < archetypeScoreAt p behavior k)"
  proof -
    from primary_is_first_max [of p behavior] obtain k where k: "k < length archetypes"
      and b: "bestMatch ?xs = (fst (archetypes ! k), archetypeScoreAt p behavior k)"
      and mx: "\<forall>j<length archetypes. archetypeScoreAt p behavior j \<le> archetypeScoreAt p behavior k"
      and fs: "\<forall>j<k. archetypeScoreAt p behavior j < archetypeScoreAt p behavior k"
      by (elim exE conjE)
    have "primaryArchetype (classifyTravelArchetype p behavior) = fst (archetypes ! k)"
      "matchScore (classifyTravelArchetype p behavior) = archetypeScoreAt p behavior k"
      using b by (simp_all add: classifyTravelArchetype_def selectArchetypes_def Let_def)
    with k mx fs show ?thesis by (intro exI [of _ k] conjI)
  qed
  show ?thesis by (rule conjI [OF part1 conjI [OF part2 conjI [OF part3 part4]]])
qed

text \<open>A tie at a concrete profile: The Explorer and The Digital Nomad both score 50 and
  appear in catalog order.\<close>

theorem classify_ranking_witness:
  "(0::nat) < 1 \<and> 1 < length (topArchetypes (classifyTravelArchetype exampleProfile None))
   \<and> taScore (topArchetypes (classifyTravelArchetype exampleProfile None) ! 0) = 50
   \<and> taScore (topArchetypes (classifyTravelArchetype exampleProfile None) ! 1) = 50
   \<and> catalogIndex (archetype (topArchetypes (classifyTravelArchetype exampleProfile None) ! 0))
       < catalogIndex (archetype (topArchetypes (classifyTravelArchetype exampleProfile None) ! 1))"
proof -
  let ?tops = "topArchetypes (classifyTravelArchetype exampleProfile None)"
  have s0: "taScore (?tops ! 0) = 50" by code_simp
  have s1: "taScore (?tops ! 1) = 50" by code_simp
  have len: "length ?tops = 3" using classify_ranking [of exampleProfile None] by blast
  from classify_ranking [of exampleProfile None]
  have "\<forall>i j. i < j \<and> j < length ?tops \<longrightarrow>
         taScore (?tops ! j) \<le> taScore (?tops ! i)
         \<and> (taScore (?tops ! i) = taScore (?tops ! j) \<longrightarrow>
            catalogIndex (archetype (?tops ! i)) < catalogIndex (archetype (?tops ! j)))"
    by blast
  then have "catalogIndex (archetype (?tops ! 0)) < catalogIndex (archetype (?tops ! 1))"
    using len s0 s1 by simp
  with len s0 s1 show ?thesis by simp
qed

section \<open>Claims about the extractors\<close>

text \<open>
  Claim C10. On a list with exactly one price filter the loop counts no change, the
  elasticity is \<open>0 / 0\<close>, that is NaN, so \<open>priceElasticity\<close> is the string \<open>NaN%\<close> and,
  both comparisons with NaN being false, \<open>priceSensitivity\<close> is \<open>Low\<close>; the function
  returns, and \<open>averagePriceRange\<close> is built from the prices of that one record.
\<close>

theorem single_price_filter_elasticity_nan:
  "analyzePriceSensitivity [r] =
     \<lparr>priceElasticity = Some ''NaN%'',
      priceSensitivity = Some ''Low'',
      averagePriceRange =
        Some (''$'' @ fixedString (toFixed 0 (orZero (minPrice r)))
              @ '' - $'' @ fixedString (toFixed 0 (orZero (maxPrice r))))\<rparr>"
  by (simp add: analyzePriceSensitivity_def priceLoop_single Let_def jssub_def toFixed_def)

text \<open>The single filter from 100 to 200.\<close>

theorem single_price_filter_elasticity_nan_witness:
  "analyzePriceSensitivity [\<lparr>minPrice = Some 100, maxPrice = Some 200\<rparr>] =
     \<lparr>priceElasticity = Some ''NaN%'',
      priceSensitivity = Some ''Low'',
      averagePriceRange = Some ''$100 - $200''\<rparr>"
  using single_price_filter_elasticity_nan [of "\<lparr>minPrice = Some 100, maxPrice = Some 200\<rparr>"]
  by (simp add: toFixed_def natString.simps digitChar_def)

text \<open>
  Claim C5. On an empty input sequence every extractor returns its null shape, and so
  does each of the three bundle analysers on an absent bundle and, per sub-report, on a
  bundle whose sequences are absent or empty (read as empty through \<open>|| []\<close>). No
  call raises: the operations that can raise, the \<open>reduce\<close> without initial value in
  \<open>calculateAverageHoverTime\<close> and the spread calls in \<open>calculatePlanningWindow\<close>, are not
  reached, and the result is a value (\<open>Inr\<close>).
\<close>

theorem empty_inputs_null_shapes:
  "detectBookingPatterns tz [] =
     \<lparr>preferredDayOfWeek = None, preferredTimeOfDay = None,
      dayDistribution = None, timeDistribution = None\<rparr>
   \<and> analyzeBrowsingHours tz [] =
     \<lparr>preferredBrowsingTime = None, averageSessionDuration = None, hourlyDistribution = None\<rparr>
   \<and> detectSeasonalTrends tz [] = \<lparr>preferredSeason = None, seasonalDistribution = []\<rparr>
   \<and> calculatePlanningWindow maxArguments [] =
     Inr \<lparr>averagePlanningDays = None, planningStyle = None,
          shortestPlanningDays = None, longestPlanningDays = None\<rparr>
   \<and> calculateAverageHoverTime [] =
     Inr \<lparr>averageTime = None, mostViewedElementType = None, elementBreakdown = None\<rparr>
   \<and> analyzeScrollPatterns [] = \<lparr>scrollDepth = None, scrollSpeed = None, scrollBehavior = None\<rparr>
   \<and> calculateImageViewTime [] =
     \<lparr>averageViewTime = None, totalImagesViewed = 0, visualEngagementLevel = None\<rparr>
   \<and> analyzePriceSensitivity [] =
     \<lparr>priceElasticity = None, priceSensitivity = None, averagePriceRange = None\<rparr>
   \<and> (orEmpty bs = [] \<longrightarrow>
        calculateImpulsivityScore \<lparr>choiceBookings = bs, choiceSearches = ss, viewedProperties = vs\<rparr> =
          \<lparr>impulsivityScore = None, impulsivityCategory = None,
           averageDecisionTimeHours = None, quickDecisionPercentage = None\<rparr>
        \<and> analyzePriceQualityTradeoff \<lparr>choiceBookings = bs, choiceSearches = ss, viewedProperties = vs\<rparr> =
          \<lparr>pqPreference = None, pqScore = None, qualityChoices = None, priceChoices = None\<rparr>
        \<and> calculateUniquenessSeeking \<lparr>choiceBookings = bs, choiceSearches = ss, viewedProperties = vs\<rparr> =
          \<lparr>uniquenessScore = None, uniquenessCategory = None,
           unusualPropertyPercentage = None, propertyTypeDiversity = None\<rparr>
        \<and> assessRiskTolerance \<lparr>choiceBookings = bs, choiceSearches = ss, viewedProperties = vs\<rparr> =
          \<lparr>riskToleranceScore = None, riskToleranceCategory = None,
           newDestinationPercentage = None, lowRatingBookingPercentage = None,
           lastMinuteBookingPercentage = None\<rparr>)
   \<and> (orEmpty vs = [] \<longrightarrow>
        analyzePriceQualityTradeoff \<lparr>choiceBookings = bs, choiceSearches = ss, viewedProperties = vs\<rparr> =
          \<lparr>pqPreference = None, pqScore = None, qualityChoices = None, priceChoices = None\<rparr>)
   \<and> analyzeTimePatterns maxArguments tz None =
     Inr \<lparr>bookingTime = None, browsingTime = None, seasonalPreference = None, planningHorizon = None\<rparr>
   \<and> analyzeMicroInteractions None =
     Inr \<lparr>hoverTime = None, scrollBehaviorReport = None,
          imageEngagement = None, priceElasticityReport = None\<rparr>
   \<and> analyzeDecisionPatterns None =
     \<lparr>impulsiveVsPlanned = None, priceVsQualityReport = None,
      uniquenessPreferenceReport = None, riskToleranceReport = None\<rparr>
   \<and> (orEmpty ab = [] \<and> orEmpty ase = [] \<and> orEmpty asr = [] \<longrightarrow>
        analyzeTimePatterns maxArguments tz
          (Some \<lparr>activityBookings = ab, activitySessions = ase, activitySearches = asr\<rparr>) =
          Inr \<lparr>bookingTime = Some \<lparr>preferredDayOfWeek = None, preferredTimeOfDay = None,
                                    dayDistribution = None, timeDistribution = None\<rparr>,
               browsingTime = Some \<lparr>preferredBrowsingTime = None, averageSessionDuration = None,
                                     hourlyDistribution = None\<rparr>,
               seasonalPreference = Some \<lparr>preferredSeason = None, seasonalDistribution = []\<rparr>,
               planningHorizon = Some \<lparr>averagePlanningDays = None, planningStyle = None,
                                       shortestPlanningDays = None, longestPlanningDays = None\<rparr>\<rparr>)
   \<and> (orEmpty hs = [] \<and> orEmpty scs = [] \<and> orEmpty ivs = [] \<and> orEmpty pfs = [] \<longrightarrow>
        analyzeMicroInteractions
          (Some \<lparr>interactionHovers = hs, interactionScrolls = scs,
                 interactionImageViews = ivs, interactionPriceFilters = pfs\<rparr>) =
          Inr \<lparr>hoverTime = Some \<lparr>averageTime = None, mostViewedElementType = None,
                                  elementBreakdown = None\<rparr>,
               scrollBehaviorReport = Some \<lparr>scrollDepth = None, scrollSpeed = None,
                                             scrollBehavior = None\<rparr>,
               imageEngagement = Some \<lparr>averageViewTime = None, totalImagesViewed = 0,
                                        visualEngagementLevel = None\<rparr>,
               priceElasticityReport = Some \<lparr>priceElasticity = None, priceSensitivity = None,
                                              averagePriceRange = None\<rparr>\<rparr>)"
  by (simp add: detectBookingPatterns_def analyzeBrowsingHours_def detectSeasonalTrends_def
      calculatePlanningWindow_def calculateAverageHoverTime_def analyzeScrollPatterns_def
      calculateImageViewTime_def analyzePriceSensitivity_def calculateImpulsivityScore_def
      analyzePriceQualityTradeoff_def calculateUniquenessSeeking_def assessRiskTolerance_def
      analyzeTimePatterns_def analyzeMicroInteractions_def analyzeDecisionPatterns_def Let_def)

text \<open>An empty and an absent sequence at once: the decision extractors on a bundle with
  an empty booking list, the time analyser on a bundle without bookings.\<close>

theorem empty_inputs_null_shapes_witness:
  "orEmpty (Some ([] :: booking list)) = []
   \<and> orEmpty (None :: viewedProperty list option) = []
   \<and> calculateImpulsivityScore
        \<lparr>choiceBookings = Some [], choiceSearches = None, viewedProperties = None\<rparr> =
          \<lparr>impulsivityScore = None, impulsivityCategory = None,
           averageDecisionTimeHours = None, quickDecisionPercentage = None\<rparr>
   \<and> assessRiskTolerance
        \<lparr>choiceBookings = Some [], choiceSearches = None, viewedProperties = None\<rparr> =
          \<lparr>riskToleranceScore = None, riskToleranceCategory = None,
           newDestinationPercentage = None, lowRatingBookingPercentage = None,
           lastMinuteBookingPercentage = None\<rparr>
   \<and> analyzeTimePatterns 100000 0
          (Some \<lparr>activityBookings = None, activitySessions = Some [], activitySearches = None\<rparr>) =
          Inr \<lparr>bookingTime = Some \<lparr>preferredDayOfWeek = None, preferredTimeOfDay = None,
                                    dayDistribution = None, timeDistribution = None\<rparr>,
               browsingTime = Some \<lparr>preferredBrowsingTime = None, averageSessionDuration = None,
                                     hourlyDistribution = None\<rparr>,
               seasonalPreference = Some \<lparr>preferredSeason = None, seasonalDistribution = []\<rparr>,
               planningHorizon = Some \<lparr>averagePlanningDays = None, planningStyle = None,
                                       shortestPlanningDays = None, longestPlanningDays = None\<rparr>\<rparr>
   \<and> calculateAverageHoverTime [] =
     Inr \<lparr>averageTime = None, mostViewedElementType = None, elementBreakdown = None\<rparr>"
  using empty_inputs_null_shapes [of 0 100000 "Some []" None None None "Some []" None None None None None]
  by (simp add: orEmpty_def)

text \<open>
  Claim C8, as the code has it. \<open>calculatePlanningWindow\<close> has no filter for bookings
  that lack a date, and it passes all the per-booking counts to \<open>Math.min\<close> and \<open>Math.max\<close>
  as the arguments of one call. For a non-empty list of bookings whose booking date and
  check-in date all parse (and lie less than \<open>2^52\<close> milliseconds apart), no longer than
  the engine's limit on the arguments of a call (and than \<open>2^26\<close>), it reports the mean of
  the per-booking whole-day counts rounded to the nearest integer, the minimum and the
  maximum of the counts, and the style of the rounded mean: Spontaneous under 14, Moderate
  Planner from 14 to 59, Advance Planner from 60. A non-empty list longer than the
  engine's limit raises a RangeError. For the booking of Scenario A the report is 9 days
  and Spontaneous on a host from UTC-3 to UTC+14, and 8 days and Spontaneous on a host
  from UTC-12 to west of UTC-3 (the booking date has no offset and is read as local time,
  the check-in date is read as UTC).
\<close>

theorem planning_window_valid_dates:
  "(bookings \<noteq> [] \<and> list_all hasPlanningDates bookings
      \<and> length bookings \<le> maxArguments \<and> length bookings \<le> 2 ^ 26 \<longrightarrow>
      calculatePlanningWindow maxArguments bookings =
        Inr \<lparr>averagePlanningDays =
               Some (Num (of_int (roundHalfUp (real_of_int (sum_list (map wholeDays bookings))
                                                 / real (length bookings))))),
             planningStyle =
               Some (planningStyleOf (roundHalfUp (real_of_int (sum_list (map wholeDays bookings))
                                                      / real (length bookings)))),
             shortestPlanningDays = Some (Num (of_int (Min (set (map wholeDays bookings))))),
             longestPlanningDays = Some (Num (of_int (Max (set (map wholeDays bookings)))))\<rparr>)
   \<and> (bookings \<noteq> [] \<and> maxArguments < length bookings \<longrightarrow>
        calculatePlanningWindow maxArguments bookings = Inl RangeError)
   \<and> (0 < maxArguments \<and> - 180 \<le> tz \<and> tz \<le> 840 \<longrightarrow>
        calculatePlanningWindow maxArguments [scenarioBooking tz] =
          Inr \<lparr>averagePlanningDays = Some (Num 9), planningStyle = Some ''Spontaneous'',
               shortestPlanningDays = Some (Num 9), longestPlanningDays = Some (Num 9)\<rparr>)
   \<and> (0 < maxArguments \<and> - 720 \<le> tz \<and> tz < - 180 \<longrightarrow>
        calculatePlanningWindow maxArguments [scenarioBooking tz] =
          Inr \<lparr>averagePlanningDays = Some (Num 8), planningStyle = Some ''Spontaneous'',
               shortestPlanningDays = Some (Num 8), longestPlanningDays = Some (Num 8)\<rparr>)"
proof (intro conjI impI)
  assume "bookings \<noteq> [] \<and> list_all hasPlanningDates bookings
      \<and> length bookings \<le> maxArguments \<and> length bookings \<le> 2 ^ 26"
  then show "calculatePlanningWindow maxArguments bookings =
        Inr \<lparr>averagePlanningDays =
               Some (Num (of_int (roundHalfUp (real_of_int (sum_list (map wholeDays bookings))
                                                 / real (length bookings))))),
             planningStyle =
               Some (planningStyleOf (roundHalfUp (real_of_int (sum_list (map wholeDays bookings))
                                                      / real (length bookings)))),
             shortestPlanningDays = Some (Num (of_int (Min (set (map wholeDays bookings))))),
             longestPlanningDays = Some (Num (of_int (Max (set (map wholeDays bookings)))))\<rparr>"
    using calculatePlanningWindow_valid [of bookings maxArguments]
    by (simp add: planningReport_def)
next
  assume "bookings \<noteq> [] \<and> maxArguments < length bookings"
  then show "calculatePlanningWindow maxArguments bookings = Inl RangeError"
    using calculatePlanningWindow_too_long [of bookings maxArguments] by simp
next
  assume a: "0 < maxArguments \<and> - 180 \<le> tz \<and> tz \<le> 840"
  then have d: "hasPlanningDates (scenarioBooking tz)" "wholeDays (scenarioBooking tz) = 9"
    using scenario_days [of tz] by simp_all
  show "calculatePlanningWindow maxArguments [scenarioBooking tz] =
          Inr \<lparr>averagePlanningDays = Some (Num 9), planningStyle = Some ''Spontaneous'',
               shortestPlanningDays = Some (Num 9), longestPlanningDays = Some (Num 9)\<rparr>"
    using calculatePlanningWindow_valid [of "[scenarioBooking tz]" maxArguments] d a
    by (simp add: planningReport_def roundHalfUp_def planningStyleOf_def)
next
  assume a: "0 < maxArguments \<and> - 720 \<le> tz \<and> tz < - 180"
  then have d: "hasPlanningDates (scenarioBooking tz)" "wholeDays (scenarioBooking tz) = 8"
    using scenario_days [of tz] by simp_all
  show "calculatePlanningWindow maxArguments [scenarioBooking tz] =
          Inr \<lparr>averagePlanningDays = Some (Num 8), planningStyle = Some ''Spontaneous'',
               shortestPlanningDays = Some (Num 8), longestPlanningDays = Some (Num 8)\<rparr>"
    using calculatePlanningWindow_valid [of "[scenarioBooking tz]" maxArguments] d a
    by (simp add: planningReport_def roundHalfUp_def planningStyleOf_def)
qed

text \<open>Scenario A with a limit of 100000 arguments, on a host in UTC and on one at UTC-5,
  and with a limit of no argument at all.\<close>

theorem planning_window_valid_dates_witness:
  "[scenarioBooking 0] \<noteq> []
   \<and> list_all hasPlanningDates [scenarioBooking 0]
   \<and> length [scenarioBooking 0] \<le> (100000::nat)
   \<and> length [scenarioBooking 0] \<le> (2::nat) ^ 26
   \<and> wholeDays (scenarioBooking 0) = 9
   \<and> shortestPlanningDays (projr (calculatePlanningWindow 100000 [scenarioBooking 0]))
        = Some (Num (of_int (wholeDays (scenarioBooking 0))))
   \<and> (0::nat) < length [scenarioBooking 0]
   \<and> calculatePlanningWindow 0 [scenarioBooking 0] = Inl RangeError
   \<and> (0::nat) < 100000 \<and> (- 180 :: int) \<le> 0 \<and> (0 :: int) \<le> 840
   \<and> calculatePlanningWindow 100000 [scenarioBooking 0] =
        Inr \<lparr>averagePlanningDays = Some (Num 9), planningStyle = Some ''Spontaneous'',
             shortestPlanningDays = Some (Num 9), longestPlanningDays = Some (Num 9)\<rparr>
   \<and> (- 720 :: int) \<le> - 300 \<and> (- 300 :: int) < - 180
   \<and> calculatePlanningWindow 100000 [scenarioBooking (- 300)] =
        Inr \<lparr>averagePlanningDays = Some (Num 8), planningStyle = Some ''Spontaneous'',
             shortestPlanningDays = Some (Num 8), longestPlanningDays = Some (Num 8)\<rparr>"
proof -
  have h: "hasPlanningDates (scenarioBooking 0)"
    using scenario_days(1) [of 0] by simp
  have w: "wholeDays (scenarioBooking 0) = 9"
    using scenario_days(2) [of 0] by simp
  have g: "shortestPlanningDays (projr (calculatePlanningWindow 100000 [scenarioBooking 0]))
        = Some (Num (of_int (wholeDays (scenarioBooking 0))))"
    using planning_window_valid_dates [of "[scenarioBooking 0]" 100000 0, THEN conjunct1] h by simp
  have r: "calculatePlanningWindow 0 [scenarioBooking 0] = Inl RangeError"
    using planning_window_valid_dates [of "[scenarioBooking 0]" 0 0, THEN conjunct2, THEN conjunct1]
    by simp
  have n: "calculatePlanningWindow 100000 [scenarioBooking 0] =
        Inr \<lparr>averagePlanningDays = Some (Num 9), planningStyle = Some ''Spontaneous'',
             shortestPlanningDays = Some (Num 9), longestPlanningDays = Some (Num 9)\<rparr>"
    using planning_window_valid_dates [of "[scenarioBooking 0]" 100000 0,
        THEN conjunct2, THEN conjunct2, THEN conjunct1] by simp
  have e: "calculatePlanningWindow 100000 [scenarioBooking (- 300)] =
        Inr \<lparr>averagePlanningDays = Some (Num 8), planningStyle = Some ''Spontaneous'',
             shortestPlanningDays = Some (Num 8), longestPlanningDays = Some (Num 8)\<rparr>"
    using planning_window_valid_dates [of "[scenarioBooking 0]" 100000 "- 300",
        THEN conjunct2, THEN conjunct2, THEN conjunct2] by simp
  from h have l: "list_all hasPlanningDates [scenarioBooking 0]" by simp
  show ?thesis
    by (intro conjI l w g r n e) simp_all
qed

text \<open>
  Without the restrictions the claim fails. A booking without a check-in date is not
  skipped: its count is NaN, and so are the mean, the minimum and the maximum, and the
  style is Advance Planner, here next to the booking of Scenario A, made 9 days ahead.
  And on a host at UTC-5 Scenario A reports 8 days, where the claim expects 9.
\<close>

theorem planning_window_counterexample:
  "hasPlanningDates (scenarioBooking 0)
   \<and> wholeDays (scenarioBooking 0) = 9
   \<and> \<not> hasPlanningDates ((scenarioBooking 0)\<lparr>checkIn := None\<rparr>)
   \<and> calculatePlanningWindow 100000 [scenarioBooking 0, (scenarioBooking 0)\<lparr>checkIn := None\<rparr>] =
     Inr \<lparr>averagePlanningDays = Some NaN, planningStyle = Some ''Advance Planner'',
          shortestPlanningDays = Some NaN, longestPlanningDays = Some NaN\<rparr>
   \<and> calculatePlanningWindow 100000 [scenarioBooking (- 300)] =
     Inr \<lparr>averagePlanningDays = Some (Num 8), planningStyle = Some ''Spontaneous'',
          shortestPlanningDays = Some (Num 8), longestPlanningDays = Some (Num 8)\<rparr>"
proof -
  have p9: "planningDays (scenarioBooking 0) = Num 9"
    using planningDays_valid [OF scenario_days(1) [of 0]] scenario_days(2) [of 0] by simp
  have pn: "planningDays ((scenarioBooking 0)\<lparr>checkIn := None\<rparr>) = NaN"
    by (simp add: planningDays_def newDate_def jssub_def)
  have a: "calculatePlanningWindow 100000 [scenarioBooking 0, (scenarioBooking 0)\<lparr>checkIn := None\<rparr>] =
     Inr \<lparr>averagePlanningDays = Some NaN, planningStyle = Some ''Advance Planner'',
          shortestPlanningDays = Some NaN, longestPlanningDays = Some NaN\<rparr>"
    by (simp add: calculatePlanningWindow_def Let_def p9 pn spreadMin_def spreadMax_def
        jsminList_def jsmaxList_def jsmin_def jsmax_def jslt_def)
  have d: "hasPlanningDates (scenarioBooking (- 300))" "wholeDays (scenarioBooking (- 300)) = 8"
    using scenario_days [of "- 300"] by simp_all
  have b: "calculatePlanningWindow 100000 [scenarioBooking (- 300)] =
     Inr \<lparr>averagePlanningDays = Some (Num 8), planningStyle = Some ''Spontaneous'',
          shortestPlanningDays = Some (Num 8), longestPlanningDays = Some (Num 8)\<rparr>"
    using calculatePlanningWindow_valid [of "[scenarioBooking (- 300)]" 100000] d
    by (simp add: planningReport_def roundHalfUp_def planningStyleOf_def)
  have h: "hasPlanningDates (scenarioBooking 0)" "wholeDays (scenarioBooking 0) = 9"
    using scenario_days [of 0] by simp_all
  have nh: "\<not> hasPlanningDates ((scenarioBooking 0)\<lparr>checkIn := None\<rparr>)"
    by (simp add: hasPlanningDates_def newDate_def split: jsdate.splits)
  show ?thesis by (intro conjI h nh a b)
qed

text \<open>
  Claim C9 at four scroll records at depth 50, of which only the first reports a speed,
  3000. The mean speed over the records that report a speed is 3000, which the 2-by-2
  rule of the claim turns into Quick Scanner. The code divides the speed total by the
  number of all four records, reports 750.0 px/s and answers Casual Browser, although
  the depth total of the same loop is divided by its own counter of reporting records.
\<close>

theorem scroll_speed_counterexample:
  "reportedSpeeds exampleScrolls = [3000]
   \<and> meanOf (reportedSpeeds exampleScrolls) = 3000
   \<and> meanOf (reportedDepths exampleScrolls) = 50
   \<and> claimedScrollBehavior exampleScrolls = ''Quick Scanner''
   \<and> analyzeScrollPatterns exampleScrolls =
       \<lparr>scrollDepth = Some ''50.0%'', scrollSpeed = Some ''750.0 px/s'',
        scrollBehavior = Some ''Casual Browser''\<rparr>"
  by (simp add: exampleScrolls_result)
    (simp add: exampleScrolls_reports claimedScrollBehavior_def meanOf_def scrollLabel_def)

text \<open>
  Claim C4, as the code has it. A booking has a decision time exactly when some search is
  related to it: a search for the same property, or one both of whose dates parse and lie
  less than 24 hours apart. For a bundle with at least one booking, the mean decision
  time in the score is the sum of the decision times of the bookings that have a related
  search divided by the number of all bookings: a booking without a related search adds
  nothing to the sum and still counts in the divisor. The quick-decision rate divides by
  the number of all bookings as well. The score is \<open>min(100, max(0, (100 - (mean / 24) *
  20) + rate / 2))\<close>, evaluated in binary64 arithmetic and written by \<open>toFixed(0)\<close>.
\<close>

theorem impulsivity_mean_over_all_bookings:
  "orEmpty (choiceBookings choices) \<noteq> [] \<longrightarrow>
     impulsivityScore (calculateImpulsivityScore choices)
       = Some (toFixed 0 (impulsivityFormula (meanDecisionHours choices) (quickDecisionRate choices)))
     \<and> averageDecisionTimeHours (calculateImpulsivityScore choices)
       = Some (toFixed 1 (meanDecisionHours choices))
     \<and> quickDecisionPercentage (calculateImpulsivityScore choices)
       = Some (toFixed 1 (quickDecisionRate choices))
     \<and> (\<forall>b. (decisionTimeOf (orEmpty (choiceSearches choices)) b \<noteq> None)
              = list_ex (relatedTo b) (orEmpty (choiceSearches choices)))"
proof (intro impI)
  assume ne: "orEmpty (choiceBookings choices) \<noteq> []"
  have r: "impulsivityScore (calculateImpulsivityScore choices)
       = Some (toFixed 0 (impulsivityFormula (meanDecisionHours choices) (quickDecisionRate choices)))"
    "averageDecisionTimeHours (calculateImpulsivityScore choices)
       = Some (toFixed 1 (meanDecisionHours choices))"
    "quickDecisionPercentage (calculateImpulsivityScore choices)
       = Some (toFixed 1 (quickDecisionRate choices))"
    unfolding calculateImpulsivityScore_nonempty [OF ne]
    by (simp_all add: Let_def meanDecisionHours_def quickDecisionRate_def)
  have g: "\<forall>b. (decisionTimeOf (orEmpty (choiceSearches choices)) b \<noteq> None)
              = list_ex (relatedTo b) (orEmpty (choiceSearches choices))"
    by (simp only: decisionTimeOf_related simp_thms)
  show "impulsivityScore (calculateImpulsivityScore choices)
       = Some (toFixed 0 (impulsivityFormula (meanDecisionHours choices) (quickDecisionRate choices)))
     \<and> averageDecisionTimeHours (calculateImpulsivityScore choices)
       = Some (toFixed 1 (meanDecisionHours choices))
     \<and> quickDecisionPercentage (calculateImpulsivityScore choices)
       = Some (toFixed 1 (quickDecisionRate choices))
     \<and> (\<forall>b. (decisionTimeOf (orEmpty (choiceSearches choices)) b \<noteq> None)
              = list_ex (relatedTo b) (orEmpty (choiceSearches choices)))"
    by (rule conjI [OF r(1) conjI [OF r(2) conjI [OF r(3) g]]])
qed

text \<open>Two bookings, one of them with a related search 48 hours earlier: the mean is 24
  hours and the score 80.\<close>

theorem impulsivity_mean_over_all_bookings_witness:
  "orEmpty (choiceBookings exampleChoices) \<noteq> []
   \<and> length (orEmpty (choiceBookings exampleChoices)) = 2
   \<and> decisionTimes (orEmpty (choiceSearches exampleChoices)) (orEmpty (choiceBookings exampleChoices))
       = [Num 48]
   \<and> meanDecisionHours exampleChoices = Num 24
   \<and> quickDecisionRate exampleChoices = Num 0
   \<and> impulsivityScore (calculateImpulsivityScore exampleChoices) = Some (Fixed False 80 0)
   \<and> fixedString (Fixed False 80 0) = ''80''"
proof -
  note t = impulsivity_mean_over_all_bookings [of exampleChoices, rule_format,
      OF exampleChoices_times(1)]
  from t have sc: "impulsivityScore (calculateImpulsivityScore exampleChoices)
       = Some (toFixed 0 (impulsivityFormula (meanDecisionHours exampleChoices)
                            (quickDecisionRate exampleChoices)))"
    by (rule conjunct1)
  have m: "meanDecisionHours exampleChoices = Num 24"
    by (simp add: meanDecisionHours_def exampleChoices_times jsSum_def)
  have q: "quickDecisionRate exampleChoices = Num 0"
    by (simp add: quickDecisionRate_def exampleChoices_times ratioPercent_def jslt_def)
  have f: "impulsivityFormula (Num 24) (Num 0) = Num 80"
    by (simp add: impulsivityFormula_def jssub_def jsmin_def jsmax_def jslt_def)
  have "impulsivityScore (calculateImpulsivityScore exampleChoices) = Some (Fixed False 80 0)"
    unfolding sc m q f by (simp add: toFixed_def)
  moreover have "fixedString (Fixed False 80 0) = ''80''"
    by (simp add: natString.simps digitChar_def)
  ultimately show ?thesis using exampleChoices_times m q by simp
qed

text \<open>
  On the same bundle the mean over the bookings that have a related search, as claim C4
  words it, is 48 hours, which gives the score 60; the code reports a mean of 24.0 hours
  and the score 80.
\<close>

theorem impulsivity_mean_counterexample:
  "decisionTimes (orEmpty (choiceSearches exampleChoices)) (orEmpty (choiceBookings exampleChoices))
       = [Num 48]
   \<and> length (orEmpty (choiceBookings exampleChoices)) = 2
   \<and> claimedMeanDecisionHours (orEmpty (choiceSearches exampleChoices))
        (orEmpty (choiceBookings exampleChoices)) = Num 48
   \<and> toFixed 0 (impulsivityFormula (Num 48) (quickDecisionRate exampleChoices)) = Fixed False 60 0
   \<and> averageDecisionTimeHours (calculateImpulsivityScore exampleChoices) = Some (Fixed False 240 1)
   \<and> fixedString (Fixed False 240 1) = ''24.0''
   \<and> impulsivityScore (calculateImpulsivityScore exampleChoices) = Some (Fixed False 80 0)"
proof -
  note r = calculateImpulsivityScore_nonempty [OF exampleChoices_times(1)]
  have q: "quickDecisionRate exampleChoices = Num 0"
    by (simp add: quickDecisionRate_def exampleChoices_times ratioPercent_def jslt_def)
  have c: "claimedMeanDecisionHours (orEmpty (choiceSearches exampleChoices))
        (orEmpty (choiceBookings exampleChoices)) = Num 48"
    by (simp add: claimedMeanDecisionHours_def exampleChoices_times jsSum_def)
  have f60: "toFixed 0 (impulsivityFormula (Num 48) (quickDecisionRate exampleChoices)) = Fixed False 60 0"
    by (simp add: q impulsivityFormula_def jssub_def jsmin_def jsmax_def jslt_def toFixed_def)
  have a: "averageDecisionTimeHours (calculateImpulsivityScore exampleChoices) = Some (Fixed False 240 1)"
    unfolding r by (simp add: Let_def exampleChoices_times jsSum_def toFixed_def)
  have s: "fixedString (Fixed False 240 1) = ''24.0''"
    by (simp add: natString.simps digitChar_def)
  have i: "impulsivityScore (calculateImpulsivityScore exampleChoices) = Some (Fixed False 80 0)"
    unfolding r
    by (simp add: Let_def exampleChoices_times jsSum_def ratioPercent_def jslt_def
        impulsivityFormula_def jssub_def jsmin_def jsmax_def toFixed_def)
  show ?thesis
    by (intro conjI exampleChoices_times c f60 a s i)
qed


section \<open>Claims about the distributions\<close>

text \<open>
  Claim C6, as the code has it. \<open>detectBookingPatterns\<close> does not skip a booking whose
  booking date cannot be parsed. For a non-empty list the count of a weekday is the
  number of bookings whose date parses and falls on that day, the count of a time band is
  the number of bookings in that band, where a booking without a parseable date is in the
  band \<open>night\<close>, and every percentage divides by the number of all bookings. So such a
  booking is in no day bucket, adds one to \<open>night\<close>, and adds one to every denominator;
  the report is produced all the same.
\<close>

theorem malformed_booking_counted:
  "bookings \<noteq> [] \<longrightarrow>
     dayDistribution (detectBookingPatterns tz bookings) =
       Some (map (\<lambda>i. \<lparr>label = days ! i, count = dayCount tz bookings i,
                         percentage = percentageOf (dayCount tz bookings i) (length bookings)\<rparr>)
               [0..<7])
     \<and> timeDistribution (detectBookingPatterns tz bookings) =
       Some (map (\<lambda>band. \<lparr>label = band, count = bandCount tz bookings band,
                            percentage = percentageOf (bandCount tz bookings band) (length bookings)\<rparr>)
               [''morning'', ''afternoon'', ''evening'', ''night''])
     \<and> (\<forall>b bs1 bs2. bookings = bs1 @ b # bs2 \<and> newDate (bookingDate b) = InvalidDate \<longrightarrow>
           (\<forall>i. dayCount tz bookings i = dayCount tz (bs1 @ bs2) i)
           \<and> bandCount tz bookings ''night'' = bandCount tz (bs1 @ bs2) ''night'' + 1
           \<and> (\<forall>band. band \<noteq> ''night'' \<longrightarrow>
                 bandCount tz bookings band = bandCount tz (bs1 @ bs2) band)
           \<and> length bookings = length (bs1 @ bs2) + 1)"
proof (intro impI conjI allI)
  assume ne: "bookings \<noteq> []"
  show "dayDistribution (detectBookingPatterns tz bookings) =
       Some (map (\<lambda>i. \<lparr>label = days ! i, count = dayCount tz bookings i,
                         percentage = percentageOf (dayCount tz bookings i) (length bookings)\<rparr>)
               [0..<7])"
    by (rule detectBookingPatterns_distributions(1) [OF ne])
  show "timeDistribution (detectBookingPatterns tz bookings) =
       Some (map (\<lambda>band. \<lparr>label = band, count = bandCount tz bookings band,
                            percentage = percentageOf (bandCount tz bookings band) (length bookings)\<rparr>)
               [''morning'', ''afternoon'', ''evening'', ''night''])"
    by (rule detectBookingPatterns_distributions(2) [OF ne])
next
  fix b bs1 bs2 i
  assume a: "bookings = bs1 @ b # bs2 \<and> newDate (bookingDate b) = InvalidDate"
  then show "dayCount tz bookings i = dayCount tz (bs1 @ bs2) i"
    by (simp add: dayCount_insert_malformed)
next
  fix b bs1 bs2
  assume a: "bookings = bs1 @ b # bs2 \<and> newDate (bookingDate b) = InvalidDate"
  then show "bandCount tz bookings ''night'' = bandCount tz (bs1 @ bs2) ''night'' + 1"
    by (simp add: bandCount_insert_malformed)
next
  fix b bs1 bs2 band
  assume a: "bookings = bs1 @ b # bs2 \<and> newDate (bookingDate b) = InvalidDate"
    and "band \<noteq> ''night''"
  then show "bandCount tz bookings band = bandCount tz (bs1 @ bs2) band"
    by (simp add: bandCount_insert_malformed)
next
  fix b bs1 bs2
  assume a: "bookings = bs1 @ b # bs2 \<and> newDate (bookingDate b) = InvalidDate"
  then show "length bookings = length (bs1 @ bs2) + 1" by simp
qed

text \<open>A Monday-morning booking followed by one with an unparseable date.\<close>

theorem malformed_booking_counted_witness:
  "malformedExample \<noteq> []
   \<and> malformedExample = [bookedAt (isoLocalDateTime 0 2024 1 1 10 0)] @ bookedAt InvalidDate # []
   \<and> newDate (bookingDate (bookedAt InvalidDate)) = InvalidDate
   \<and> bandCount 0 malformedExample ''night''
       = bandCount 0 [bookedAt (isoLocalDateTime 0 2024 1 1 10 0)] ''night'' + 1
   \<and> bandCount 0 malformedExample ''night'' = 1
   \<and> length malformedExample = 2"
proof -
  have ne: "malformedExample \<noteq> []" by (simp add: malformedExample_def)
  have sp: "malformedExample = [bookedAt (isoLocalDateTime 0 2024 1 1 10 0)] @ bookedAt InvalidDate # []"
    by (simp add: malformedExample_def)
  have inv: "newDate (bookingDate (bookedAt InvalidDate)) = InvalidDate"
    by (simp add: bookedAt_def newDate_def)
  from malformed_booking_counted [of malformedExample 0] ne
  have "\<forall>b bs1 bs2. malformedExample = bs1 @ b # bs2 \<and> newDate (bookingDate b) = InvalidDate \<longrightarrow>
           (\<forall>i. dayCount 0 malformedExample i = dayCount 0 (bs1 @ bs2) i)
           \<and> bandCount 0 malformedExample ''night'' = bandCount 0 (bs1 @ bs2) ''night'' + 1
           \<and> (\<forall>band. band \<noteq> ''night'' \<longrightarrow>
                 bandCount 0 malformedExample band = bandCount 0 (bs1 @ bs2) band)
           \<and> length malformedExample = length (bs1 @ bs2) + 1"
    by blast
  from this [rule_format, of "[bookedAt (isoLocalDateTime 0 2024 1 1 10 0)]" "bookedAt InvalidDate" "[]"]
    sp inv
  have n: "bandCount 0 malformedExample ''night''
       = bandCount 0 ([bookedAt (isoLocalDateTime 0 2024 1 1 10 0)] @ []) ''night'' + 1"
    and l: "length malformedExample = length ([bookedAt (isoLocalDateTime 0 2024 1 1 10 0)] @ []) + 1"
    by blast+
  have z: "bandCount 0 [bookedAt (isoLocalDateTime 0 2024 1 1 10 0)] ''night'' = 0"
    by (simp add: bandCount_def example_days timeBand_def)
  from n l z ne sp inv show ?thesis by simp
qed

text \<open>
  With the unparseable booking the report has Monday and morning at 50.0 percent and one
  booking at night; without it, Monday and morning are at 100.0 percent and night is
  empty. Claim C6 expects the two reports to agree.
\<close>

theorem malformed_booking_counterexample:
  "dayDistribution (detectBookingPatterns 0 malformedExample) =
     Some [\<lparr>label = ''Sunday'', count = 0, percentage = Fixed False 0 1\<rparr>,
           \<lparr>label = ''Monday'', count = 1, percentage = Fixed False 500 1\<rparr>,
           \<lparr>label = ''Tuesday'', count = 0, percentage = Fixed False 0 1\<rparr>,
           \<lparr>label = ''Wednesday'', count = 0, percentage = Fixed False 0 1\<rparr>,
           \<lparr>label = ''Thursday'', count = 0, percentage = Fixed False 0 1\<rparr>,
           \<lparr>label = ''Friday'', count = 0, percentage = Fixed False 0 1\<rparr>,
           \<lparr>label = ''Saturday'', count = 0, percentage = Fixed False 0 1\<rparr>]
   \<and> timeDistribution (detectBookingPatterns 0 malformedExample) =
     Some [\<lparr>label = ''morning'', count = 1, percentage = Fixed False 500 1\<rparr>,
           \<lparr>label = ''afternoon'', count = 0, percentage = Fixed False 0 1\<rparr>,
           \<lparr>label = ''evening'', count = 0, percentage = Fixed False 0 1\<rparr>,
           \<lparr>label = ''night'', count = 1, percentage = Fixed False 500 1\<rparr>]
   \<and> fixedString (Fixed False 500 1) = ''50.0''
   \<and> dayDistribution (detectBookingPatterns 0 [bookedAt (isoLocalDateTime 0 2024 1 1 10 0)]) =
     Some [\<lparr>label = ''Sunday'', count = 0, percentage = Fixed False 0 1\<rparr>,
           \<lparr>label = ''Monday'', count = 1, percentage = Fixed False 1000 1\<rparr>,
           \<lparr>label = ''Tuesday'', count = 0, percentage = Fixed False 0 1\<rparr>,
           \<lparr>label = ''Wednesday'', count = 0, percentage = Fixed False 0 1\<rparr>,
           \<lparr>label = ''Thursday'', count = 0, percentage = Fixed False 0 1\<rparr>,
           \<lparr>label = ''Friday'', count = 0, percentage = Fixed False 0 1\<rparr>,
           \<lparr>label = ''Saturday'', count = 0, percentage = Fixed False 0 1\<rparr>]
   \<and> timeDistribution (detectBookingPatterns 0 [bookedAt (isoLocalDateTime 0 2024 1 1 10 0)]) =
     Some [\<lparr>label = ''morning'', count = 1, percentage = Fixed False 1000 1\<rparr>,
           \<lparr>label = ''afternoon'', count = 0, percentage = Fixed False 0 1\<rparr>,
           \<lparr>label = ''evening'', count = 0, percentage = Fixed False 0 1\<rparr>,
           \<lparr>label = ''night'', count = 0, percentage = Fixed False 0 1\<rparr>]
   \<and> fixedString (Fixed False 1000 1) = ''100.0''"
proof -
  have s: "fixedString (Fixed False 500 1) = ''50.0''" "fixedString (Fixed False 1000 1) = ''100.0''"
    by (simp_all add: natString.simps digitChar_def)
  show ?thesis
    by (intro conjI malformedExample_distributions validAlone_distributions s)
qed

end
